theory Spec2Isabelle
  imports Main
begin

section \<open>The catalog cache of the Xtream Codes API client\<close>

text \<open>
  A shallow embedding of the class \<open>XtreamCodesApi\<close> (the API access object with its
  in-memory and persisted catalog caches). Each method is a function from the state
  before the call to the outcome of the returned promise and the state after it.

  What the embedding fixes:
  \<^item> every method runs to completion before the next one starts (no interleaving of two
    pending promises); a call that the source does not await, such as
    \<open>this.saveVodCache(...)\<close>, is run in place;
  \<^item> \<open>Date.now()\<close>, the outcome of \<open>axios.get\<close> and the failures of \<open>AsyncStorage\<close> are
    inputs of each call;
  \<^item> \<open>JSON.stringify\<close> and \<open>JSON.parse\<close> are platform functions and are parameters, at the
    types the TypeScript declarations give to the values they are applied to: a stored text
    either fails to parse, or denotes \<open>null\<close>, or denotes a value of the declared type;
  \<^item> a condition on an optional string, as in \<open>if (vodCacheStr)\<close> or \<open>if (category_id)\<close>,
    holds when the string is present and not empty;
  \<^item> epoch milliseconds are integers.
\<close>

subsection \<open>Constants\<close>

definition AUTH_STORAGE_KEY :: string where
  "AUTH_STORAGE_KEY = ''huluxtream_auth''"

definition VOD_CACHE_KEY :: string where
  "VOD_CACHE_KEY = ''huluxtream_vod_cache''"

definition VOD_CATEGORIES_CACHE_KEY :: string where
  "VOD_CATEGORIES_CACHE_KEY = ''huluxtream_vod_categories_cache''"

definition SERIES_CACHE_KEY :: string where
  "SERIES_CACHE_KEY = ''huluxtream_series_cache''"

definition SERIES_CATEGORIES_CACHE_KEY :: string where
  "SERIES_CATEGORIES_CACHE_KEY = ''huluxtream_series_categories_cache''"

definition CACHE_EXPIRY_TIME :: int where
  "CACHE_EXPIRY_TIME = 24 * 60 * 60 * 1000"

subsection \<open>Types\<close>

record user_info =
  username :: string
  password :: string
  message :: string
  auth :: int
  status :: string
  exp_date :: string
  is_trial :: string
  active_cons :: string
  created_at :: string
  max_connections :: string
  allowed_output_formats :: "string list"

record server_info =
  url :: string
  port :: string
  https_port :: string
  server_protocol :: string
  rtmp_port :: string
  timezone :: string
  timestamp_now :: int
  time_now :: string

record AuthResponse =
  user_info :: user_info
  server_info :: server_info

text \<open>The value \<open>getUserInfo\<close> returns.\<close>

record UserInfo =
  username :: string
  exp_date :: "string option"
  status :: "string option"
  max_connections :: "string option"

record XtreamCredentials =
  username :: string
  password :: string
  serverUrl :: string

datatype category_kind = live | movie | series

record Category =
  category_id :: string
  category_name :: string
  parent_id :: int
  category_type :: "category_kind option"

text \<open>
  The cache objects: \<open>{ data; timestamp }\<close> for the two category caches and
  \<open>{ data; timestamp; categoryId? }\<close> for the VOD and series caches. The cache code hands
  the records of \<open>Movie[]\<close>, \<open>Series[]\<close> and \<open>Channel[]\<close> through without reading a
  field, so their types are the parameters \<open>'m\<close>, \<open>'s\<close> and \<open>'c\<close>.
\<close>

record 'd cache_object =
  data :: 'd
  timestamp :: int

record 'd stream_cache_object = "'d cache_object" +
  categoryId :: "string option"

text \<open>
  What a promise rejects with: the two errors the class throws itself, the
  \<open>SyntaxError\<close> of \<open>JSON.parse\<close>, the \<open>TypeError\<close> of a property read on
  \<open>null\<close>, and a rejection that comes from \<open>axios\<close> or \<open>AsyncStorage\<close>.
\<close>

datatype error =
    NotAuthenticated
  | AuthenticationFailed
  | SyntaxError
  | TypeError
  | Rejected string

datatype storage_op = GetItem string | SetItem string | RemoveItem string

record request =
  url :: string
  params :: "(string \<times> string) list"

datatype console_line =
    Log string
  | LogCount string nat string
  | Error string error

text \<open>
  The state: the six private fields of the instance, then what lives outside it (the
  contents of \<open>AsyncStorage\<close>, the console, and the HTTP requests issued so far, oldest
  first).
\<close>

record ('m, 's) system =
  credentials :: "XtreamCredentials option"
  authData :: "AuthResponse option"
  vodCache :: "'m list stream_cache_object option"
  vodCategoriesCache :: "Category list cache_object option"
  seriesCache :: "'s list stream_cache_object option"
  seriesCategoriesCache :: "Category list cache_object option"
  storage :: "string \<rightharpoonup> string"
  console :: "console_line list"
  requests :: "request list"

text \<open>\<open>JSON.stringify\<close> and \<open>JSON.parse\<close> at one type; \<open>parse\<close> is \<open>None\<close> where
  \<open>JSON.parse\<close> throws.\<close>

record 'a json =
  stringify :: "'a \<Rightarrow> string"
  parse :: "string \<Rightarrow> 'a option"

text \<open>
  The values that go through JSON: the object \<open>{ credentials, authData }\<close> and the three
  kinds of cache object, each with \<open>null\<close> (\<open>None\<close>) beside it, which is what the text
  \<open>null\<close> parses to and what the cache fields admit.
\<close>

record ('m, 's) JSON =
  auth_json :: "(XtreamCredentials option \<times> AuthResponse option) option json"
  vod_json :: "'m list stream_cache_object option json"
  series_json :: "'s list stream_cache_object option json"
  categories_json :: "Category list cache_object option json"

text \<open>
  What one catalog fetch reads from outside: the clock at the validity check, the outcome
  of the HTTP request if one is made, the clock when the cache object is built, and the
  storage operations that reject (with which error).
\<close>

record 'r fetch_env =
  check_time :: int
  reply :: "error + 'r"
  save_time :: int
  fault :: "storage_op \<Rightarrow> error option"

text \<open>What \<open>login\<close> and \<open>clearCache\<close> read from outside.\<close>

record login_env =
  login_reply :: "error + AuthResponse"
  login_fault :: "storage_op \<Rightarrow> error option"

record ('c, 'm, 's) clear_env =
  remove_fault :: "storage_op \<Rightarrow> error option"
  live_reply :: "error + 'c list"
  vod_env :: "'m list fetch_env"
  series_env :: "'s list fetch_env"

subsection \<open>Promises: outcome and state\<close>

type_synonym ('m, 's, 'a) action = "('m, 's) system \<Rightarrow> (error + 'a) \<times> ('m, 's) system"

definition resolve :: "'a \<Rightarrow> ('m, 's, 'a) action" where
  "resolve x = (\<lambda>this. (Inr x, this))"

definition reject :: "error \<Rightarrow> ('m, 's, 'a) action" where
  "reject e = (\<lambda>this. (Inl e, this))"

definition andThen :: "('m, 's, 'a) action \<Rightarrow> ('a \<Rightarrow> ('m, 's, 'b) action) \<Rightarrow> ('m, 's, 'b) action" where
  "andThen f g = (\<lambda>this. case f this of (Inl e, this') \<Rightarrow> (Inl e, this') | (Inr x, this') \<Rightarrow> g x this')"

definition tryCatch :: "('m, 's, 'a) action \<Rightarrow> (error \<Rightarrow> ('m, 's, 'a) action) \<Rightarrow> ('m, 's, 'a) action" where
  "tryCatch body handler = (\<lambda>this. case body this of (Inl e, this') \<Rightarrow> handler e this' | (Inr x, this') \<Rightarrow> (Inr x, this'))"

definition read :: "('m, 's, ('m, 's) system) action" where
  "read = (\<lambda>this. (Inr this, this))"

definition assign :: "(('m, 's) system \<Rightarrow> ('m, 's) system) \<Rightarrow> ('m, 's, unit) action" where
  "assign f = (\<lambda>this. (Inr (), f this))"

definition console_log :: "string \<Rightarrow> ('m, 's, unit) action" where
  "console_log msg = assign (\<lambda>this. this\<lparr>console := console this @ [Log msg]\<rparr>)"

definition console_log_count :: "string \<Rightarrow> nat \<Rightarrow> string \<Rightarrow> ('m, 's, unit) action" where
  "console_log_count pre n post = assign (\<lambda>this. this\<lparr>console := console this @ [LogCount pre n post]\<rparr>)"

definition console_error :: "string \<Rightarrow> error \<Rightarrow> ('m, 's, unit) action" where
  "console_error msg e = assign (\<lambda>this. this\<lparr>console := console this @ [Error msg e]\<rparr>)"

subsection \<open>AsyncStorage and axios\<close>

text \<open>A storage operation that rejects leaves the store as it was.\<close>

definition getItem :: "(storage_op \<Rightarrow> error option) \<Rightarrow> string \<Rightarrow> ('m, 's, string option) action" where
  "getItem flt key = (\<lambda>this. case flt (GetItem key) of
       Some e \<Rightarrow> (Inl e, this)
     | None \<Rightarrow> (Inr (storage this key), this))"

definition setItem :: "(storage_op \<Rightarrow> error option) \<Rightarrow> string \<Rightarrow> string \<Rightarrow> ('m, 's, unit) action" where
  "setItem flt key v = (\<lambda>this. case flt (SetItem key) of
       Some e \<Rightarrow> (Inl e, this)
     | None \<Rightarrow> (Inr (), this\<lparr>storage := (storage this)(key \<mapsto> v)\<rparr>))"

definition removeItem :: "(storage_op \<Rightarrow> error option) \<Rightarrow> string \<Rightarrow> ('m, 's, unit) action" where
  "removeItem flt key = (\<lambda>this. case flt (RemoveItem key) of
       Some e \<Rightarrow> (Inl e, this)
     | None \<Rightarrow> (Inr (), this\<lparr>storage := (storage this)(key := None)\<rparr>))"

text \<open>\<open>axios.get(url, { params })\<close>: the request is issued, then the promise settles.\<close>

definition axios_get :: "(error + 'r) \<Rightarrow> string \<Rightarrow> (string \<times> string) list \<Rightarrow> ('m, 's, 'r) action" where
  "axios_get rep u ps = (\<lambda>this.
     (rep, this\<lparr>requests := requests this @ [\<lparr>url = u, params = ps\<rparr>]\<rparr>))"


subsection \<open>Credentials\<close>

text \<open>
  \<open>loadCredentials\<close> reads \<open>parsed.credentials\<close> and \<open>parsed.authData\<close>: on \<open>null\<close> the first
  property access throws a \<open>TypeError\<close>, before either field is assigned.
\<close>

definition loadCredentials :: "('m, 's) JSON \<Rightarrow> (storage_op \<Rightarrow> error option) \<Rightarrow> ('m, 's, unit) action" where
  "loadCredentials J flt =
     tryCatch
       (andThen (getItem flt AUTH_STORAGE_KEY) (\<lambda>storedAuth.
          case storedAuth of
            None \<Rightarrow> resolve ()
          | Some str \<Rightarrow>
              if str \<noteq> [] then
                (case parse (auth_json J) str of
                   None \<Rightarrow> reject SyntaxError
                 | Some None \<Rightarrow> reject TypeError
                 | Some (Some parsed) \<Rightarrow>
                     assign (\<lambda>this. this\<lparr>credentials := fst parsed, authData := snd parsed\<rparr>))
              else resolve ()))
       (\<lambda>e. console_error ''Failed to load auth data:'' e)"

definition saveCredentials :: "('m, 's) JSON \<Rightarrow> (storage_op \<Rightarrow> error option) \<Rightarrow> ('m, 's, unit) action" where
  "saveCredentials J flt =
     tryCatch
       (andThen read (\<lambda>this.
          setItem flt AUTH_STORAGE_KEY
            (stringify (auth_json J) (Some (credentials this, authData this)))))
       (\<lambda>e. console_error ''Failed to save auth data:'' e)"

subsection \<open>Loading and saving the caches\<close>

text \<open>
  \<open>Promise.all\<close> over the four reads: the four values if every read resolves, the
  rejection of the first rejecting read (in the order of the array) otherwise. Each field is
  assigned what \<open>JSON.parse\<close> returns, \<open>null\<close> included.
\<close>

definition loadCaches :: "('m, 's) JSON \<Rightarrow> (storage_op \<Rightarrow> error option) \<Rightarrow> ('m, 's, unit) action" where
  "loadCaches J flt =
     tryCatch
       (andThen (getItem flt VOD_CACHE_KEY) (\<lambda>vodCacheStr.
        andThen (getItem flt VOD_CATEGORIES_CACHE_KEY) (\<lambda>vodCategoriesCacheStr.
        andThen (getItem flt SERIES_CACHE_KEY) (\<lambda>seriesCacheStr.
        andThen (getItem flt SERIES_CATEGORIES_CACHE_KEY) (\<lambda>seriesCategoriesCacheStr.
        andThen (case vodCacheStr of
                   None \<Rightarrow> resolve ()
                 | Some str \<Rightarrow>
                     if str \<noteq> [] then
                       (case parse (vod_json J) str of
                          None \<Rightarrow> reject SyntaxError
                        | Some obj \<Rightarrow> assign (\<lambda>this. this\<lparr>vodCache := obj\<rparr>))
                     else resolve ()) (\<lambda>_.
        andThen (case vodCategoriesCacheStr of
                   None \<Rightarrow> resolve ()
                 | Some str \<Rightarrow>
                     if str \<noteq> [] then
                       (case parse (categories_json J) str of
                          None \<Rightarrow> reject SyntaxError
                        | Some obj \<Rightarrow> assign (\<lambda>this. this\<lparr>vodCategoriesCache := obj\<rparr>))
                     else resolve ()) (\<lambda>_.
        andThen (case seriesCacheStr of
                   None \<Rightarrow> resolve ()
                 | Some str \<Rightarrow>
                     if str \<noteq> [] then
                       (case parse (series_json J) str of
                          None \<Rightarrow> reject SyntaxError
                        | Some obj \<Rightarrow> assign (\<lambda>this. this\<lparr>seriesCache := obj\<rparr>))
                     else resolve ()) (\<lambda>_.
        (case seriesCategoriesCacheStr of
           None \<Rightarrow> resolve ()
         | Some str \<Rightarrow>
             if str \<noteq> [] then
               (case parse (categories_json J) str of
                  None \<Rightarrow> reject SyntaxError
                | Some obj \<Rightarrow> assign (\<lambda>this. this\<lparr>seriesCategoriesCache := obj\<rparr>))
             else resolve ())))))))))
       (\<lambda>e. console_error ''Failed to load caches:'' e)"

definition saveVodCache ::
  "('m, 's) JSON \<Rightarrow> int \<Rightarrow> (storage_op \<Rightarrow> error option) \<Rightarrow> 'm list \<Rightarrow> string option \<Rightarrow> ('m, 's, unit) action" where
  "saveVodCache J now flt movies categoryId' =
     tryCatch
       (let cacheObject = \<lparr>data = movies, timestamp = now, categoryId = categoryId'\<rparr> in
        andThen (assign (\<lambda>this. this\<lparr>vodCache := Some cacheObject\<rparr>)) (\<lambda>_.
        setItem flt VOD_CACHE_KEY (stringify (vod_json J) (Some cacheObject))))
       (\<lambda>e. console_error ''Failed to save VOD cache:'' e)"

definition saveVodCategoriesCache ::
  "('m, 's) JSON \<Rightarrow> int \<Rightarrow> (storage_op \<Rightarrow> error option) \<Rightarrow> Category list \<Rightarrow> ('m, 's, unit) action" where
  "saveVodCategoriesCache J now flt categories =
     tryCatch
       (let cacheObject = \<lparr>data = categories, timestamp = now\<rparr> in
        andThen (assign (\<lambda>this. this\<lparr>vodCategoriesCache := Some cacheObject\<rparr>)) (\<lambda>_.
        setItem flt VOD_CATEGORIES_CACHE_KEY (stringify (categories_json J) (Some cacheObject))))
       (\<lambda>e. console_error ''Failed to save VOD categories cache:'' e)"

definition saveSeriesCache ::
  "('m, 's) JSON \<Rightarrow> int \<Rightarrow> (storage_op \<Rightarrow> error option) \<Rightarrow> 's list \<Rightarrow> string option \<Rightarrow> ('m, 's, unit) action" where
  "saveSeriesCache J now flt series' categoryId' =
     tryCatch
       (let cacheObject = \<lparr>data = series', timestamp = now, categoryId = categoryId'\<rparr> in
        andThen (assign (\<lambda>this. this\<lparr>seriesCache := Some cacheObject\<rparr>)) (\<lambda>_.
        setItem flt SERIES_CACHE_KEY (stringify (series_json J) (Some cacheObject))))
       (\<lambda>e. console_error ''Failed to save series cache:'' e)"

definition saveSeriesCategoriesCache ::
  "('m, 's) JSON \<Rightarrow> int \<Rightarrow> (storage_op \<Rightarrow> error option) \<Rightarrow> Category list \<Rightarrow> ('m, 's, unit) action" where
  "saveSeriesCategoriesCache J now flt categories =
     tryCatch
       (let cacheObject = \<lparr>data = categories, timestamp = now\<rparr> in
        andThen (assign (\<lambda>this. this\<lparr>seriesCategoriesCache := Some cacheObject\<rparr>)) (\<lambda>_.
        setItem flt SERIES_CATEGORIES_CACHE_KEY (stringify (categories_json J) (Some cacheObject))))
       (\<lambda>e. console_error ''Failed to save series categories cache:'' e)"

text \<open>\<open>isCacheValid(timestamp)\<close>, with the value \<open>Date.now()\<close> returns as \<open>now\<close>.\<close>

definition isCacheValid :: "int \<Rightarrow> int \<Rightarrow> bool" where
  "isCacheValid now timestamp' \<longleftrightarrow> now - timestamp' < CACHE_EXPIRY_TIME"

text \<open>
  The constructor: the fields start as \<open>null\<close>, then \<open>loadCredentials\<close> and \<open>loadCaches\<close>
  are started in this order; here the second runs when the first has finished. The
  argument is the world the instance is created in; only its store, console and request log
  are read.
\<close>

definition new_XtreamCodesApi ::
  "('m, 's) JSON \<Rightarrow> (storage_op \<Rightarrow> error option) \<Rightarrow> ('m, 's) system \<Rightarrow> ('m, 's) system" where
  "new_XtreamCodesApi J flt world =
     (let this0 = world\<lparr>credentials := None, authData := None, vodCache := None,
                        vodCategoriesCache := None, seriesCache := None,
                        seriesCategoriesCache := None\<rparr>;
          this1 = snd (loadCredentials J flt this0)
      in snd (loadCaches J flt this1))"

subsection \<open>Session\<close>

text \<open>\<open>serverUrl.replace(/\/+$/, '')\<close>\<close>

definition strip_trailing_slashes :: "string \<Rightarrow> string" where
  "strip_trailing_slashes u = rev (dropWhile (\<lambda>c. c = CHR ''/'') (rev u))"

definition login :: "('m, 's) JSON \<Rightarrow> login_env \<Rightarrow> XtreamCredentials \<Rightarrow> ('m, 's, AuthResponse) action" where
  "login J env credentials' =
     tryCatch
       (let serverUrl' = strip_trailing_slashes (serverUrl credentials') in
        andThen (axios_get (login_reply env) (serverUrl' @ ''/player_api.php'')
                   [(''username'', XtreamCredentials.username credentials'),
                    (''password'', XtreamCredentials.password credentials')]) (\<lambda>response_data.
        if auth (user_info response_data) = 0 then reject AuthenticationFailed
        else
          andThen (assign (\<lambda>this. this\<lparr>credentials := Some (credentials'\<lparr>serverUrl := serverUrl'\<rparr>),
                                         authData := Some response_data\<rparr>)) (\<lambda>_.
          andThen (saveCredentials J (login_fault env)) (\<lambda>_.
          resolve response_data))))
       (\<lambda>e. andThen (console_error ''Login error:'' e) (\<lambda>_. reject e))"

definition isLoggedIn :: "('m, 's) system \<Rightarrow> bool" where
  "isLoggedIn this \<longleftrightarrow> credentials this \<noteq> None \<and> authData this \<noteq> None"

definition getUserInfo :: "('m, 's) system \<Rightarrow> UserInfo option" where
  "getUserInfo this =
     (case credentials this of
        None \<Rightarrow> None
      | Some c \<Rightarrow>
          (case authData this of
             None \<Rightarrow> None
           | Some a \<Rightarrow>
               Some \<lparr>UserInfo.username = XtreamCredentials.username c,
                     UserInfo.exp_date = Some (user_info.exp_date (user_info a)),
                     UserInfo.status = Some (user_info.status (user_info a)),
                     UserInfo.max_connections = Some (user_info.max_connections (user_info a))\<rparr>))"

definition logout :: "(storage_op \<Rightarrow> error option) \<Rightarrow> ('m, 's, unit) action" where
  "logout flt =
     andThen read (\<lambda>this0.
     let userInfo = getUserInfo this0;
         username' = map_option UserInfo.username userInfo
     in
     andThen (assign (\<lambda>this. this\<lparr>credentials := None, authData := None\<rparr>)) (\<lambda>_.
     andThen (assign (\<lambda>this. this\<lparr>vodCache := None, vodCategoriesCache := None,
                                    seriesCache := None, seriesCategoriesCache := None\<rparr>)) (\<lambda>_.
     andThen (removeItem flt AUTH_STORAGE_KEY) (\<lambda>_.
     andThen (removeItem flt VOD_CACHE_KEY) (\<lambda>_.
     andThen (removeItem flt VOD_CATEGORIES_CACHE_KEY) (\<lambda>_.
     andThen (removeItem flt SERIES_CACHE_KEY) (\<lambda>_.
     andThen (removeItem flt SERIES_CATEGORIES_CACHE_KEY) (\<lambda>_.
     (case username' of
        None \<Rightarrow> resolve ()
      | Some u \<Rightarrow>
          if u \<noteq> [] then
            tryCatch
              (let favoritesKey = ''huluxtream_favorites_'' @ u in
               andThen (removeItem flt favoritesKey) (\<lambda>_.
               let pcEnabledKey = u @ ''_huluxtream_parental_control_enabled'';
                   pcPinKey = u @ ''_huluxtream_parental_control_pin'';
                   pcCategoriesKey = u @ ''_huluxtream_restricted_categories''
               in
               andThen (removeItem flt pcEnabledKey) (\<lambda>_.
               andThen (removeItem flt pcPinKey) (\<lambda>_.
               andThen (removeItem flt pcCategoriesKey) (\<lambda>_.
               console_log (''Cleared user-specific data for '' @ u))))))
              (\<lambda>e. console_error ''Error clearing user-specific data:'' e)
          else resolve ())))))))))"

definition ensureAuthenticated :: "('m, 's, unit) action" where
  "ensureAuthenticated = (\<lambda>this.
     if credentials this = None \<or> authData this = None then (Inl NotAuthenticated, this)
     else (Inr (), this))"

text \<open>\<open>this.credentials!\<close>: the non-null assertion is erased, and a read on \<open>null\<close> throws.\<close>

definition the_credentials :: "('m, 's, XtreamCredentials) action" where
  "the_credentials = (\<lambda>this.
     case credentials this of None \<Rightarrow> (Inl TypeError, this) | Some c \<Rightarrow> (Inr c, this))"

definition apiUrl :: "('m, 's, string) action" where
  "apiUrl =
     andThen ensureAuthenticated (\<lambda>_.
     andThen the_credentials (\<lambda>c.
     resolve (serverUrl c @ ''/player_api.php'')))"

subsection \<open>Catalog fetches\<close>

text \<open>The request parameters of a stream query; \<open>if (category_id)\<close> adds the filter.\<close>

definition stream_params :: "XtreamCredentials \<Rightarrow> string \<Rightarrow> string option \<Rightarrow> (string \<times> string) list" where
  "stream_params c action' category_id' =
     [(''username'', XtreamCredentials.username c),
      (''password'', XtreamCredentials.password c),
      (''action'', action')]
     @ (case category_id' of
          None \<Rightarrow> []
        | Some cid \<Rightarrow> if cid \<noteq> [] then [(''category_id'', cid)] else [])"

definition getVodCategories :: "('m, 's) JSON \<Rightarrow> Category list fetch_env \<Rightarrow> ('m, 's, Category list) action" where
  "getVodCategories J env =
     andThen ensureAuthenticated (\<lambda>_.
     andThen read (\<lambda>this.
     let fetch =
       andThen (console_log ''Fetching VOD categories from API'') (\<lambda>_.
       andThen apiUrl (\<lambda>u.
       andThen the_credentials (\<lambda>c.
       andThen (axios_get (reply env) u
                  [(''username'', XtreamCredentials.username c),
                   (''password'', XtreamCredentials.password c),
                   (''action'', ''get_vod_categories'')]) (\<lambda>response_data.
       let categories = map (\<lambda>category. category\<lparr>category_type := Some movie\<rparr>) response_data in
       andThen (saveVodCategoriesCache J (save_time env) (fault env) categories) (\<lambda>_.
       resolve categories)))))
     in
     case vodCategoriesCache this of
       None \<Rightarrow> fetch
     | Some cache \<Rightarrow>
         if isCacheValid (check_time env) (timestamp cache) then
           andThen (console_log ''Using cached VOD categories'') (\<lambda>_. resolve (data cache))
         else fetch))"

definition getSeriesCategories :: "('m, 's) JSON \<Rightarrow> Category list fetch_env \<Rightarrow> ('m, 's, Category list) action" where
  "getSeriesCategories J env =
     andThen ensureAuthenticated (\<lambda>_.
     andThen read (\<lambda>this.
     let fetch =
       andThen (console_log ''Fetching series categories from API'') (\<lambda>_.
       andThen apiUrl (\<lambda>u.
       andThen the_credentials (\<lambda>c.
       andThen (axios_get (reply env) u
                  [(''username'', XtreamCredentials.username c),
                   (''password'', XtreamCredentials.password c),
                   (''action'', ''get_series_categories'')]) (\<lambda>response_data.
       let categories = map (\<lambda>category. category\<lparr>category_type := Some series\<rparr>) response_data in
       andThen (saveSeriesCategoriesCache J (save_time env) (fault env) categories) (\<lambda>_.
       resolve categories)))))
     in
     case seriesCategoriesCache this of
       None \<Rightarrow> fetch
     | Some cache \<Rightarrow>
         if isCacheValid (check_time env) (timestamp cache) then
           andThen (console_log ''Using cached series categories'') (\<lambda>_. resolve (data cache))
         else fetch))"

definition getLiveStreams :: "(error + 'c list) \<Rightarrow> string option \<Rightarrow> ('m, 's, 'c list) action" where
  "getLiveStreams rep category_id' =
     andThen ensureAuthenticated (\<lambda>_.
     andThen the_credentials (\<lambda>c.
     let params' = stream_params c ''get_live_streams'' category_id' in
     andThen apiUrl (\<lambda>u.
     axios_get rep u params')))"

definition getVodStreams :: "('m, 's) JSON \<Rightarrow> 'm list fetch_env \<Rightarrow> string option \<Rightarrow> ('m, 's, 'm list) action" where
  "getVodStreams J env category_id' =
     andThen ensureAuthenticated (\<lambda>_.
     andThen read (\<lambda>this.
     let fetch =
       andThen (console_log ''Fetching VOD streams from API'') (\<lambda>_.
       andThen the_credentials (\<lambda>c.
       let params' = stream_params c ''get_vod_streams'' category_id' in
       andThen apiUrl (\<lambda>u.
       andThen (axios_get (reply env) u params') (\<lambda>response_data.
       andThen (saveVodCache J (save_time env) (fault env) response_data category_id') (\<lambda>_.
       resolve response_data)))))
     in
     case vodCache this of
       None \<Rightarrow> fetch
     | Some cache \<Rightarrow>
         if isCacheValid (check_time env) (timestamp cache) \<and> categoryId cache = category_id' then
           andThen (console_log ''Using cached VOD streams'') (\<lambda>_. resolve (data cache))
         else fetch))"

definition getSeries :: "('m, 's) JSON \<Rightarrow> 's list fetch_env \<Rightarrow> string option \<Rightarrow> ('m, 's, 's list) action" where
  "getSeries J env category_id' =
     andThen ensureAuthenticated (\<lambda>_.
     andThen read (\<lambda>this.
     let fetch =
       andThen (console_log ''Fetching series data from API'') (\<lambda>_.
       andThen the_credentials (\<lambda>c.
       let params' = stream_params c ''get_series'' category_id' in
       andThen apiUrl (\<lambda>u.
       andThen (axios_get (reply env) u params') (\<lambda>response_data.
       andThen (saveSeriesCache J (save_time env) (fault env) response_data category_id') (\<lambda>_.
       resolve response_data)))))
     in
     case seriesCache this of
       None \<Rightarrow> fetch
     | Some cache \<Rightarrow>
         if isCacheValid (check_time env) (timestamp cache) \<and> categoryId cache = category_id' then
           andThen (console_log ''Using cached series data'') (\<lambda>_. resolve (data cache))
         else fetch))"

subsection \<open>Clearing the cache\<close>

definition clearCache :: "('m, 's) JSON \<Rightarrow> ('c, 'm, 's) clear_env \<Rightarrow> ('m, 's, unit) action" where
  "clearCache J env =
     tryCatch
       (andThen (assign (\<lambda>this. this\<lparr>vodCache := None, vodCategoriesCache := None,
                                      seriesCache := None, seriesCategoriesCache := None\<rparr>)) (\<lambda>_.
        andThen (removeItem (remove_fault env) VOD_CACHE_KEY) (\<lambda>_.
        andThen (removeItem (remove_fault env) VOD_CATEGORIES_CACHE_KEY) (\<lambda>_.
        andThen (removeItem (remove_fault env) SERIES_CACHE_KEY) (\<lambda>_.
        andThen (removeItem (remove_fault env) SERIES_CATEGORIES_CACHE_KEY) (\<lambda>_.
        andThen read (\<lambda>this.
        let savedCredentials = credentials this;
            savedAuth = authData this
        in
        andThen
          (if savedCredentials \<noteq> None \<and> savedAuth \<noteq> None then
             andThen (console_log ''Reloading fresh content data...'') (\<lambda>_.
             andThen (tryCatch
                        (andThen (getLiveStreams (live_reply env) None) (\<lambda>liveChannels.
                         console_log_count ''Reloaded '' (length liveChannels) '' live channels''))
                        (\<lambda>err. console_error ''Error reloading live channels:'' err)) (\<lambda>_.
             andThen (tryCatch
                        (andThen (getVodStreams J (vod_env env) None) (\<lambda>vodContent.
                         console_log_count ''Reloaded '' (length vodContent) '' movies''))
                        (\<lambda>err. console_error ''Error reloading movies:'' err)) (\<lambda>_.
             tryCatch
               (andThen (getSeries J (series_env env) None) (\<lambda>seriesContent.
                console_log_count ''Reloaded '' (length seriesContent) '' series''))
               (\<lambda>err. console_error ''Error reloading series:'' err))))
           else resolve ()) (\<lambda>_.
        andThen (console_log ''Content cache cleared and reloaded successfully'') (\<lambda>_.
        resolve ())))))))))
       (\<lambda>e. andThen (console_error ''Error clearing cache:'' e) (\<lambda>_. reject e))"

subsection \<open>Concrete values for evaluation\<close>

text \<open>
  A session, a store and a codec on which the theorems below are run. The payload records
  are titles here (\<open>'m = 's = 'c = string\<close>).
\<close>

definition demo_credentials :: XtreamCredentials where
  "demo_credentials =
     \<lparr>XtreamCredentials.username = ''ana'', XtreamCredentials.password = ''pw'',
      serverUrl = ''http://tv.example''\<rparr>"

definition demo_auth :: AuthResponse where
  "demo_auth =
     \<lparr>user_info =
        \<lparr>user_info.username = ''ana'', user_info.password = ''pw'', message = ''ok'', auth = 1,
         user_info.status = ''Active'', user_info.exp_date = ''1900000000'', is_trial = ''0'',
         active_cons = ''0'', created_at = ''1700000000'', user_info.max_connections = ''1'',
         allowed_output_formats = [''m3u8'', ''ts'']\<rparr>,
      server_info =
        \<lparr>server_info.url = ''tv.example'', port = ''80'', https_port = ''443'',
         server_protocol = ''http'', rtmp_port = ''1935'', timezone = ''UTC'',
         timestamp_now = 1700000000, time_now = ''2023-11-14 22:13:20''\<rparr>\<rparr>"

definition demo_vod_object :: "string list stream_cache_object" where
  "demo_vod_object = \<lparr>data = [''Heat''], timestamp = 1000, categoryId = Some ''5''\<rparr>"

definition demo_vod_fresh :: "string list stream_cache_object" where
  "demo_vod_fresh = \<lparr>data = [''Ran''], timestamp = 2000, categoryId = Some ''6''\<rparr>"

definition demo_vod_rewarmed :: "string list stream_cache_object" where
  "demo_vod_rewarmed = \<lparr>data = [''Heat''], timestamp = 5000, categoryId = None\<rparr>"

definition demo_series_object :: "string list stream_cache_object" where
  "demo_series_object = \<lparr>data = [''Dark''], timestamp = 1000, categoryId = None\<rparr>"

definition demo_series_fresh :: "string list stream_cache_object" where
  "demo_series_fresh = \<lparr>data = [''Lost''], timestamp = 2000, categoryId = Some ''9''\<rparr>"

definition demo_series_rewarmed :: "string list stream_cache_object" where
  "demo_series_rewarmed = \<lparr>data = [''Dark''], timestamp = 5000, categoryId = None\<rparr>"

definition demo_categories :: "Category list" where
  "demo_categories =
     [\<lparr>category_id = ''5'', category_name = ''Drama'', parent_id = 0, category_type = Some movie\<rparr>]"

definition demo_categories_fresh :: "Category list" where
  "demo_categories_fresh =
     [\<lparr>category_id = ''6'', category_name = ''Epic'', parent_id = 0, category_type = Some movie\<rparr>,
      \<lparr>category_id = ''9'', category_name = ''Mystery'', parent_id = 0,
       category_type = Some series\<rparr>]"

definition demo_categories_object :: "Category list cache_object" where
  "demo_categories_object = \<lparr>data = demo_categories, timestamp = 1000\<rparr>"

definition demo_categories_fresh_object :: "Category list cache_object" where
  "demo_categories_fresh_object = \<lparr>data = demo_categories_fresh, timestamp = 2000\<rparr>"

definition demo_vod_text :: string where
  "demo_vod_text = ''{data:[Heat],timestamp:1000,categoryId:5}''"

definition demo_vod_fresh_text :: string where
  "demo_vod_fresh_text = ''{data:[Ran],timestamp:2000,categoryId:6}''"

definition demo_vod_rewarmed_text :: string where
  "demo_vod_rewarmed_text = ''{data:[Heat],timestamp:5000}''"

definition demo_series_text :: string where
  "demo_series_text = ''{data:[Dark],timestamp:1000}''"

definition demo_series_fresh_text :: string where
  "demo_series_fresh_text = ''{data:[Lost],timestamp:2000,categoryId:9}''"

definition demo_series_rewarmed_text :: string where
  "demo_series_rewarmed_text = ''{data:[Dark],timestamp:5000}''"

definition demo_categories_text :: string where
  "demo_categories_text = ''{data:[Drama],timestamp:1000}''"

definition demo_categories_fresh_text :: string where
  "demo_categories_fresh_text = ''{data:[Epic,Mystery],timestamp:2000}''"

definition demo_auth_text :: string where
  "demo_auth_text = ''{credentials:ana,authData:ok}''"

text \<open>
  The codec of the examples: a table with a few cache objects of each kind, the session
  object and \<open>null\<close>, each with its own text. A value outside the table is written as
  \<open>{}\<close>, and a text outside the table fails to parse.
\<close>

definition demo_JSON :: "(string, string) JSON" where
  "demo_JSON =
     \<lparr>auth_json =
        \<lparr>stringify = (\<lambda>v. if v = Some (Some demo_credentials, Some demo_auth) then demo_auth_text
                           else if v = None then ''null'' else ''{}''),
         parse = (\<lambda>str. if str = demo_auth_text
                           then Some (Some (Some demo_credentials, Some demo_auth))
                         else if str = ''null'' then Some None else None)\<rparr>,
      vod_json =
        \<lparr>stringify = (\<lambda>v. if v = Some demo_vod_object then demo_vod_text
                           else if v = Some demo_vod_fresh then demo_vod_fresh_text
                           else if v = Some demo_vod_rewarmed then demo_vod_rewarmed_text
                           else if v = None then ''null'' else ''{}''),
         parse = (\<lambda>str. if str = demo_vod_text then Some (Some demo_vod_object)
                         else if str = demo_vod_fresh_text then Some (Some demo_vod_fresh)
                         else if str = demo_vod_rewarmed_text then Some (Some demo_vod_rewarmed)
                         else if str = ''null'' then Some None else None)\<rparr>,
      series_json =
        \<lparr>stringify = (\<lambda>v. if v = Some demo_series_object then demo_series_text
                           else if v = Some demo_series_fresh then demo_series_fresh_text
                           else if v = Some demo_series_rewarmed then demo_series_rewarmed_text
                           else if v = None then ''null'' else ''{}''),
         parse = (\<lambda>str. if str = demo_series_text then Some (Some demo_series_object)
                         else if str = demo_series_fresh_text then Some (Some demo_series_fresh)
                         else if str = demo_series_rewarmed_text
                           then Some (Some demo_series_rewarmed)
                         else if str = ''null'' then Some None else None)\<rparr>,
      categories_json =
        \<lparr>stringify = (\<lambda>v. if v = Some demo_categories_object then demo_categories_text
                           else if v = Some demo_categories_fresh_object
                             then demo_categories_fresh_text
                           else if v = None then ''null'' else ''{}''),
         parse = (\<lambda>str. if str = demo_categories_text then Some (Some demo_categories_object)
                         else if str = demo_categories_fresh_text
                           then Some (Some demo_categories_fresh_object)
                         else if str = ''null'' then Some None else None)\<rparr>\<rparr>"

text \<open>A fresh world, the same with a session, and the session with all four caches filled.\<close>

definition demo_blank :: "(string, string) system" where
  "demo_blank =
     \<lparr>credentials = None, authData = None, vodCache = None, vodCategoriesCache = None,
      seriesCache = None, seriesCategoriesCache = None, storage = Map.empty, console = [],
      requests = []\<rparr>"

definition demo_session :: "(string, string) system" where
  "demo_session = demo_blank\<lparr>credentials := Some demo_credentials, authData := Some demo_auth\<rparr>"

definition demo_cached :: "(string, string) system" where
  "demo_cached =
     demo_session\<lparr>vodCache := Some demo_vod_object,
                  vodCategoriesCache := Some demo_categories_object,
                  seriesCache := Some demo_series_object,
                  seriesCategoriesCache := Some demo_categories_object,
                  storage := [AUTH_STORAGE_KEY \<mapsto> demo_auth_text,
                              VOD_CACHE_KEY \<mapsto> demo_vod_text,
                              VOD_CATEGORIES_CACHE_KEY \<mapsto> demo_categories_text,
                              SERIES_CACHE_KEY \<mapsto> demo_series_text,
                              SERIES_CATEGORIES_CACHE_KEY \<mapsto> demo_categories_text]\<rparr>"

text \<open>
  Worlds before any instance exists: one whose store holds what \<open>demo_cached\<close> persisted,
  and one whose VOD key holds a text that is not JSON while the series key holds a good one.
\<close>

definition demo_stored :: "(string, string) system" where
  "demo_stored = demo_blank\<lparr>storage := storage demo_cached\<rparr>"

definition demo_corrupt :: "(string, string) system" where
  "demo_corrupt =
     demo_blank\<lparr>storage := [VOD_CACHE_KEY \<mapsto> ''<html>'', SERIES_CACHE_KEY \<mapsto> demo_series_text]\<rparr>"

text \<open>
  The session of \<open>demo_cached\<close> over other stores: one in which the VOD key holds the text
  \<open>null\<close> beside a new series text and nothing else, and one in which the VOD key holds a
  text that is not JSON. Last, the world left when an instance is discarded: blank fields
  over a given store.
\<close>

definition demo_null :: "(string, string) system" where
  "demo_null =
     demo_cached\<lparr>storage := [VOD_CACHE_KEY \<mapsto> ''null'',
                               SERIES_CACHE_KEY \<mapsto> demo_series_fresh_text]\<rparr>"

definition demo_cached_corrupt :: "(string, string) system" where
  "demo_cached_corrupt = demo_cached\<lparr>storage := (storage demo_cached)(VOD_CACHE_KEY \<mapsto> ''<html>'')\<rparr>"

definition demo_restart :: "(string, string) system \<Rightarrow> (string, string) system" where
  "demo_restart this = demo_blank\<lparr>storage := storage this, requests := requests this\<rparr>"

text \<open>The session of \<open>demo_cached\<close>, entries and all, over an empty store.\<close>

definition demo_wiped :: "(string, string) system" where
  "demo_wiped = demo_cached\<lparr>storage := Map.empty\<rparr>"

definition no_fault :: "storage_op \<Rightarrow> error option" where
  "no_fault = (\<lambda>_. None)"

definition demo_env :: "int \<Rightarrow> (error + 'r) \<Rightarrow> 'r fetch_env" where
  "demo_env now rep = \<lparr>check_time = now, reply = rep, save_time = now, fault = no_fault\<rparr>"

text \<open>A store in which exactly the operation \<open>bad\<close> rejects.\<close>

definition failing :: "storage_op \<Rightarrow> storage_op \<Rightarrow> error option" where
  "failing bad = (\<lambda>op. if op = bad then Some (Rejected ''storage failure'') else None)"

definition demo_clear_env ::
  "(storage_op \<Rightarrow> error option) \<Rightarrow> (error + string list) \<Rightarrow> (error + string list) \<Rightarrow>
   (error + string list) \<Rightarrow> (string, string, string) clear_env" where
  "demo_clear_env flt live_rep vod_rep series_rep =
     \<lparr>remove_fault = flt, live_reply = live_rep, vod_env = demo_env 5000 vod_rep,
      series_env = demo_env 5000 series_rep\<rparr>"

text \<open>
  What a load does with the value \<open>getItem\<close> gave for a key: \<open>parsed\<close> is what it assigns to
  the field, if it assigns (it does not when the value is absent or the empty string, which
  the \<open>if\<close> skips, or when the text does not parse; \<open>Some None\<close> is the assignment of
  \<open>null\<close>), and \<open>unparsable\<close> says that \<open>JSON.parse\<close> is called and throws.
\<close>

definition parsed :: "'a json \<Rightarrow> string option \<Rightarrow> 'a option" where
  "parsed p v = (case v of None \<Rightarrow> None | Some str \<Rightarrow> if str \<noteq> [] then parse p str else None)"

definition unparsable :: "'a json \<Rightarrow> string option \<Rightarrow> bool" where
  "unparsable p v \<longleftrightarrow> (case v of None \<Rightarrow> False | Some str \<Rightarrow> str \<noteq> [] \<and> parse p str = None)"

text \<open>The \<open>action\<close> parameters of the requests issued so far, oldest first.\<close>

definition actions :: "('m, 's) system \<Rightarrow> string option list" where
  "actions this = map (\<lambda>q. map_of (params q) ''action'') (requests this)"

section \<open>Properties\<close>

subsection \<open>How each method steps\<close>

lemmas action_defs = resolve_def reject_def andThen_def tryCatch_def read_def assign_def
  console_log_def console_log_count_def console_error_def getItem_def setItem_def removeItem_def
  axios_get_def ensureAuthenticated_def the_credentials_def apiUrl_def

lemma keys_distinct:
  "AUTH_STORAGE_KEY \<noteq> VOD_CACHE_KEY" "AUTH_STORAGE_KEY \<noteq> VOD_CATEGORIES_CACHE_KEY"
  "AUTH_STORAGE_KEY \<noteq> SERIES_CACHE_KEY" "AUTH_STORAGE_KEY \<noteq> SERIES_CATEGORIES_CACHE_KEY"
  "VOD_CACHE_KEY \<noteq> VOD_CATEGORIES_CACHE_KEY" "VOD_CACHE_KEY \<noteq> SERIES_CACHE_KEY"
  "VOD_CACHE_KEY \<noteq> SERIES_CATEGORIES_CACHE_KEY" "VOD_CATEGORIES_CACHE_KEY \<noteq> SERIES_CACHE_KEY"
  "VOD_CATEGORIES_CACHE_KEY \<noteq> SERIES_CATEGORIES_CACHE_KEY"
  "SERIES_CACHE_KEY \<noteq> SERIES_CATEGORIES_CACHE_KEY"
  by (simp_all add: AUTH_STORAGE_KEY_def VOD_CACHE_KEY_def VOD_CATEGORIES_CACHE_KEY_def
      SERIES_CACHE_KEY_def SERIES_CATEGORIES_CACHE_KEY_def)

lemmas keys_distinct' = keys_distinct keys_distinct [symmetric]

text \<open>The four saves never reject and always assign the in-memory slot.\<close>

lemma saveVodCache_eq:
  "saveVodCache J now flt movies cid this =
     (Inr (),
      (case flt (SetItem VOD_CACHE_KEY) of
         None \<Rightarrow>
           this\<lparr>vodCache := Some \<lparr>data = movies, timestamp = now, categoryId = cid\<rparr>,
                storage := (storage this)(VOD_CACHE_KEY \<mapsto>
                   stringify (vod_json J)
                     (Some \<lparr>data = movies, timestamp = now, categoryId = cid\<rparr>))\<rparr>
       | Some e \<Rightarrow>
           this\<lparr>vodCache := Some \<lparr>data = movies, timestamp = now, categoryId = cid\<rparr>,
                console := console this @ [Error ''Failed to save VOD cache:'' e]\<rparr>))"
  by (simp add: saveVodCache_def action_defs Let_def split: option.splits)

lemma saveSeriesCache_eq:
  "saveSeriesCache J now flt xs cid this =
     (Inr (),
      (case flt (SetItem SERIES_CACHE_KEY) of
         None \<Rightarrow>
           this\<lparr>seriesCache := Some \<lparr>data = xs, timestamp = now, categoryId = cid\<rparr>,
                storage := (storage this)(SERIES_CACHE_KEY \<mapsto>
                   stringify (series_json J)
                     (Some \<lparr>data = xs, timestamp = now, categoryId = cid\<rparr>))\<rparr>
       | Some e \<Rightarrow>
           this\<lparr>seriesCache := Some \<lparr>data = xs, timestamp = now, categoryId = cid\<rparr>,
                console := console this @ [Error ''Failed to save series cache:'' e]\<rparr>))"
  by (simp add: saveSeriesCache_def action_defs Let_def split: option.splits)

lemma saveVodCategoriesCache_eq:
  "saveVodCategoriesCache J now flt cats this =
     (Inr (),
      (case flt (SetItem VOD_CATEGORIES_CACHE_KEY) of
         None \<Rightarrow>
           this\<lparr>vodCategoriesCache := Some \<lparr>data = cats, timestamp = now\<rparr>,
                storage := (storage this)(VOD_CATEGORIES_CACHE_KEY \<mapsto>
                   stringify (categories_json J) (Some \<lparr>data = cats, timestamp = now\<rparr>))\<rparr>
       | Some e \<Rightarrow>
           this\<lparr>vodCategoriesCache := Some \<lparr>data = cats, timestamp = now\<rparr>,
                console := console this @ [Error ''Failed to save VOD categories cache:'' e]\<rparr>))"
  by (simp add: saveVodCategoriesCache_def action_defs Let_def split: option.splits)

lemma saveSeriesCategoriesCache_eq:
  "saveSeriesCategoriesCache J now flt cats this =
     (Inr (),
      (case flt (SetItem SERIES_CATEGORIES_CACHE_KEY) of
         None \<Rightarrow>
           this\<lparr>seriesCategoriesCache := Some \<lparr>data = cats, timestamp = now\<rparr>,
                storage := (storage this)(SERIES_CATEGORIES_CACHE_KEY \<mapsto>
                   stringify (categories_json J) (Some \<lparr>data = cats, timestamp = now\<rparr>))\<rparr>
       | Some e \<Rightarrow>
           this\<lparr>seriesCategoriesCache := Some \<lparr>data = cats, timestamp = now\<rparr>,
                console := console this @ [Error ''Failed to save series categories cache:'' e]\<rparr>))"
  by (simp add: saveSeriesCategoriesCache_def action_defs Let_def split: option.splits)

text \<open>Without a session a fetch rejects before it looks at anything.\<close>

lemma getVodStreams_unauth:
  "credentials this = None \<or> authData this = None \<Longrightarrow>
   getVodStreams J env cid this = (Inl NotAuthenticated, this)"
  by (auto simp add: getVodStreams_def action_defs)

lemma getSeries_unauth:
  "credentials this = None \<or> authData this = None \<Longrightarrow>
   getSeries J env cid this = (Inl NotAuthenticated, this)"
  by (auto simp add: getSeries_def action_defs)

lemma getVodCategories_unauth:
  "credentials this = None \<or> authData this = None \<Longrightarrow>
   getVodCategories J env this = (Inl NotAuthenticated, this)"
  by (auto simp add: getVodCategories_def action_defs)

lemma getSeriesCategories_unauth:
  "credentials this = None \<or> authData this = None \<Longrightarrow>
   getSeriesCategories J env this = (Inl NotAuthenticated, this)"
  by (auto simp add: getSeriesCategories_def action_defs)

text \<open>With a session and a valid entry a fetch returns the entry's data and only logs.\<close>

lemma getVodStreams_hit:
  "credentials this \<noteq> None \<Longrightarrow> authData this \<noteq> None \<Longrightarrow> vodCache this = Some c \<Longrightarrow>
   isCacheValid (check_time env) (timestamp c) \<Longrightarrow> categoryId c = cid \<Longrightarrow>
   getVodStreams J env cid this =
     (Inr (data c), this\<lparr>console := console this @ [Log ''Using cached VOD streams'']\<rparr>)"
  by (simp add: getVodStreams_def action_defs Let_def)

lemma getSeries_hit:
  "credentials this \<noteq> None \<Longrightarrow> authData this \<noteq> None \<Longrightarrow> seriesCache this = Some c \<Longrightarrow>
   isCacheValid (check_time env) (timestamp c) \<Longrightarrow> categoryId c = cid \<Longrightarrow>
   getSeries J env cid this =
     (Inr (data c), this\<lparr>console := console this @ [Log ''Using cached series data'']\<rparr>)"
  by (simp add: getSeries_def action_defs Let_def)

lemma getVodCategories_hit:
  "credentials this \<noteq> None \<Longrightarrow> authData this \<noteq> None \<Longrightarrow> vodCategoriesCache this = Some c \<Longrightarrow>
   isCacheValid (check_time env) (timestamp c) \<Longrightarrow>
   getVodCategories J env this =
     (Inr (data c), this\<lparr>console := console this @ [Log ''Using cached VOD categories'']\<rparr>)"
  by (simp add: getVodCategories_def action_defs Let_def)

lemma getSeriesCategories_hit:
  "credentials this \<noteq> None \<Longrightarrow> authData this \<noteq> None \<Longrightarrow> seriesCategoriesCache this = Some c \<Longrightarrow>
   isCacheValid (check_time env) (timestamp c) \<Longrightarrow>
   getSeriesCategories J env this =
     (Inr (data c), this\<lparr>console := console this @ [Log ''Using cached series categories'']\<rparr>)"
  by (simp add: getSeriesCategories_def action_defs Let_def)

text \<open>
  With a session and no valid entry a fetch logs, issues its request, and then either
  rejects with the request's error or saves and returns the reply.
\<close>

lemma getVodStreams_miss:
  "credentials this = Some cr \<Longrightarrow> authData this \<noteq> None \<Longrightarrow>
   (\<forall>c. vodCache this = Some c \<longrightarrow>
        \<not> (isCacheValid (check_time env) (timestamp c) \<and> categoryId c = cid)) \<Longrightarrow>
   getVodStreams J env cid this =
     (let this1 = this\<lparr>console := console this @ [Log ''Fetching VOD streams from API''],
                       requests := requests this @
                         [\<lparr>url = serverUrl cr @ ''/player_api.php'',
                           params = stream_params cr ''get_vod_streams'' cid\<rparr>]\<rparr>
      in case reply env of
           Inl e \<Rightarrow> (Inl e, this1)
         | Inr d \<Rightarrow> (Inr d, snd (saveVodCache J (save_time env) (fault env) d cid this1)))"
  by (cases "vodCache this"; cases "reply env")
     (auto simp add: getVodStreams_def saveVodCache_eq action_defs Let_def split: option.splits)

lemma getSeries_miss:
  "credentials this = Some cr \<Longrightarrow> authData this \<noteq> None \<Longrightarrow>
   (\<forall>c. seriesCache this = Some c \<longrightarrow>
        \<not> (isCacheValid (check_time env) (timestamp c) \<and> categoryId c = cid)) \<Longrightarrow>
   getSeries J env cid this =
     (let this1 = this\<lparr>console := console this @ [Log ''Fetching series data from API''],
                       requests := requests this @
                         [\<lparr>url = serverUrl cr @ ''/player_api.php'',
                           params = stream_params cr ''get_series'' cid\<rparr>]\<rparr>
      in case reply env of
           Inl e \<Rightarrow> (Inl e, this1)
         | Inr d \<Rightarrow> (Inr d, snd (saveSeriesCache J (save_time env) (fault env) d cid this1)))"
  by (cases "seriesCache this"; cases "reply env")
     (auto simp add: getSeries_def saveSeriesCache_eq action_defs Let_def split: option.splits)

lemma getVodCategories_miss:
  "credentials this = Some cr \<Longrightarrow> authData this \<noteq> None \<Longrightarrow>
   (\<forall>c. vodCategoriesCache this = Some c \<longrightarrow> \<not> isCacheValid (check_time env) (timestamp c)) \<Longrightarrow>
   getVodCategories J env this =
     (let this1 = this\<lparr>console := console this @ [Log ''Fetching VOD categories from API''],
                       requests := requests this @
                         [\<lparr>url = serverUrl cr @ ''/player_api.php'',
                           params = [(''username'', XtreamCredentials.username cr),
                                     (''password'', XtreamCredentials.password cr),
                                     (''action'', ''get_vod_categories'')]\<rparr>]\<rparr>
      in case reply env of
           Inl e \<Rightarrow> (Inl e, this1)
         | Inr d \<Rightarrow>
             (Inr (map (\<lambda>category. category\<lparr>category_type := Some movie\<rparr>) d),
              snd (saveVodCategoriesCache J (save_time env) (fault env)
                     (map (\<lambda>category. category\<lparr>category_type := Some movie\<rparr>) d) this1)))"
  by (cases "vodCategoriesCache this"; cases "reply env")
     (auto simp add: getVodCategories_def saveVodCategoriesCache_eq action_defs Let_def
           split: option.splits)

lemma getSeriesCategories_miss:
  "credentials this = Some cr \<Longrightarrow> authData this \<noteq> None \<Longrightarrow>
   (\<forall>c. seriesCategoriesCache this = Some c \<longrightarrow> \<not> isCacheValid (check_time env) (timestamp c)) \<Longrightarrow>
   getSeriesCategories J env this =
     (let this1 = this\<lparr>console := console this @ [Log ''Fetching series categories from API''],
                       requests := requests this @
                         [\<lparr>url = serverUrl cr @ ''/player_api.php'',
                           params = [(''username'', XtreamCredentials.username cr),
                                     (''password'', XtreamCredentials.password cr),
                                     (''action'', ''get_series_categories'')]\<rparr>]\<rparr>
      in case reply env of
           Inl e \<Rightarrow> (Inl e, this1)
         | Inr d \<Rightarrow>
             (Inr (map (\<lambda>category. category\<lparr>category_type := Some series\<rparr>) d),
              snd (saveSeriesCategoriesCache J (save_time env) (fault env)
                     (map (\<lambda>category. category\<lparr>category_type := Some series\<rparr>) d) this1)))"
  by (cases "seriesCategoriesCache this"; cases "reply env")
     (auto simp add: getSeriesCategories_def saveSeriesCategoriesCache_eq action_defs Let_def
           split: option.splits)

text \<open>A fetch that resolves leaves a session and an entry holding what it returned.\<close>

lemma getVodStreams_success:
  assumes "getVodStreams J e cid this = (Inr d, this1)"
  shows "credentials this1 \<noteq> None \<and> authData this1 \<noteq> None \<and>
         (\<exists>c. vodCache this1 = Some c \<and> data c = d \<and> categoryId c = cid)"
proof (cases "credentials this = None \<or> authData this = None")
  case True
  with assms show ?thesis by (simp add: getVodStreams_unauth)
next
  case False
  then obtain cr where cr: "credentials this = Some cr" and au: "authData this \<noteq> None" by auto
  show ?thesis
  proof (cases "\<exists>c. vodCache this = Some c \<and> isCacheValid (check_time e) (timestamp c)
                    \<and> categoryId c = cid")
    case True
    then obtain c where c: "vodCache this = Some c" "isCacheValid (check_time e) (timestamp c)"
        "categoryId c = cid"
      by blast
    from assms cr au c show ?thesis
      by (auto simp add: getVodStreams_hit [where c = c])
  next
    case False
    then have miss: "\<forall>c. vodCache this = Some c \<longrightarrow>
        \<not> (isCacheValid (check_time e) (timestamp c) \<and> categoryId c = cid)" by blast
    from assms au show ?thesis
      unfolding getVodStreams_miss [OF cr au miss]
      by (auto simp add: Let_def saveVodCache_eq cr split: sum.splits option.splits)
  qed
qed

lemma getSeries_success:
  assumes "getSeries J e cid this = (Inr d, this1)"
  shows "credentials this1 \<noteq> None \<and> authData this1 \<noteq> None \<and>
         (\<exists>c. seriesCache this1 = Some c \<and> data c = d \<and> categoryId c = cid)"
proof (cases "credentials this = None \<or> authData this = None")
  case True
  with assms show ?thesis by (simp add: getSeries_unauth)
next
  case False
  then obtain cr where cr: "credentials this = Some cr" and au: "authData this \<noteq> None" by auto
  show ?thesis
  proof (cases "\<exists>c. seriesCache this = Some c \<and> isCacheValid (check_time e) (timestamp c)
                    \<and> categoryId c = cid")
    case True
    then obtain c where c: "seriesCache this = Some c" "isCacheValid (check_time e) (timestamp c)"
        "categoryId c = cid"
      by blast
    from assms cr au c show ?thesis
      by (auto simp add: getSeries_hit [where c = c])
  next
    case False
    then have miss: "\<forall>c. seriesCache this = Some c \<longrightarrow>
        \<not> (isCacheValid (check_time e) (timestamp c) \<and> categoryId c = cid)" by blast
    from assms au show ?thesis
      unfolding getSeries_miss [OF cr au miss]
      by (auto simp add: Let_def saveSeriesCache_eq cr split: sum.splits option.splits)
  qed
qed

lemma getVodCategories_success:
  assumes "getVodCategories J e this = (Inr d, this1)"
  shows "credentials this1 \<noteq> None \<and> authData this1 \<noteq> None \<and>
         (\<exists>c. vodCategoriesCache this1 = Some c \<and> data c = d)"
proof (cases "credentials this = None \<or> authData this = None")
  case True
  with assms show ?thesis by (simp add: getVodCategories_unauth)
next
  case False
  then obtain cr where cr: "credentials this = Some cr" and au: "authData this \<noteq> None" by auto
  show ?thesis
  proof (cases "\<exists>c. vodCategoriesCache this = Some c \<and> isCacheValid (check_time e) (timestamp c)")
    case True
    then obtain c where c: "vodCategoriesCache this = Some c"
        "isCacheValid (check_time e) (timestamp c)"
      by blast
    from assms cr au c show ?thesis
      by (auto simp add: getVodCategories_hit [where c = c])
  next
    case False
    then have miss: "\<forall>c. vodCategoriesCache this = Some c \<longrightarrow>
        \<not> isCacheValid (check_time e) (timestamp c)" by blast
    from assms au show ?thesis
      unfolding getVodCategories_miss [OF cr au miss]
      by (auto simp add: Let_def saveVodCategoriesCache_eq cr split: sum.splits option.splits)
  qed
qed

lemma getSeriesCategories_success:
  assumes "getSeriesCategories J e this = (Inr d, this1)"
  shows "credentials this1 \<noteq> None \<and> authData this1 \<noteq> None \<and>
         (\<exists>c. seriesCategoriesCache this1 = Some c \<and> data c = d)"
proof (cases "credentials this = None \<or> authData this = None")
  case True
  with assms show ?thesis by (simp add: getSeriesCategories_unauth)
next
  case False
  then obtain cr where cr: "credentials this = Some cr" and au: "authData this \<noteq> None" by auto
  show ?thesis
  proof (cases "\<exists>c. seriesCategoriesCache this = Some c
                    \<and> isCacheValid (check_time e) (timestamp c)")
    case True
    then obtain c where c: "seriesCategoriesCache this = Some c"
        "isCacheValid (check_time e) (timestamp c)"
      by blast
    from assms cr au c show ?thesis
      by (auto simp add: getSeriesCategories_hit [where c = c])
  next
    case False
    then have miss: "\<forall>c. seriesCategoriesCache this = Some c \<longrightarrow>
        \<not> isCacheValid (check_time e) (timestamp c)" by blast
    from assms au show ?thesis
      unfolding getSeriesCategories_miss [OF cr au miss]
      by (auto simp add: Let_def saveSeriesCategoriesCache_eq cr split: sum.splits option.splits)
  qed
qed

subsection \<open>The claims\<close>

text \<open>
  C1. Cache hit skips fetch. If a fetch of some catalog type resolved with data \<open>d\<close> under a
  filter, leaving the state \<open>this1\<close>, then that type's slot in \<open>this1\<close> holds an entry whose
  data is \<open>d\<close>, and a second fetch of the same type with the same filter, made at any instant
  \<open>now\<close> with \<open>now - entry.timestamp < CACHE_EXPIRY_TIME\<close>, resolves with the same \<open>d\<close> and
  changes nothing but the console: the list of HTTP requests issued is the one of \<open>this1\<close>.
\<close>

theorem cache_hit_skips_fetch:
  "(getVodStreams J e1 cid this = (Inr d, this1) \<longrightarrow>
      (\<exists>c. vodCache this1 = Some c \<and> data c = d \<and>
         (\<forall>e2. check_time e2 - timestamp c < CACHE_EXPIRY_TIME \<longrightarrow>
            getVodStreams J e2 cid this1 =
              (Inr d, this1\<lparr>console := console this1 @ [Log ''Using cached VOD streams'']\<rparr>))))
   \<and> (getSeries J e3 cid this = (Inr d', this2) \<longrightarrow>
      (\<exists>c. seriesCache this2 = Some c \<and> data c = d' \<and>
         (\<forall>e4. check_time e4 - timestamp c < CACHE_EXPIRY_TIME \<longrightarrow>
            getSeries J e4 cid this2 =
              (Inr d', this2\<lparr>console := console this2 @ [Log ''Using cached series data'']\<rparr>))))
   \<and> (getVodCategories J e5 this = (Inr cs, this3) \<longrightarrow>
      (\<exists>c. vodCategoriesCache this3 = Some c \<and> data c = cs \<and>
         (\<forall>e6. check_time e6 - timestamp c < CACHE_EXPIRY_TIME \<longrightarrow>
            getVodCategories J e6 this3 =
              (Inr cs, this3\<lparr>console := console this3 @ [Log ''Using cached VOD categories'']\<rparr>))))
   \<and> (getSeriesCategories J e7 this = (Inr cs', this4) \<longrightarrow>
      (\<exists>c. seriesCategoriesCache this4 = Some c \<and> data c = cs' \<and>
         (\<forall>e8. check_time e8 - timestamp c < CACHE_EXPIRY_TIME \<longrightarrow>
            getSeriesCategories J e8 this4 =
              (Inr cs', this4\<lparr>console := console this4 @ [Log ''Using cached series categories'']\<rparr>))))"
proof (intro conjI impI)
  assume "getVodStreams J e1 cid this = (Inr d, this1)"
  from getVodStreams_success [OF this]
  obtain c where s: "credentials this1 \<noteq> None" "authData this1 \<noteq> None"
    and c: "vodCache this1 = Some c" "data c = d" "categoryId c = cid" by blast
  have "getVodStreams J e2 cid this1 =
          (Inr d, this1\<lparr>console := console this1 @ [Log ''Using cached VOD streams'']\<rparr>)"
    if "check_time e2 - timestamp c < CACHE_EXPIRY_TIME" for e2
    using getVodStreams_hit [OF s c(1) _ c(3), of e2 J] that c(2) by (simp add: isCacheValid_def)
  with c show "\<exists>c. vodCache this1 = Some c \<and> data c = d \<and>
         (\<forall>e2. check_time e2 - timestamp c < CACHE_EXPIRY_TIME \<longrightarrow>
            getVodStreams J e2 cid this1 =
              (Inr d, this1\<lparr>console := console this1 @ [Log ''Using cached VOD streams'']\<rparr>))"
    by blast
next
  assume "getSeries J e3 cid this = (Inr d', this2)"
  from getSeries_success [OF this]
  obtain c where s: "credentials this2 \<noteq> None" "authData this2 \<noteq> None"
    and c: "seriesCache this2 = Some c" "data c = d'" "categoryId c = cid" by blast
  have "getSeries J e4 cid this2 =
          (Inr d', this2\<lparr>console := console this2 @ [Log ''Using cached series data'']\<rparr>)"
    if "check_time e4 - timestamp c < CACHE_EXPIRY_TIME" for e4
    using getSeries_hit [OF s c(1) _ c(3), of e4 J] that c(2) by (simp add: isCacheValid_def)
  with c show "\<exists>c. seriesCache this2 = Some c \<and> data c = d' \<and>
         (\<forall>e4. check_time e4 - timestamp c < CACHE_EXPIRY_TIME \<longrightarrow>
            getSeries J e4 cid this2 =
              (Inr d', this2\<lparr>console := console this2 @ [Log ''Using cached series data'']\<rparr>))"
    by blast
next
  assume "getVodCategories J e5 this = (Inr cs, this3)"
  from getVodCategories_success [OF this]
  obtain c where s: "credentials this3 \<noteq> None" "authData this3 \<noteq> None"
    and c: "vodCategoriesCache this3 = Some c" "data c = cs" by blast
  have "getVodCategories J e6 this3 =
          (Inr cs, this3\<lparr>console := console this3 @ [Log ''Using cached VOD categories'']\<rparr>)"
    if "check_time e6 - timestamp c < CACHE_EXPIRY_TIME" for e6
    using getVodCategories_hit [OF s c(1), of e6 J] that c(2) by (simp add: isCacheValid_def)
  with c show "\<exists>c. vodCategoriesCache this3 = Some c \<and> data c = cs \<and>
         (\<forall>e6. check_time e6 - timestamp c < CACHE_EXPIRY_TIME \<longrightarrow>
            getVodCategories J e6 this3 =
              (Inr cs, this3\<lparr>console := console this3 @ [Log ''Using cached VOD categories'']\<rparr>))"
    by blast
next
  assume "getSeriesCategories J e7 this = (Inr cs', this4)"
  from getSeriesCategories_success [OF this]
  obtain c where s: "credentials this4 \<noteq> None" "authData this4 \<noteq> None"
    and c: "seriesCategoriesCache this4 = Some c" "data c = cs'" by blast
  have "getSeriesCategories J e8 this4 =
          (Inr cs', this4\<lparr>console := console this4 @ [Log ''Using cached series categories'']\<rparr>)"
    if "check_time e8 - timestamp c < CACHE_EXPIRY_TIME" for e8
    using getSeriesCategories_hit [OF s c(1), of e8 J] that c(2) by (simp add: isCacheValid_def)
  with c show "\<exists>c. seriesCategoriesCache this4 = Some c \<and> data c = cs' \<and>
         (\<forall>e8. check_time e8 - timestamp c < CACHE_EXPIRY_TIME \<longrightarrow>
            getSeriesCategories J e8 this4 =
              (Inr cs', this4\<lparr>console := console this4 @ [Log ''Using cached series categories'']\<rparr>))"
    by blast
qed

theorem cache_hit_skips_fetch_witness:
  "(let r1 = getVodStreams demo_JSON (demo_env 1000 (Inr [''Heat''])) (Some ''5'') demo_session;
        r2 = getVodStreams demo_JSON (demo_env 5000 (Inl (Rejected ''offline''))) (Some ''5'') (snd r1)
    in fst r1 = Inr [''Heat''] \<and> length (requests (snd r1)) = 1
       \<and> fst r2 = Inr [''Heat''] \<and> requests (snd r2) = requests (snd r1))
   \<and> (let r1 = getSeries demo_JSON (demo_env 1000 (Inr [''Dark''])) None demo_session;
        r2 = getSeries demo_JSON (demo_env 5000 (Inl (Rejected ''offline''))) None (snd r1)
    in fst r1 = Inr [''Dark''] \<and> length (requests (snd r1)) = 1
       \<and> fst r2 = Inr [''Dark''] \<and> requests (snd r2) = requests (snd r1))
   \<and> (let r1 = getVodCategories demo_JSON (demo_env 1000 (Inr demo_categories)) demo_session;
        r2 = getVodCategories demo_JSON (demo_env 5000 (Inl (Rejected ''offline''))) (snd r1)
    in fst r1 = Inr demo_categories \<and> length (requests (snd r1)) = 1
       \<and> fst r2 = Inr demo_categories \<and> requests (snd r2) = requests (snd r1))
   \<and> (let r1 = getSeriesCategories demo_JSON (demo_env 1000 (Inr [])) demo_session;
        r2 = getSeriesCategories demo_JSON (demo_env 5000 (Inl (Rejected ''offline''))) (snd r1)
    in fst r1 = Inr [] \<and> length (requests (snd r1)) = 1
       \<and> fst r2 = Inr [] \<and> requests (snd r2) = requests (snd r1))"
proof -
  have session: "credentials demo_session = Some demo_credentials" "authData demo_session \<noteq> None"
      "vodCache demo_session = None" "seriesCache demo_session = None"
      "vodCategoriesCache demo_session = None" "seriesCategoriesCache demo_session = None"
      "requests demo_session = []"
    by (simp_all add: demo_session_def demo_blank_def)
  let ?v1 = "getVodStreams demo_JSON (demo_env 1000 (Inr [''Heat''])) (Some ''5'') demo_session"
  have v1: "?v1 = (Inr [''Heat''], snd ?v1)" and vn: "length (requests (snd ?v1)) = 1"
      and vt: "map_option timestamp (vodCache (snd ?v1)) = Some 1000"
    by (simp_all add: getVodStreams_miss [OF session(1,2)] session saveVodCache_eq demo_env_def
        no_fault_def Let_def)
  from cache_hit_skips_fetch [THEN conjunct1, rule_format, OF v1]
  obtain vc where vc: "vodCache (snd ?v1) = Some vc"
    and vhit: "\<And>e2. check_time e2 - timestamp vc < CACHE_EXPIRY_TIME \<Longrightarrow>
      getVodStreams demo_JSON e2 (Some ''5'') (snd ?v1) =
        (Inr [''Heat''], (snd ?v1)\<lparr>console := console (snd ?v1) @ [Log ''Using cached VOD streams'']\<rparr>)"
    by blast
  have v2: "getVodStreams demo_JSON (demo_env 5000 (Inl (Rejected ''offline''))) (Some ''5'') (snd ?v1) =
      (Inr [''Heat''], (snd ?v1)\<lparr>console := console (snd ?v1) @ [Log ''Using cached VOD streams'']\<rparr>)"
    by (rule vhit) (use vt vc in \<open>simp add: demo_env_def CACHE_EXPIRY_TIME_def\<close>)
  let ?s1 = "getSeries demo_JSON (demo_env 1000 (Inr [''Dark''])) None demo_session"
  have s1: "?s1 = (Inr [''Dark''], snd ?s1)" and sn: "length (requests (snd ?s1)) = 1"
      and st: "map_option timestamp (seriesCache (snd ?s1)) = Some 1000"
    by (simp_all add: getSeries_miss [OF session(1,2)] session saveSeriesCache_eq demo_env_def
        no_fault_def Let_def)
  from cache_hit_skips_fetch [THEN conjunct2, THEN conjunct1, rule_format, OF s1]
  obtain sc where sc: "seriesCache (snd ?s1) = Some sc"
    and shit: "\<And>e2. check_time e2 - timestamp sc < CACHE_EXPIRY_TIME \<Longrightarrow>
      getSeries demo_JSON e2 None (snd ?s1) =
        (Inr [''Dark''], (snd ?s1)\<lparr>console := console (snd ?s1) @ [Log ''Using cached series data'']\<rparr>)"
    by blast
  have s2: "getSeries demo_JSON (demo_env 5000 (Inl (Rejected ''offline''))) None (snd ?s1) =
      (Inr [''Dark''], (snd ?s1)\<lparr>console := console (snd ?s1) @ [Log ''Using cached series data'']\<rparr>)"
    by (rule shit) (use st sc in \<open>simp add: demo_env_def CACHE_EXPIRY_TIME_def\<close>)
  let ?c1 = "getVodCategories demo_JSON (demo_env 1000 (Inr demo_categories)) demo_session"
  have c1: "?c1 = (Inr demo_categories, snd ?c1)" and cn: "length (requests (snd ?c1)) = 1"
      and ct: "map_option timestamp (vodCategoriesCache (snd ?c1)) = Some 1000"
    by (simp_all add: getVodCategories_miss [OF session(1,2)] session saveVodCategoriesCache_eq
        demo_env_def no_fault_def Let_def demo_categories_def)
  from cache_hit_skips_fetch [THEN conjunct2, THEN conjunct2, THEN conjunct1, rule_format, OF c1]
  obtain cc where cc: "vodCategoriesCache (snd ?c1) = Some cc"
    and chit: "\<And>e2. check_time e2 - timestamp cc < CACHE_EXPIRY_TIME \<Longrightarrow>
      getVodCategories demo_JSON e2 (snd ?c1) =
        (Inr demo_categories, (snd ?c1)\<lparr>console := console (snd ?c1) @ [Log ''Using cached VOD categories'']\<rparr>)"
    by blast
  have c2: "getVodCategories demo_JSON (demo_env 5000 (Inl (Rejected ''offline''))) (snd ?c1) =
      (Inr demo_categories, (snd ?c1)\<lparr>console := console (snd ?c1) @ [Log ''Using cached VOD categories'']\<rparr>)"
    by (rule chit) (use ct cc in \<open>simp add: demo_env_def CACHE_EXPIRY_TIME_def\<close>)
  let ?d1 = "getSeriesCategories demo_JSON (demo_env 1000 (Inr [])) demo_session"
  have d1: "?d1 = (Inr [], snd ?d1)" and dn: "length (requests (snd ?d1)) = 1"
      and dt: "map_option timestamp (seriesCategoriesCache (snd ?d1)) = Some 1000"
    by (simp_all add: getSeriesCategories_miss [OF session(1,2)] session
        saveSeriesCategoriesCache_eq demo_env_def no_fault_def Let_def)
  from cache_hit_skips_fetch [THEN conjunct2, THEN conjunct2, THEN conjunct2, rule_format, OF d1]
  obtain dc where dc: "seriesCategoriesCache (snd ?d1) = Some dc"
    and dhit: "\<And>e2. check_time e2 - timestamp dc < CACHE_EXPIRY_TIME \<Longrightarrow>
      getSeriesCategories demo_JSON e2 (snd ?d1) =
        (Inr [], (snd ?d1)\<lparr>console := console (snd ?d1) @ [Log ''Using cached series categories'']\<rparr>)"
    by blast
  have d2: "getSeriesCategories demo_JSON (demo_env 5000 (Inl (Rejected ''offline''))) (snd ?d1) =
      (Inr [], (snd ?d1)\<lparr>console := console (snd ?d1) @ [Log ''Using cached series categories'']\<rparr>)"
    by (rule dhit) (use dt dc in \<open>simp add: demo_env_def CACHE_EXPIRY_TIME_def\<close>)
  have "fst ?v1 = Inr [''Heat'']" "fst ?s1 = Inr [''Dark'']" "fst ?c1 = Inr demo_categories"
      "fst ?d1 = Inr []"
    using v1 s1 c1 d1 by (metis fst_conv)+
  with vn sn cn dn v2 s2 c2 d2 show ?thesis
    by (simp add: Let_def)
qed

text \<open>
  C10. The authentication gate precedes the cache lookup. Whenever the credentials or the
  auth data are absent, each of the four public catalog fetches rejects with the
  not-authenticated error and leaves the state as it was (no request, no log line, no
  cache read), whatever the four cache slots hold, a valid unexpired entry included.
\<close>

theorem auth_gate_precedes_cache_lookup:
  assumes "credentials this = None \<or> authData this = None"
  shows "getVodCategories J e1 this = (Inl NotAuthenticated, this)
       \<and> getSeriesCategories J e2 this = (Inl NotAuthenticated, this)
       \<and> getVodStreams J e3 cid this = (Inl NotAuthenticated, this)
       \<and> getSeries J e4 cid' this = (Inl NotAuthenticated, this)"
  using assms
  by (simp add: getVodCategories_unauth getSeriesCategories_unauth getVodStreams_unauth
      getSeries_unauth)

theorem auth_gate_precedes_cache_lookup_witness:
  "(\<exists>c. vodCache (demo_cached\<lparr>authData := None\<rparr>) = Some c
        \<and> isCacheValid 5000 (timestamp c) \<and> categoryId c = Some ''5'')
   \<and> (\<exists>c. vodCategoriesCache (demo_cached\<lparr>authData := None\<rparr>) = Some c
        \<and> isCacheValid 5000 (timestamp c))
   \<and> getVodCategories demo_JSON (demo_env 5000 (Inr [])) (demo_cached\<lparr>authData := None\<rparr>)
       = (Inl NotAuthenticated, demo_cached\<lparr>authData := None\<rparr>)
   \<and> getSeriesCategories demo_JSON (demo_env 5000 (Inr [])) (demo_cached\<lparr>authData := None\<rparr>)
       = (Inl NotAuthenticated, demo_cached\<lparr>authData := None\<rparr>)
   \<and> getVodStreams demo_JSON (demo_env 5000 (Inr [])) (Some ''5'') (demo_cached\<lparr>authData := None\<rparr>)
       = (Inl NotAuthenticated, demo_cached\<lparr>authData := None\<rparr>)
   \<and> getSeries demo_JSON (demo_env 5000 (Inr [])) None (demo_cached\<lparr>authData := None\<rparr>)
       = (Inl NotAuthenticated, demo_cached\<lparr>authData := None\<rparr>)"
proof -
  have gate: "credentials (demo_cached\<lparr>authData := None\<rparr>) = None
      \<or> authData (demo_cached\<lparr>authData := None\<rparr>) = None"
    by simp
  have entries: "vodCache (demo_cached\<lparr>authData := None\<rparr>) = Some demo_vod_object"
      "vodCategoriesCache (demo_cached\<lparr>authData := None\<rparr>) = Some demo_categories_object"
    by (simp_all add: demo_cached_def)
  have valid: "isCacheValid 5000 (timestamp demo_vod_object)"
      "categoryId demo_vod_object = Some ''5''"
      "isCacheValid 5000 (timestamp demo_categories_object)"
    by (simp_all add: isCacheValid_def CACHE_EXPIRY_TIME_def demo_vod_object_def
        demo_categories_object_def)
  from auth_gate_precedes_cache_lookup [OF gate, of demo_JSON "demo_env 5000 (Inr [])"
      "demo_env 5000 (Inr [])" "demo_env 5000 (Inr [])" "Some ''5''" "demo_env 5000 (Inr [])" None]
    entries valid
  show ?thesis by simp
qed



text \<open>
  C4. Fetch failure propagates and leaves the cache untouched. For every catalog type, with a
  session and no valid entry for the request, if the HTTP request rejects with \<open>err\<close> then
  the fetch rejects with that same \<open>err\<close>, and the state after it is the state before it
  with one more console line and one more issued request: the four in-memory entries and the
  persistent store are the ones from before, and the stale entry is not returned.
\<close>

theorem fetch_failure_leaves_cache_untouched:
  assumes "credentials this = Some cr" and "authData this \<noteq> None"
  shows "(reply ea = Inl err \<and>
          (\<forall>c. vodCache this = Some c \<longrightarrow>
               \<not> (isCacheValid (check_time ea) (timestamp c) \<and> categoryId c = cid)) \<longrightarrow>
          getVodStreams J ea cid this =
            (Inl err,
             this\<lparr>console := console this @ [Log ''Fetching VOD streams from API''],
                  requests := requests this @
                    [\<lparr>url = serverUrl cr @ ''/player_api.php'',
                      params = stream_params cr ''get_vod_streams'' cid\<rparr>]\<rparr>))
       \<and> (reply eb = Inl err \<and>
          (\<forall>c. seriesCache this = Some c \<longrightarrow>
               \<not> (isCacheValid (check_time eb) (timestamp c) \<and> categoryId c = cid)) \<longrightarrow>
          getSeries J eb cid this =
            (Inl err,
             this\<lparr>console := console this @ [Log ''Fetching series data from API''],
                  requests := requests this @
                    [\<lparr>url = serverUrl cr @ ''/player_api.php'',
                      params = stream_params cr ''get_series'' cid\<rparr>]\<rparr>))
       \<and> (reply ec = Inl err \<and>
          (\<forall>c. vodCategoriesCache this = Some c \<longrightarrow>
               \<not> isCacheValid (check_time ec) (timestamp c)) \<longrightarrow>
          getVodCategories J ec this =
            (Inl err,
             this\<lparr>console := console this @ [Log ''Fetching VOD categories from API''],
                  requests := requests this @
                    [\<lparr>url = serverUrl cr @ ''/player_api.php'',
                      params = [(''username'', XtreamCredentials.username cr),
                                (''password'', XtreamCredentials.password cr),
                                (''action'', ''get_vod_categories'')]\<rparr>]\<rparr>))
       \<and> (reply ed = Inl err \<and>
          (\<forall>c. seriesCategoriesCache this = Some c \<longrightarrow>
               \<not> isCacheValid (check_time ed) (timestamp c)) \<longrightarrow>
          getSeriesCategories J ed this =
            (Inl err,
             this\<lparr>console := console this @ [Log ''Fetching series categories from API''],
                  requests := requests this @
                    [\<lparr>url = serverUrl cr @ ''/player_api.php'',
                      params = [(''username'', XtreamCredentials.username cr),
                                (''password'', XtreamCredentials.password cr),
                                (''action'', ''get_series_categories'')]\<rparr>]\<rparr>))"
  by (simp add: getVodStreams_miss [OF assms] getSeries_miss [OF assms]
      getVodCategories_miss [OF assms] getSeriesCategories_miss [OF assms] Let_def)

theorem fetch_failure_leaves_cache_untouched_witness:
  "(let r = getVodStreams demo_JSON (demo_env 5000 (Inl (Rejected ''offline''))) (Some ''6'')
              demo_cached
    in fst r = Inl (Rejected ''offline'') \<and> vodCache (snd r) = Some demo_vod_object
       \<and> storage (snd r) = storage demo_cached \<and> length (requests (snd r)) = 1)
   \<and> (let r = getSeries demo_JSON (demo_env 86401000 (Inl (Rejected ''offline''))) None demo_cached
    in fst r = Inl (Rejected ''offline'') \<and> seriesCache (snd r) = Some demo_series_object
       \<and> storage (snd r) = storage demo_cached \<and> length (requests (snd r)) = 1)
   \<and> (let r = getVodCategories demo_JSON (demo_env 86401000 (Inl (Rejected ''offline'')))
              demo_cached
    in fst r = Inl (Rejected ''offline'')
       \<and> vodCategoriesCache (snd r) = Some demo_categories_object
       \<and> storage (snd r) = storage demo_cached \<and> length (requests (snd r)) = 1)
   \<and> (let r = getSeriesCategories demo_JSON (demo_env 86401000 (Inl (Rejected ''offline'')))
              demo_session
    in fst r = Inl (Rejected ''offline'') \<and> seriesCategoriesCache (snd r) = None
       \<and> storage (snd r) = storage demo_session \<and> length (requests (snd r)) = 1)"
proof -
  have s: "credentials demo_cached = Some demo_credentials" "authData demo_cached \<noteq> None"
    and s': "credentials demo_session = Some demo_credentials" "authData demo_session \<noteq> None"
    and r: "requests demo_cached = []" "requests demo_session = []"
    and c: "vodCache demo_cached = Some demo_vod_object"
      "seriesCache demo_cached = Some demo_series_object"
      "vodCategoriesCache demo_cached = Some demo_categories_object"
      "seriesCategoriesCache demo_session = None"
    by (simp_all add: demo_cached_def demo_session_def demo_blank_def)
  have t: "\<not> isCacheValid 86401000 (timestamp demo_series_object)"
      "\<not> isCacheValid 86401000 (timestamp demo_categories_object)"
      "categoryId demo_vod_object \<noteq> Some ''6''"
    by (simp_all add: demo_vod_object_def demo_series_object_def demo_categories_object_def
        isCacheValid_def CACHE_EXPIRY_TIME_def)
  have k: "check_time (demo_env n rep) = n" "reply (demo_env n rep) = rep"
    for rep :: "error + 'r" and n
    by (simp_all add: demo_env_def)
  note a = fetch_failure_leaves_cache_untouched [OF s, where J = demo_JSON
      and err = "Rejected ''offline''" and cid = "Some ''6''"
      and ea = "demo_env 5000 (Inl (Rejected ''offline''))", THEN conjunct1]
  note b = fetch_failure_leaves_cache_untouched [OF s, where J = demo_JSON
      and err = "Rejected ''offline''" and cid = None
      and eb = "demo_env 86401000 (Inl (Rejected ''offline''))"
      and ec = "demo_env 86401000 (Inl (Rejected ''offline''))"]
  note d = fetch_failure_leaves_cache_untouched [OF s', where J = demo_JSON
      and err = "Rejected ''offline''"
      and ed = "demo_env 86401000 (Inl (Rejected ''offline''))"]
  from a have 1: "getVodStreams demo_JSON (demo_env 5000 (Inl (Rejected ''offline'')))
      (Some ''6'') demo_cached =
      (Inl (Rejected ''offline''),
       demo_cached\<lparr>console := console demo_cached @ [Log ''Fetching VOD streams from API''],
          requests := requests demo_cached @
            [\<lparr>url = serverUrl demo_credentials @ ''/player_api.php'',
              params = stream_params demo_credentials ''get_vod_streams'' (Some ''6'')\<rparr>]\<rparr>)"
    using c t by (simp add: k)
  from b [THEN conjunct2, THEN conjunct1]
  have 2: "getSeries demo_JSON (demo_env 86401000 (Inl (Rejected ''offline''))) None demo_cached =
      (Inl (Rejected ''offline''),
       demo_cached\<lparr>console := console demo_cached @ [Log ''Fetching series data from API''],
          requests := requests demo_cached @
            [\<lparr>url = serverUrl demo_credentials @ ''/player_api.php'',
              params = stream_params demo_credentials ''get_series'' None\<rparr>]\<rparr>)"
    using c t by (simp add: k)
  from b [THEN conjunct2, THEN conjunct2, THEN conjunct1]
  have 3: "fst (getVodCategories demo_JSON (demo_env 86401000 (Inl (Rejected ''offline'')))
      demo_cached) = Inl (Rejected ''offline'')"
    "vodCategoriesCache (snd (getVodCategories demo_JSON
        (demo_env 86401000 (Inl (Rejected ''offline''))) demo_cached)) = Some demo_categories_object"
    "storage (snd (getVodCategories demo_JSON
        (demo_env 86401000 (Inl (Rejected ''offline''))) demo_cached)) = storage demo_cached"
    "length (requests (snd (getVodCategories demo_JSON
        (demo_env 86401000 (Inl (Rejected ''offline''))) demo_cached))) = 1"
    using c t r by (simp_all add: k)
  from d [THEN conjunct2, THEN conjunct2, THEN conjunct2]
  have 4: "fst (getSeriesCategories demo_JSON (demo_env 86401000 (Inl (Rejected ''offline'')))
      demo_session) = Inl (Rejected ''offline'')"
    "seriesCategoriesCache (snd (getSeriesCategories demo_JSON
        (demo_env 86401000 (Inl (Rejected ''offline''))) demo_session)) = None"
    "storage (snd (getSeriesCategories demo_JSON
        (demo_env 86401000 (Inl (Rejected ''offline''))) demo_session)) = storage demo_session"
    "length (requests (snd (getSeriesCategories demo_JSON
        (demo_env 86401000 (Inl (Rejected ''offline''))) demo_session))) = 1"
    using c r by (simp_all add: k)
  show ?thesis
    unfolding Let_def using 3 4 c r by (simp add: 1 2)
qed

text \<open>What a fetch on a miss does to the request log, and what it leaves when the reply is good.\<close>

lemma getVodStreams_miss_requests:
  assumes "credentials this = Some cr" and "authData this \<noteq> None"
    and "\<forall>c. vodCache this = Some c \<longrightarrow>
           \<not> (isCacheValid (check_time e) (timestamp c) \<and> categoryId c = cid)"
  shows "requests (snd (getVodStreams J e cid this)) =
           requests this @ [\<lparr>url = serverUrl cr @ ''/player_api.php'',
                              params = stream_params cr ''get_vod_streams'' cid\<rparr>]"
  by (simp add: getVodStreams_miss [OF assms] Let_def saveVodCache_eq
      split: sum.splits option.splits)

lemma getSeries_miss_requests:
  assumes "credentials this = Some cr" and "authData this \<noteq> None"
    and "\<forall>c. seriesCache this = Some c \<longrightarrow>
           \<not> (isCacheValid (check_time e) (timestamp c) \<and> categoryId c = cid)"
  shows "requests (snd (getSeries J e cid this)) =
           requests this @ [\<lparr>url = serverUrl cr @ ''/player_api.php'',
                              params = stream_params cr ''get_series'' cid\<rparr>]"
  by (simp add: getSeries_miss [OF assms] Let_def saveSeriesCache_eq
      split: sum.splits option.splits)

lemma getVodStreams_miss_ok:
  assumes "credentials this = Some cr" and "authData this \<noteq> None"
    and "\<forall>c. vodCache this = Some c \<longrightarrow>
           \<not> (isCacheValid (check_time e) (timestamp c) \<and> categoryId c = cid)"
    and "reply e = Inr d"
  shows "fst (getVodStreams J e cid this) = Inr d"
    and "vodCache (snd (getVodStreams J e cid this)) =
           Some \<lparr>data = d, timestamp = save_time e, categoryId = cid\<rparr>"
    and "credentials (snd (getVodStreams J e cid this)) = credentials this"
    and "authData (snd (getVodStreams J e cid this)) = authData this"
    and "vodCategoriesCache (snd (getVodStreams J e cid this)) = vodCategoriesCache this"
    and "seriesCache (snd (getVodStreams J e cid this)) = seriesCache this"
    and "seriesCategoriesCache (snd (getVodStreams J e cid this)) = seriesCategoriesCache this"
  using assms(4)
  by (simp_all add: getVodStreams_miss [OF assms(1-3)] Let_def saveVodCache_eq
      split: option.splits)

lemma getSeries_miss_ok:
  assumes "credentials this = Some cr" and "authData this \<noteq> None"
    and "\<forall>c. seriesCache this = Some c \<longrightarrow>
           \<not> (isCacheValid (check_time e) (timestamp c) \<and> categoryId c = cid)"
    and "reply e = Inr d"
  shows "fst (getSeries J e cid this) = Inr d"
    and "seriesCache (snd (getSeries J e cid this)) =
           Some \<lparr>data = d, timestamp = save_time e, categoryId = cid\<rparr>"
    and "credentials (snd (getSeries J e cid this)) = credentials this"
    and "authData (snd (getSeries J e cid this)) = authData this"
    and "vodCache (snd (getSeries J e cid this)) = vodCache this"
    and "vodCategoriesCache (snd (getSeries J e cid this)) = vodCategoriesCache this"
    and "seriesCategoriesCache (snd (getSeries J e cid this)) = seriesCategoriesCache this"
  using assms(4)
  by (simp_all add: getSeries_miss [OF assms(1-3)] Let_def saveSeriesCache_eq
      split: option.splits)

text \<open>
  C2. Single slot per catalog type. The state has one optional entry per catalog type (the
  four fields of the class), so no state holds two entries of one type. For the two stream
  catalogs, with a session and a cached entry \<open>c\<close> of any age: a fetch under a filter other
  than the one of \<open>c\<close>, whose request succeeds with \<open>d\<close>, issues that request, returns \<open>d\<close>,
  and leaves in the slot exactly one entry, made of \<open>d\<close>, the save time and the new filter
  (the other three slots keep what they held); \<open>c\<close> is gone, and any later fetch under the
  old filter of \<open>c\<close> issues a request again.
\<close>

theorem filter_mismatch_replaces_entry:
  assumes "credentials this = Some cr" and "authData this \<noteq> None"
  shows "(vodCache this = Some c \<and> categoryId c \<noteq> cid \<and> reply ea = Inr d \<longrightarrow>
          (let this1 = snd (getVodStreams J ea cid this) in
             fst (getVodStreams J ea cid this) = Inr d
           \<and> requests this1 =
               requests this @ [\<lparr>url = serverUrl cr @ ''/player_api.php'',
                                  params = stream_params cr ''get_vod_streams'' cid\<rparr>]
           \<and> vodCache this1 = Some \<lparr>data = d, timestamp = save_time ea, categoryId = cid\<rparr>
           \<and> (\<exists>!x. vodCache this1 = Some x) \<and> vodCache this1 \<noteq> Some c
           \<and> vodCategoriesCache this1 = vodCategoriesCache this
           \<and> seriesCache this1 = seriesCache this
           \<and> seriesCategoriesCache this1 = seriesCategoriesCache this
           \<and> (\<forall>eb. requests (snd (getVodStreams J eb (categoryId c) this1)) =
                  requests this1 @
                    [\<lparr>url = serverUrl cr @ ''/player_api.php'',
                      params = stream_params cr ''get_vod_streams'' (categoryId c)\<rparr>])))
       \<and> (seriesCache this = Some c' \<and> categoryId c' \<noteq> cid' \<and> reply ec = Inr d' \<longrightarrow>
          (let this1 = snd (getSeries J ec cid' this) in
             fst (getSeries J ec cid' this) = Inr d'
           \<and> requests this1 =
               requests this @ [\<lparr>url = serverUrl cr @ ''/player_api.php'',
                                  params = stream_params cr ''get_series'' cid'\<rparr>]
           \<and> seriesCache this1 = Some \<lparr>data = d', timestamp = save_time ec, categoryId = cid'\<rparr>
           \<and> (\<exists>!x. seriesCache this1 = Some x) \<and> seriesCache this1 \<noteq> Some c'
           \<and> vodCache this1 = vodCache this
           \<and> vodCategoriesCache this1 = vodCategoriesCache this
           \<and> seriesCategoriesCache this1 = seriesCategoriesCache this
           \<and> (\<forall>ed. requests (snd (getSeries J ed (categoryId c') this1)) =
                  requests this1 @
                    [\<lparr>url = serverUrl cr @ ''/player_api.php'',
                      params = stream_params cr ''get_series'' (categoryId c')\<rparr>])))"
proof (intro conjI impI)
  assume a: "vodCache this = Some c \<and> categoryId c \<noteq> cid \<and> reply ea = Inr d"
  then have miss: "\<forall>x. vodCache this = Some x \<longrightarrow>
      \<not> (isCacheValid (check_time ea) (timestamp x) \<and> categoryId x = cid)"
    by simp
  from a have rep: "reply ea = Inr d" by simp
  let ?this1 = "snd (getVodStreams J ea cid this)"
  note ok = getVodStreams_miss_ok [OF assms miss rep, of J]
  have again: "requests (snd (getVodStreams J eb (categoryId c) ?this1)) =
      requests ?this1 @ [\<lparr>url = serverUrl cr @ ''/player_api.php'',
                          params = stream_params cr ''get_vod_streams'' (categoryId c)\<rparr>]" for eb
  proof (rule getVodStreams_miss_requests)
    show "credentials ?this1 = Some cr" using ok(3) assms(1) by simp
    show "authData ?this1 \<noteq> None" using ok(4) assms(2) by simp
    show "\<forall>x. vodCache ?this1 = Some x \<longrightarrow>
        \<not> (isCacheValid (check_time eb) (timestamp x) \<and> categoryId x = categoryId c)"
      using ok(2) a by auto
  qed
  have gone: "vodCache ?this1 \<noteq> Some c"
  proof
    assume "vodCache ?this1 = Some c"
    with ok(2) have "c = \<lparr>data = d, timestamp = save_time ea, categoryId = cid\<rparr>" by simp
    then have "categoryId c = cid" by simp
    with a show False by simp
  qed
  show "let this1 = snd (getVodStreams J ea cid this) in
             fst (getVodStreams J ea cid this) = Inr d
           \<and> requests this1 =
               requests this @ [\<lparr>url = serverUrl cr @ ''/player_api.php'',
                                  params = stream_params cr ''get_vod_streams'' cid\<rparr>]
           \<and> vodCache this1 = Some \<lparr>data = d, timestamp = save_time ea, categoryId = cid\<rparr>
           \<and> (\<exists>!x. vodCache this1 = Some x) \<and> vodCache this1 \<noteq> Some c
           \<and> vodCategoriesCache this1 = vodCategoriesCache this
           \<and> seriesCache this1 = seriesCache this
           \<and> seriesCategoriesCache this1 = seriesCategoriesCache this
           \<and> (\<forall>eb. requests (snd (getVodStreams J eb (categoryId c) this1)) =
                  requests this1 @
                    [\<lparr>url = serverUrl cr @ ''/player_api.php'',
                      params = stream_params cr ''get_vod_streams'' (categoryId c)\<rparr>])"
    unfolding Let_def
    using ok gone again getVodStreams_miss_requests [OF assms miss, of J]
    by simp
next
  assume a: "seriesCache this = Some c' \<and> categoryId c' \<noteq> cid' \<and> reply ec = Inr d'"
  then have miss: "\<forall>x. seriesCache this = Some x \<longrightarrow>
      \<not> (isCacheValid (check_time ec) (timestamp x) \<and> categoryId x = cid')"
    by simp
  from a have rep: "reply ec = Inr d'" by simp
  let ?this1 = "snd (getSeries J ec cid' this)"
  note ok = getSeries_miss_ok [OF assms miss rep, of J]
  have again: "requests (snd (getSeries J ed (categoryId c') ?this1)) =
      requests ?this1 @ [\<lparr>url = serverUrl cr @ ''/player_api.php'',
                          params = stream_params cr ''get_series'' (categoryId c')\<rparr>]" for ed
  proof (rule getSeries_miss_requests)
    show "credentials ?this1 = Some cr" using ok(3) assms(1) by simp
    show "authData ?this1 \<noteq> None" using ok(4) assms(2) by simp
    show "\<forall>x. seriesCache ?this1 = Some x \<longrightarrow>
        \<not> (isCacheValid (check_time ed) (timestamp x) \<and> categoryId x = categoryId c')"
      using ok(2) a by auto
  qed
  have gone: "seriesCache ?this1 \<noteq> Some c'"
  proof
    assume "seriesCache ?this1 = Some c'"
    with ok(2) have "c' = \<lparr>data = d', timestamp = save_time ec, categoryId = cid'\<rparr>" by simp
    then have "categoryId c' = cid'" by simp
    with a show False by simp
  qed
  show "let this1 = snd (getSeries J ec cid' this) in
             fst (getSeries J ec cid' this) = Inr d'
           \<and> requests this1 =
               requests this @ [\<lparr>url = serverUrl cr @ ''/player_api.php'',
                                  params = stream_params cr ''get_series'' cid'\<rparr>]
           \<and> seriesCache this1 = Some \<lparr>data = d', timestamp = save_time ec, categoryId = cid'\<rparr>
           \<and> (\<exists>!x. seriesCache this1 = Some x) \<and> seriesCache this1 \<noteq> Some c'
           \<and> vodCache this1 = vodCache this
           \<and> vodCategoriesCache this1 = vodCategoriesCache this
           \<and> seriesCategoriesCache this1 = seriesCategoriesCache this
           \<and> (\<forall>ed. requests (snd (getSeries J ed (categoryId c') this1)) =
                  requests this1 @
                    [\<lparr>url = serverUrl cr @ ''/player_api.php'',
                      params = stream_params cr ''get_series'' (categoryId c')\<rparr>])"
    unfolding Let_def
    using ok gone again getSeries_miss_requests [OF assms miss, of J]
    by simp
qed

theorem filter_mismatch_replaces_entry_witness:
  "vodCache demo_cached = Some demo_vod_object \<and> isCacheValid 5000 (timestamp demo_vod_object)
   \<and> categoryId demo_vod_object = Some ''5''
   \<and> (let r1 = getVodStreams demo_JSON (demo_env 5000 (Inr [''Ran''])) (Some ''6'') demo_cached;
          r2 = getVodStreams demo_JSON (demo_env 6000 (Inr [''Heat''])) (Some ''5'') (snd r1)
      in fst r1 = Inr [''Ran''] \<and> length (requests (snd r1)) = 1
         \<and> vodCache (snd r1) = Some \<lparr>data = [''Ran''], timestamp = 5000, categoryId = Some ''6''\<rparr>
         \<and> length (requests (snd r2)) = 2)
   \<and> (let r1 = getSeries demo_JSON (demo_env 5000 (Inr [''Lost''])) (Some ''9'') demo_cached;
          r2 = getSeries demo_JSON (demo_env 6000 (Inr [''Dark''])) None (snd r1)
      in fst r1 = Inr [''Lost''] \<and> length (requests (snd r1)) = 1
         \<and> seriesCache (snd r1) = Some \<lparr>data = [''Lost''], timestamp = 5000, categoryId = Some ''9''\<rparr>
         \<and> length (requests (snd r2)) = 2)"
proof -
  have s: "credentials demo_cached = Some demo_credentials" "authData demo_cached \<noteq> None"
    and r: "requests demo_cached = []"
    and c: "vodCache demo_cached = Some demo_vod_object"
      "seriesCache demo_cached = Some demo_series_object"
    by (simp_all add: demo_cached_def demo_session_def demo_blank_def)
  have t: "isCacheValid 5000 (timestamp demo_vod_object)"
      "categoryId demo_vod_object = Some ''5''" "categoryId demo_series_object = None"
    by (simp_all add: demo_vod_object_def demo_series_object_def isCacheValid_def
        CACHE_EXPIRY_TIME_def)
  have k: "reply (demo_env n rep) = rep" "save_time (demo_env n rep) = n"
    for rep :: "error + 'r" and n
    by (simp_all add: demo_env_def)
  note v = filter_mismatch_replaces_entry [OF s, where J = demo_JSON and c = demo_vod_object
      and cid = "Some ''6''" and ea = "demo_env 5000 (Inr [''Ran''])" and d = "[''Ran'']",
      THEN conjunct1, unfolded Let_def]
  note w = filter_mismatch_replaces_entry [OF s, where J = demo_JSON and c' = demo_series_object
      and cid' = "Some ''9''" and ec = "demo_env 5000 (Inr [''Lost''])" and d' = "[''Lost'']",
      THEN conjunct2, unfolded Let_def]
  from v c t have 1:
    "fst (getVodStreams demo_JSON (demo_env 5000 (Inr [''Ran''])) (Some ''6'') demo_cached)
       = Inr [''Ran'']"
    "length (requests (snd (getVodStreams demo_JSON (demo_env 5000 (Inr [''Ran'']))
       (Some ''6'') demo_cached))) = 1"
    "vodCache (snd (getVodStreams demo_JSON (demo_env 5000 (Inr [''Ran''])) (Some ''6'')
       demo_cached)) = Some \<lparr>data = [''Ran''], timestamp = 5000, categoryId = Some ''6''\<rparr>"
    "length (requests (snd (getVodStreams demo_JSON (demo_env 6000 (Inr [''Heat'']))
       (Some ''5'') (snd (getVodStreams demo_JSON (demo_env 5000 (Inr [''Ran'']))
       (Some ''6'') demo_cached))))) = 2"
    by (simp_all add: k r)
  from w c t have 2:
    "fst (getSeries demo_JSON (demo_env 5000 (Inr [''Lost''])) (Some ''9'') demo_cached)
       = Inr [''Lost'']"
    "length (requests (snd (getSeries demo_JSON (demo_env 5000 (Inr [''Lost'']))
       (Some ''9'') demo_cached))) = 1"
    "seriesCache (snd (getSeries demo_JSON (demo_env 5000 (Inr [''Lost''])) (Some ''9'')
       demo_cached)) = Some \<lparr>data = [''Lost''], timestamp = 5000, categoryId = Some ''9''\<rparr>"
    "length (requests (snd (getSeries demo_JSON (demo_env 6000 (Inr [''Dark'']))
       None (snd (getSeries demo_JSON (demo_env 5000 (Inr [''Lost'']))
       (Some ''9'') demo_cached))))) = 2"
    by (simp_all add: k r)
  show ?thesis
    unfolding Let_def using 1 2 c t by simp
qed

text \<open>The frame of a stream fetch on a miss: what it sets and what it leaves.\<close>

lemma getVodStreams_miss_frame:
  assumes "credentials this = Some cr" and "authData this \<noteq> None"
    and "\<forall>c. vodCache this = Some c \<longrightarrow>
           \<not> (isCacheValid (check_time e) (timestamp c) \<and> categoryId c = cid)"
  shows "fst (getVodStreams J e cid this) = reply e"
    and "vodCache (snd (getVodStreams J e cid this)) =
           (case reply e of
              Inl err \<Rightarrow> vodCache this
            | Inr d \<Rightarrow> Some \<lparr>data = d, timestamp = save_time e, categoryId = cid\<rparr>)"
    and "credentials (snd (getVodStreams J e cid this)) = credentials this"
    and "authData (snd (getVodStreams J e cid this)) = authData this"
    and "vodCategoriesCache (snd (getVodStreams J e cid this)) = vodCategoriesCache this"
    and "seriesCache (snd (getVodStreams J e cid this)) = seriesCache this"
    and "seriesCategoriesCache (snd (getVodStreams J e cid this)) = seriesCategoriesCache this"
    and "k \<noteq> VOD_CACHE_KEY \<Longrightarrow> storage (snd (getVodStreams J e cid this)) k = storage this k"
    and "set (console this) \<subseteq> set (console (snd (getVodStreams J e cid this)))"
    and "storage (snd (getVodStreams J e cid this)) VOD_CACHE_KEY =
           (case reply e of
              Inl err \<Rightarrow> storage this VOD_CACHE_KEY
            | Inr d \<Rightarrow>
                (case fault e (SetItem VOD_CACHE_KEY) of
                   None \<Rightarrow> Some (stringify (vod_json J)
                             (Some \<lparr>data = d, timestamp = save_time e, categoryId = cid\<rparr>))
                 | Some err \<Rightarrow> storage this VOD_CACHE_KEY))"
  by (auto simp add: getVodStreams_miss [OF assms] Let_def saveVodCache_eq
      split: sum.splits option.splits)

lemma getSeries_miss_frame:
  assumes "credentials this = Some cr" and "authData this \<noteq> None"
    and "\<forall>c. seriesCache this = Some c \<longrightarrow>
           \<not> (isCacheValid (check_time e) (timestamp c) \<and> categoryId c = cid)"
  shows "fst (getSeries J e cid this) = reply e"
    and "seriesCache (snd (getSeries J e cid this)) =
           (case reply e of
              Inl err \<Rightarrow> seriesCache this
            | Inr d \<Rightarrow> Some \<lparr>data = d, timestamp = save_time e, categoryId = cid\<rparr>)"
    and "credentials (snd (getSeries J e cid this)) = credentials this"
    and "authData (snd (getSeries J e cid this)) = authData this"
    and "vodCategoriesCache (snd (getSeries J e cid this)) = vodCategoriesCache this"
    and "vodCache (snd (getSeries J e cid this)) = vodCache this"
    and "seriesCategoriesCache (snd (getSeries J e cid this)) = seriesCategoriesCache this"
    and "k \<noteq> SERIES_CACHE_KEY \<Longrightarrow> storage (snd (getSeries J e cid this)) k = storage this k"
    and "set (console this) \<subseteq> set (console (snd (getSeries J e cid this)))"
    and "storage (snd (getSeries J e cid this)) SERIES_CACHE_KEY =
           (case reply e of
              Inl err \<Rightarrow> storage this SERIES_CACHE_KEY
            | Inr d \<Rightarrow>
                (case fault e (SetItem SERIES_CACHE_KEY) of
                   None \<Rightarrow> Some (stringify (series_json J)
                             (Some \<lparr>data = d, timestamp = save_time e, categoryId = cid\<rparr>))
                 | Some err \<Rightarrow> storage this SERIES_CACHE_KEY))"
  by (auto simp add: getSeries_miss [OF assms] Let_def saveSeriesCache_eq
      split: sum.splits option.splits)

text \<open>\<open>clearCache\<close> when the four removals succeed: without a session, and with one.\<close>

lemma clearCache_no_session:
  assumes "credentials this = None \<or> authData this = None"
    and "remove_fault env (RemoveItem VOD_CACHE_KEY) = None"
    and "remove_fault env (RemoveItem VOD_CATEGORIES_CACHE_KEY) = None"
    and "remove_fault env (RemoveItem SERIES_CACHE_KEY) = None"
    and "remove_fault env (RemoveItem SERIES_CATEGORIES_CACHE_KEY) = None"
  shows "clearCache J env this =
    (Inr (),
     this\<lparr>vodCache := None, vodCategoriesCache := None, seriesCache := None,
          seriesCategoriesCache := None,
          storage := (storage this)(VOD_CACHE_KEY := None, VOD_CATEGORIES_CACHE_KEY := None,
                        SERIES_CACHE_KEY := None, SERIES_CATEGORIES_CACHE_KEY := None),
          console := console this @ [Log ''Content cache cleared and reloaded successfully'']\<rparr>)"
  using assms by (auto simp add: clearCache_def action_defs Let_def)

lemma getLiveStreams_eq:
  "credentials this = Some cr \<Longrightarrow> authData this \<noteq> None \<Longrightarrow>
   getLiveStreams rep cid this =
     (rep, this\<lparr>requests := requests this @
                   [\<lparr>url = serverUrl cr @ ''/player_api.php'',
                     params = stream_params cr ''get_live_streams'' cid\<rparr>]\<rparr>)"
  by (auto simp add: getLiveStreams_def action_defs Let_def split: sum.splits)

text \<open>One rewarm block of \<open>clearCache\<close>: the fetch runs, a line is logged, nothing is thrown.\<close>

lemma rewarm_step:
  "tryCatch (andThen f (\<lambda>xs. console_log_count a (length xs) b)) (\<lambda>err. console_error m err) =
     (\<lambda>this. (Inr (),
        (snd (f this))\<lparr>console := console (snd (f this)) @
           [case fst (f this) of Inl err \<Rightarrow> Error m err | Inr xs \<Rightarrow> LogCount a (length xs) b]\<rparr>))"
proof
  fix this
  show "tryCatch (andThen f (\<lambda>xs. console_log_count a (length xs) b))
          (\<lambda>err. console_error m err) this =
        (Inr (),
         (snd (f this))\<lparr>console := console (snd (f this)) @
           [case fst (f this) of Inl err \<Rightarrow> Error m err | Inr xs \<Rightarrow> LogCount a (length xs) b]\<rparr>)"
  proof (cases "f this")
    case (Pair r s)
    then show ?thesis
      by (cases r) (simp_all add: action_defs)
  qed
qed

lemma clearCache_session_seq:
  assumes "credentials this = Some cr" and "authData this \<noteq> None"
    and "remove_fault env (RemoveItem VOD_CACHE_KEY) = None"
    and "remove_fault env (RemoveItem VOD_CATEGORIES_CACHE_KEY) = None"
    and "remove_fault env (RemoveItem SERIES_CACHE_KEY) = None"
    and "remove_fault env (RemoveItem SERIES_CATEGORIES_CACHE_KEY) = None"
  shows "clearCache J env this =
    (let s0 = this\<lparr>vodCache := None, vodCategoriesCache := None, seriesCache := None,
                   seriesCategoriesCache := None,
                   storage := (storage this)(VOD_CACHE_KEY := None,
                      VOD_CATEGORIES_CACHE_KEY := None, SERIES_CACHE_KEY := None,
                      SERIES_CATEGORIES_CACHE_KEY := None),
                   console := console this @ [Log ''Reloading fresh content data...'']\<rparr>;
         r1 = getLiveStreams (live_reply env) None s0;
         s1 = (snd r1)\<lparr>console := console (snd r1) @
                  [case fst r1 of
                     Inl err \<Rightarrow> Error ''Error reloading live channels:'' err
                   | Inr xs \<Rightarrow> LogCount ''Reloaded '' (length xs) '' live channels'']\<rparr>;
         r2 = getVodStreams J (vod_env env) None s1;
         s2 = (snd r2)\<lparr>console := console (snd r2) @
                  [case fst r2 of
                     Inl err \<Rightarrow> Error ''Error reloading movies:'' err
                   | Inr xs \<Rightarrow> LogCount ''Reloaded '' (length xs) '' movies'']\<rparr>;
         r3 = getSeries J (series_env env) None s2;
         s3 = (snd r3)\<lparr>console := console (snd r3) @
                  [case fst r3 of
                     Inl err \<Rightarrow> Error ''Error reloading series:'' err
                   | Inr xs \<Rightarrow> LogCount ''Reloaded '' (length xs) '' series'']\<rparr>
     in (Inr (),
         s3\<lparr>console := console s3 @ [Log ''Content cache cleared and reloaded successfully'']\<rparr>))"
  unfolding clearCache_def rewarm_step
  using assms
  by (simp add: andThen_def tryCatch_def resolve_def reject_def
      read_def assign_def console_log_def removeItem_def Let_def)

lemma clearCache_session:
  assumes s: "credentials this = Some cr" "authData this \<noteq> None"
    and rm: "remove_fault env (RemoveItem VOD_CACHE_KEY) = None"
      "remove_fault env (RemoveItem VOD_CATEGORIES_CACHE_KEY) = None"
      "remove_fault env (RemoveItem SERIES_CACHE_KEY) = None"
      "remove_fault env (RemoveItem SERIES_CATEGORIES_CACHE_KEY) = None"
  shows "fst (clearCache J env this) = Inr ()"
    and "requests (snd (clearCache J env this)) =
           requests this @
             [\<lparr>url = serverUrl cr @ ''/player_api.php'',
               params = stream_params cr ''get_live_streams'' None\<rparr>,
              \<lparr>url = serverUrl cr @ ''/player_api.php'',
               params = stream_params cr ''get_vod_streams'' None\<rparr>,
              \<lparr>url = serverUrl cr @ ''/player_api.php'',
               params = stream_params cr ''get_series'' None\<rparr>]"
    and "vodCache (snd (clearCache J env this)) =
           (case reply (vod_env env) of
              Inl err \<Rightarrow> None
            | Inr d \<Rightarrow> Some \<lparr>data = d, timestamp = save_time (vod_env env), categoryId = None\<rparr>)"
    and "seriesCache (snd (clearCache J env this)) =
           (case reply (series_env env) of
              Inl err \<Rightarrow> None
            | Inr d \<Rightarrow> Some \<lparr>data = d, timestamp = save_time (series_env env), categoryId = None\<rparr>)"
    and "vodCategoriesCache (snd (clearCache J env this)) = None"
    and "seriesCategoriesCache (snd (clearCache J env this)) = None"
    and "storage (snd (clearCache J env this)) VOD_CATEGORIES_CACHE_KEY = None"
    and "storage (snd (clearCache J env this)) SERIES_CATEGORIES_CACHE_KEY = None"
    and "credentials (snd (clearCache J env this)) = credentials this"
    and "authData (snd (clearCache J env this)) = authData this"
    and "live_reply env = Inl err \<Longrightarrow>
           Error ''Error reloading live channels:'' err \<in> set (console (snd (clearCache J env this)))"
    and "reply (vod_env env) = Inl err \<Longrightarrow>
           Error ''Error reloading movies:'' err \<in> set (console (snd (clearCache J env this)))"
    and "reply (series_env env) = Inl err \<Longrightarrow>
           Error ''Error reloading series:'' err \<in> set (console (snd (clearCache J env this)))"
    and "storage (snd (clearCache J env this)) VOD_CACHE_KEY =
           (case reply (vod_env env) of
              Inl err \<Rightarrow> None
            | Inr d \<Rightarrow>
                (case fault (vod_env env) (SetItem VOD_CACHE_KEY) of
                   None \<Rightarrow> Some (stringify (vod_json J)
                             (Some \<lparr>data = d, timestamp = save_time (vod_env env),
                                    categoryId = None\<rparr>))
                 | Some err \<Rightarrow> None))"
    and "storage (snd (clearCache J env this)) SERIES_CACHE_KEY =
           (case reply (series_env env) of
              Inl err \<Rightarrow> None
            | Inr d \<Rightarrow>
                (case fault (series_env env) (SetItem SERIES_CACHE_KEY) of
                   None \<Rightarrow> Some (stringify (series_json J)
                             (Some \<lparr>data = d, timestamp = save_time (series_env env),
                                    categoryId = None\<rparr>))
                 | Some err \<Rightarrow> None))"
proof -
  define s0 where "s0 = this\<lparr>vodCache := None, vodCategoriesCache := None, seriesCache := None,
                   seriesCategoriesCache := None,
                   storage := (storage this)(VOD_CACHE_KEY := None,
                      VOD_CATEGORIES_CACHE_KEY := None, SERIES_CACHE_KEY := None,
                      SERIES_CATEGORIES_CACHE_KEY := None),
                   console := console this @ [Log ''Reloading fresh content data...'']\<rparr>"
  define r1 where "r1 = getLiveStreams (live_reply env) (None :: string option) s0"
  define s1 where "s1 = (snd r1)\<lparr>console := console (snd r1) @
                  [case fst r1 of
                     Inl err \<Rightarrow> Error ''Error reloading live channels:'' err
                   | Inr xs \<Rightarrow> LogCount ''Reloaded '' (length xs) '' live channels'']\<rparr>"
  define r2 where "r2 = getVodStreams J (vod_env env) None s1"
  define s2 where "s2 = (snd r2)\<lparr>console := console (snd r2) @
                  [case fst r2 of
                     Inl err \<Rightarrow> Error ''Error reloading movies:'' err
                   | Inr xs \<Rightarrow> LogCount ''Reloaded '' (length xs) '' movies'']\<rparr>"
  define r3 where "r3 = getSeries J (series_env env) None s2"
  define s3 where "s3 = (snd r3)\<lparr>console := console (snd r3) @
                  [case fst r3 of
                     Inl err \<Rightarrow> Error ''Error reloading series:'' err
                   | Inr xs \<Rightarrow> LogCount ''Reloaded '' (length xs) '' series'']\<rparr>"
  have final: "clearCache J env this =
      (Inr (), s3\<lparr>console := console s3 @ [Log ''Content cache cleared and reloaded successfully'']\<rparr>)"
    unfolding clearCache_session_seq [OF s rm] s0_def r1_def s1_def r2_def s2_def r3_def s3_def
      Let_def ..
  have s0: "credentials s0 = Some cr" "authData s0 \<noteq> None" "vodCache s0 = None"
      "seriesCache s0 = None" "vodCategoriesCache s0 = None" "seriesCategoriesCache s0 = None"
      "storage s0 VOD_CATEGORIES_CACHE_KEY = None" "storage s0 SERIES_CATEGORIES_CACHE_KEY = None"
      "requests s0 = requests this" "authData s0 = authData this"
    using s by (simp_all add: s0_def keys_distinct')
  have k0: "storage s0 VOD_CACHE_KEY = None" "storage s0 SERIES_CACHE_KEY = None"
    by (simp_all add: s0_def keys_distinct')
  have r1: "r1 = (live_reply env,
      s0\<lparr>requests := requests s0 @ [\<lparr>url = serverUrl cr @ ''/player_api.php'',
                                       params = stream_params cr ''get_live_streams'' None\<rparr>]\<rparr>)"
    unfolding r1_def by (rule getLiveStreams_eq [OF s0(1,2)])
  have s1: "credentials s1 = Some cr" "authData s1 \<noteq> None" "vodCache s1 = None"
      "seriesCache s1 = None" "vodCategoriesCache s1 = None" "seriesCategoriesCache s1 = None"
      "storage s1 VOD_CATEGORIES_CACHE_KEY = None" "storage s1 SERIES_CATEGORIES_CACHE_KEY = None"
      "requests s1 = requests this @ [\<lparr>url = serverUrl cr @ ''/player_api.php'',
                                       params = stream_params cr ''get_live_streams'' None\<rparr>]"
      "authData s1 = authData this"
      "live_reply env = Inl err \<Longrightarrow> Error ''Error reloading live channels:'' err \<in> set (console s1)"
    using s0 by (simp_all add: s1_def r1)
  have k1: "storage s1 VOD_CACHE_KEY = None" "storage s1 SERIES_CACHE_KEY = None"
    using k0 by (simp_all add: s1_def r1)
  have miss2: "\<forall>c. vodCache s1 = Some c \<longrightarrow>
      \<not> (isCacheValid (check_time (vod_env env)) (timestamp c) \<and> categoryId c = None)"
    using s1(3) by simp
  note f2 = getVodStreams_miss_frame [OF s1(1,2) miss2, where J = J, folded r2_def]
  note q2 = getVodStreams_miss_requests [OF s1(1,2) miss2, where J = J, folded r2_def]
  have s2: "credentials s2 = Some cr" "authData s2 \<noteq> None" "seriesCache s2 = None"
      "vodCategoriesCache s2 = None" "seriesCategoriesCache s2 = None"
      "storage s2 VOD_CATEGORIES_CACHE_KEY = None" "storage s2 SERIES_CATEGORIES_CACHE_KEY = None"
      "authData s2 = authData this"
      "vodCache s2 = (case reply (vod_env env) of
              Inl err \<Rightarrow> None
            | Inr d \<Rightarrow> Some \<lparr>data = d, timestamp = save_time (vod_env env), categoryId = None\<rparr>)"
      "requests s2 = requests this @
             [\<lparr>url = serverUrl cr @ ''/player_api.php'',
               params = stream_params cr ''get_live_streams'' None\<rparr>,
              \<lparr>url = serverUrl cr @ ''/player_api.php'',
               params = stream_params cr ''get_vod_streams'' None\<rparr>]"
    using s1 f2(2-7) q2 f2(8) [of VOD_CATEGORIES_CACHE_KEY] f2(8) [of SERIES_CATEGORIES_CACHE_KEY]
    by (simp_all add: s2_def keys_distinct' split: sum.splits)
  have k2: "storage s2 VOD_CACHE_KEY =
           (case reply (vod_env env) of
              Inl err \<Rightarrow> None
            | Inr d \<Rightarrow>
                (case fault (vod_env env) (SetItem VOD_CACHE_KEY) of
                   None \<Rightarrow> Some (stringify (vod_json J)
                             (Some \<lparr>data = d, timestamp = save_time (vod_env env),
                                    categoryId = None\<rparr>))
                 | Some err \<Rightarrow> None))"
      "storage s2 SERIES_CACHE_KEY = None"
    using k1 f2(10) f2(8) [of SERIES_CACHE_KEY]
    by (simp_all add: s2_def keys_distinct' split: sum.splits option.splits)
  have c2: "live_reply env = Inl err \<Longrightarrow> Error ''Error reloading live channels:'' err \<in> set (console s2)"
      "reply (vod_env env) = Inl err \<Longrightarrow> Error ''Error reloading movies:'' err \<in> set (console s2)"
    using s1(11) f2(9) f2(1) by (auto simp add: s2_def)
  have miss3: "\<forall>c. seriesCache s2 = Some c \<longrightarrow>
      \<not> (isCacheValid (check_time (series_env env)) (timestamp c) \<and> categoryId c = None)"
    using s2(3) by simp
  note f3 = getSeries_miss_frame [OF s2(1,2) miss3, where J = J, folded r3_def]
  note q3 = getSeries_miss_requests [OF s2(1,2) miss3, where J = J, folded r3_def]
  have s3: "credentials s3 = Some cr" "authData s3 = authData this"
      "vodCategoriesCache s3 = None" "seriesCategoriesCache s3 = None"
      "storage s3 VOD_CATEGORIES_CACHE_KEY = None" "storage s3 SERIES_CATEGORIES_CACHE_KEY = None"
      "vodCache s3 = (case reply (vod_env env) of
              Inl err \<Rightarrow> None
            | Inr d \<Rightarrow> Some \<lparr>data = d, timestamp = save_time (vod_env env), categoryId = None\<rparr>)"
      "seriesCache s3 = (case reply (series_env env) of
              Inl err \<Rightarrow> None
            | Inr d \<Rightarrow> Some \<lparr>data = d, timestamp = save_time (series_env env), categoryId = None\<rparr>)"
      "requests s3 = requests this @
             [\<lparr>url = serverUrl cr @ ''/player_api.php'',
               params = stream_params cr ''get_live_streams'' None\<rparr>,
              \<lparr>url = serverUrl cr @ ''/player_api.php'',
               params = stream_params cr ''get_vod_streams'' None\<rparr>,
              \<lparr>url = serverUrl cr @ ''/player_api.php'',
               params = stream_params cr ''get_series'' None\<rparr>]"
    using s2 f3(2-7) q3 f3(8) [of VOD_CATEGORIES_CACHE_KEY] f3(8) [of SERIES_CATEGORIES_CACHE_KEY]
    by (simp_all add: s3_def keys_distinct' split: sum.splits)
  have k3: "storage s3 VOD_CACHE_KEY =
           (case reply (vod_env env) of
              Inl err \<Rightarrow> None
            | Inr d \<Rightarrow>
                (case fault (vod_env env) (SetItem VOD_CACHE_KEY) of
                   None \<Rightarrow> Some (stringify (vod_json J)
                             (Some \<lparr>data = d, timestamp = save_time (vod_env env),
                                    categoryId = None\<rparr>))
                 | Some err \<Rightarrow> None))"
      "storage s3 SERIES_CACHE_KEY =
           (case reply (series_env env) of
              Inl err \<Rightarrow> None
            | Inr d \<Rightarrow>
                (case fault (series_env env) (SetItem SERIES_CACHE_KEY) of
                   None \<Rightarrow> Some (stringify (series_json J)
                             (Some \<lparr>data = d, timestamp = save_time (series_env env),
                                    categoryId = None\<rparr>))
                 | Some err \<Rightarrow> None))"
    using k2 f3(10) f3(8) [of VOD_CACHE_KEY]
    by (simp_all add: s3_def keys_distinct' split: sum.splits option.splits)
  have c3: "live_reply env = Inl err \<Longrightarrow> Error ''Error reloading live channels:'' err \<in> set (console s3)"
      "reply (vod_env env) = Inl err \<Longrightarrow> Error ''Error reloading movies:'' err \<in> set (console s3)"
      "reply (series_env env) = Inl err \<Longrightarrow> Error ''Error reloading series:'' err \<in> set (console s3)"
    using c2 f3(9) f3(1) by (auto simp add: s3_def)
  show "fst (clearCache J env this) = Inr ()" by (simp add: final)
  show "requests (snd (clearCache J env this)) =
           requests this @
             [\<lparr>url = serverUrl cr @ ''/player_api.php'',
               params = stream_params cr ''get_live_streams'' None\<rparr>,
              \<lparr>url = serverUrl cr @ ''/player_api.php'',
               params = stream_params cr ''get_vod_streams'' None\<rparr>,
              \<lparr>url = serverUrl cr @ ''/player_api.php'',
               params = stream_params cr ''get_series'' None\<rparr>]"
    by (simp add: final s3)
  show "vodCache (snd (clearCache J env this)) =
           (case reply (vod_env env) of
              Inl err \<Rightarrow> None
            | Inr d \<Rightarrow> Some \<lparr>data = d, timestamp = save_time (vod_env env), categoryId = None\<rparr>)"
    by (simp add: final s3)
  show "seriesCache (snd (clearCache J env this)) =
           (case reply (series_env env) of
              Inl err \<Rightarrow> None
            | Inr d \<Rightarrow> Some \<lparr>data = d, timestamp = save_time (series_env env), categoryId = None\<rparr>)"
    by (simp add: final s3)
  show "vodCategoriesCache (snd (clearCache J env this)) = None" by (simp add: final s3)
  show "seriesCategoriesCache (snd (clearCache J env this)) = None" by (simp add: final s3)
  show "storage (snd (clearCache J env this)) VOD_CATEGORIES_CACHE_KEY = None"
    by (simp add: final s3)
  show "storage (snd (clearCache J env this)) SERIES_CATEGORIES_CACHE_KEY = None"
    by (simp add: final s3)
  show "credentials (snd (clearCache J env this)) = credentials this" by (simp add: final s3 s)
  show "authData (snd (clearCache J env this)) = authData this" by (simp add: final s3)
  show "live_reply env = Inl err \<Longrightarrow>
           Error ''Error reloading live channels:'' err \<in> set (console (snd (clearCache J env this)))"
    using c3 by (simp add: final)
  show "reply (vod_env env) = Inl err \<Longrightarrow>
           Error ''Error reloading movies:'' err \<in> set (console (snd (clearCache J env this)))"
    using c3 by (simp add: final)
  show "reply (series_env env) = Inl err \<Longrightarrow>
           Error ''Error reloading series:'' err \<in> set (console (snd (clearCache J env this)))"
    using c3 by (simp add: final)
  show "storage (snd (clearCache J env this)) VOD_CACHE_KEY =
           (case reply (vod_env env) of
              Inl err \<Rightarrow> None
            | Inr d \<Rightarrow>
                (case fault (vod_env env) (SetItem VOD_CACHE_KEY) of
                   None \<Rightarrow> Some (stringify (vod_json J)
                             (Some \<lparr>data = d, timestamp = save_time (vod_env env),
                                    categoryId = None\<rparr>))
                 | Some err \<Rightarrow> None))"
    by (simp add: final k3)
  show "storage (snd (clearCache J env this)) SERIES_CACHE_KEY =
           (case reply (series_env env) of
              Inl err \<Rightarrow> None
            | Inr d \<Rightarrow>
                (case fault (series_env env) (SetItem SERIES_CACHE_KEY) of
                   None \<Rightarrow> Some (stringify (series_json J)
                             (Some \<lparr>data = d, timestamp = save_time (series_env env),
                                    categoryId = None\<rparr>))
                 | Some err \<Rightarrow> None))"
    by (simp add: final k3)
qed

text \<open>\<open>clearCache\<close> when a removal rejects: the catch block logs and rejects again.\<close>

lemma clearCache_remove_rejects:
  assumes "remove_fault env (RemoveItem VOD_CACHE_KEY) \<noteq> None
         \<or> remove_fault env (RemoveItem VOD_CATEGORIES_CACHE_KEY) \<noteq> None
         \<or> remove_fault env (RemoveItem SERIES_CACHE_KEY) \<noteq> None
         \<or> remove_fault env (RemoveItem SERIES_CATEGORIES_CACHE_KEY) \<noteq> None"
  shows "\<exists>e k. k \<in> {VOD_CACHE_KEY, VOD_CATEGORIES_CACHE_KEY, SERIES_CACHE_KEY,
                    SERIES_CATEGORIES_CACHE_KEY}
             \<and> remove_fault env (RemoveItem k) = Some e
             \<and> fst (clearCache J env this) = Inl e
             \<and> console (snd (clearCache J env this)) =
                 console this @ [Error ''Error clearing cache:'' e]
             \<and> vodCache (snd (clearCache J env this)) = None
             \<and> vodCategoriesCache (snd (clearCache J env this)) = None
             \<and> seriesCache (snd (clearCache J env this)) = None
             \<and> seriesCategoriesCache (snd (clearCache J env this)) = None
             \<and> requests (snd (clearCache J env this)) = requests this"
proof (cases "remove_fault env (RemoveItem VOD_CACHE_KEY)")
  case (Some e)
  then show ?thesis
    unfolding clearCache_def rewarm_step
    by (intro exI [of _ e] exI [of _ VOD_CACHE_KEY])
       (simp add: andThen_def tryCatch_def resolve_def reject_def read_def assign_def
        console_log_def console_error_def removeItem_def)
next
  case a: None
  show ?thesis
  proof (cases "remove_fault env (RemoveItem VOD_CATEGORIES_CACHE_KEY)")
    case (Some e)
    with a show ?thesis
      unfolding clearCache_def rewarm_step
      by (intro exI [of _ e] exI [of _ VOD_CATEGORIES_CACHE_KEY])
         (simp add: andThen_def tryCatch_def resolve_def reject_def read_def assign_def
          console_log_def console_error_def removeItem_def)
  next
    case b: None
    show ?thesis
    proof (cases "remove_fault env (RemoveItem SERIES_CACHE_KEY)")
      case (Some e)
      with a b show ?thesis
        unfolding clearCache_def rewarm_step
        by (intro exI [of _ e] exI [of _ SERIES_CACHE_KEY])
           (simp add: andThen_def tryCatch_def resolve_def reject_def read_def assign_def
            console_log_def console_error_def removeItem_def)
    next
      case c: None
      with a b assms obtain e where
        "remove_fault env (RemoveItem SERIES_CATEGORIES_CACHE_KEY) = Some e"
        by auto
      with a b c show ?thesis
        unfolding clearCache_def rewarm_step
        by (intro exI [of _ e] exI [of _ SERIES_CATEGORIES_CACHE_KEY])
           (simp add: andThen_def tryCatch_def resolve_def reject_def read_def assign_def
            console_log_def console_error_def removeItem_def)
    qed
  qed
qed

lemma clearCache_first_remove_rejects:
  assumes "remove_fault env (RemoveItem VOD_CACHE_KEY) = Some e"
  shows "clearCache J env this =
    (Inl e,
     this\<lparr>vodCache := None, vodCategoriesCache := None, seriesCache := None,
          seriesCategoriesCache := None,
          console := console this @ [Error ''Error clearing cache:'' e]\<rparr>)"
  using assms
  unfolding clearCache_def rewarm_step
  by (simp add: andThen_def tryCatch_def resolve_def reject_def read_def assign_def
      console_log_def console_error_def removeItem_def)

text \<open>
  C5 (amended). When its four removals succeed, \<open>clearCache()\<close> resolves, and afterwards the
  two category entries are absent in memory and in the store. Without a session the two
  stream entries and their keys are absent too and no request is issued. With a session it
  issues exactly three requests, in this order: live streams, VOD streams and series, all
  unfiltered; no request for either category catalog. The VOD entry afterwards is the fresh
  unfiltered one if its request succeeded and absent if it rejected, and likewise the series
  entry. The VOD key afterwards holds the text of that fresh entry if the request succeeded
  and the write of the save succeeded too, and nothing otherwise: the old text is gone in
  every case; likewise the series key. A rejection of any of the three requests is logged on
  the console and changes neither the outcome of \<open>clearCache()\<close> nor the other two
  re-fetches.
\<close>

theorem clearCache_rewarms_streams_only:
  assumes "remove_fault env (RemoveItem VOD_CACHE_KEY) = None"
    and "remove_fault env (RemoveItem VOD_CATEGORIES_CACHE_KEY) = None"
    and "remove_fault env (RemoveItem SERIES_CACHE_KEY) = None"
    and "remove_fault env (RemoveItem SERIES_CATEGORIES_CACHE_KEY) = None"
  shows "fst (clearCache J env this) = Inr ()
       \<and> vodCategoriesCache (snd (clearCache J env this)) = None
       \<and> seriesCategoriesCache (snd (clearCache J env this)) = None
       \<and> storage (snd (clearCache J env this)) VOD_CATEGORIES_CACHE_KEY = None
       \<and> storage (snd (clearCache J env this)) SERIES_CATEGORIES_CACHE_KEY = None
       \<and> (credentials this = None \<or> authData this = None \<longrightarrow>
            vodCache (snd (clearCache J env this)) = None
          \<and> seriesCache (snd (clearCache J env this)) = None
          \<and> storage (snd (clearCache J env this)) VOD_CACHE_KEY = None
          \<and> storage (snd (clearCache J env this)) SERIES_CACHE_KEY = None
          \<and> requests (snd (clearCache J env this)) = requests this)
       \<and> (credentials this = Some cr \<and> authData this \<noteq> None \<longrightarrow>
            requests (snd (clearCache J env this)) =
              requests this @
                [\<lparr>url = serverUrl cr @ ''/player_api.php'',
                  params = stream_params cr ''get_live_streams'' None\<rparr>,
                 \<lparr>url = serverUrl cr @ ''/player_api.php'',
                  params = stream_params cr ''get_vod_streams'' None\<rparr>,
                 \<lparr>url = serverUrl cr @ ''/player_api.php'',
                  params = stream_params cr ''get_series'' None\<rparr>]
          \<and> vodCache (snd (clearCache J env this)) =
              (case reply (vod_env env) of
                 Inl err \<Rightarrow> None
               | Inr d \<Rightarrow>
                   Some \<lparr>data = d, timestamp = save_time (vod_env env), categoryId = None\<rparr>)
          \<and> seriesCache (snd (clearCache J env this)) =
              (case reply (series_env env) of
                 Inl err \<Rightarrow> None
               | Inr d \<Rightarrow>
                   Some \<lparr>data = d, timestamp = save_time (series_env env), categoryId = None\<rparr>)
          \<and> storage (snd (clearCache J env this)) VOD_CACHE_KEY =
              (case reply (vod_env env) of
                 Inl err \<Rightarrow> None
               | Inr d \<Rightarrow>
                   (case fault (vod_env env) (SetItem VOD_CACHE_KEY) of
                      None \<Rightarrow> Some (stringify (vod_json J)
                                (Some \<lparr>data = d, timestamp = save_time (vod_env env),
                                       categoryId = None\<rparr>))
                    | Some err \<Rightarrow> None))
          \<and> storage (snd (clearCache J env this)) SERIES_CACHE_KEY =
              (case reply (series_env env) of
                 Inl err \<Rightarrow> None
               | Inr d \<Rightarrow>
                   (case fault (series_env env) (SetItem SERIES_CACHE_KEY) of
                      None \<Rightarrow> Some (stringify (series_json J)
                                (Some \<lparr>data = d, timestamp = save_time (series_env env),
                                       categoryId = None\<rparr>))
                    | Some err \<Rightarrow> None))
          \<and> (\<forall>err. live_reply env = Inl err \<longrightarrow>
                Error ''Error reloading live channels:'' err
                  \<in> set (console (snd (clearCache J env this))))
          \<and> (\<forall>err. reply (vod_env env) = Inl err \<longrightarrow>
                Error ''Error reloading movies:'' err
                  \<in> set (console (snd (clearCache J env this))))
          \<and> (\<forall>err. reply (series_env env) = Inl err \<longrightarrow>
                Error ''Error reloading series:'' err
                  \<in> set (console (snd (clearCache J env this)))))"
proof (cases "credentials this = None \<or> authData this = None")
  case True
  then show ?thesis
    by (auto simp add: clearCache_no_session [OF True assms] keys_distinct')
next
  case False
  then obtain c where c: "credentials this = Some c" and a: "authData this \<noteq> None" by auto
  note p = clearCache_session [OF c a assms, where J = J]
  show ?thesis
    using False c p(1-8) p(11-15) by auto
qed

theorem clearCache_rewarms_streams_only_witness:
  "fst (clearCache demo_JSON
         (demo_clear_env no_fault (Inr [''News'']) (Inr [''Heat'']) (Inl (Rejected ''offline'')))
         demo_cached) = Inr ()
   \<and> vodCache (snd (clearCache demo_JSON
         (demo_clear_env no_fault (Inr [''News'']) (Inr [''Heat'']) (Inl (Rejected ''offline'')))
         demo_cached)) = Some \<lparr>data = [''Heat''], timestamp = 5000, categoryId = None\<rparr>
   \<and> seriesCache (snd (clearCache demo_JSON
         (demo_clear_env no_fault (Inr [''News'']) (Inr [''Heat'']) (Inl (Rejected ''offline'')))
         demo_cached)) = None
   \<and> storage (snd (clearCache demo_JSON
         (demo_clear_env no_fault (Inr [''News'']) (Inr [''Heat'']) (Inl (Rejected ''offline'')))
         demo_cached)) VOD_CACHE_KEY = Some demo_vod_rewarmed_text
   \<and> storage (snd (clearCache demo_JSON
         (demo_clear_env no_fault (Inr [''News'']) (Inr [''Heat'']) (Inl (Rejected ''offline'')))
         demo_cached)) SERIES_CACHE_KEY = None
   \<and> vodCategoriesCache (snd (clearCache demo_JSON
         (demo_clear_env no_fault (Inr [''News'']) (Inr [''Heat'']) (Inl (Rejected ''offline'')))
         demo_cached)) = None
   \<and> length (requests (snd (clearCache demo_JSON
         (demo_clear_env no_fault (Inr [''News'']) (Inr [''Heat'']) (Inl (Rejected ''offline'')))
         demo_cached))) = 3
   \<and> Error ''Error reloading series:'' (Rejected ''offline'')
       \<in> set (console (snd (clearCache demo_JSON
         (demo_clear_env no_fault (Inr [''News'']) (Inr [''Heat'']) (Inl (Rejected ''offline'')))
         demo_cached)))
   \<and> requests (snd (clearCache demo_JSON
         (demo_clear_env no_fault (Inr [''News'']) (Inr [''Heat'']) (Inr [''Dark'']))
         (demo_cached\<lparr>credentials := None\<rparr>))) = []
   \<and> fst (clearCache demo_JSON
         (demo_clear_env no_fault (Inl (Rejected ''offline'')) (Inl (Rejected ''down''))
            (Inr [''Dark'']))
         demo_cached) = Inr ()
   \<and> Error ''Error reloading live channels:'' (Rejected ''offline'')
       \<in> set (console (snd (clearCache demo_JSON
         (demo_clear_env no_fault (Inl (Rejected ''offline'')) (Inl (Rejected ''down''))
            (Inr [''Dark'']))
         demo_cached)))
   \<and> Error ''Error reloading movies:'' (Rejected ''down'')
       \<in> set (console (snd (clearCache demo_JSON
         (demo_clear_env no_fault (Inl (Rejected ''offline'')) (Inl (Rejected ''down''))
            (Inr [''Dark'']))
         demo_cached)))
   \<and> storage demo_cached VOD_CACHE_KEY = Some demo_vod_text
   \<and> storage (snd (clearCache demo_JSON
         (demo_clear_env no_fault (Inl (Rejected ''offline'')) (Inl (Rejected ''down''))
            (Inr [''Dark'']))
         demo_cached)) VOD_CACHE_KEY = None
   \<and> seriesCache (snd (clearCache demo_JSON
         (demo_clear_env no_fault (Inl (Rejected ''offline'')) (Inl (Rejected ''down''))
            (Inr [''Dark'']))
         demo_cached)) = Some demo_series_rewarmed
   \<and> storage (snd (clearCache demo_JSON
         (demo_clear_env no_fault (Inl (Rejected ''offline'')) (Inl (Rejected ''down''))
            (Inr [''Dark'']))
         demo_cached)) SERIES_CACHE_KEY = Some demo_series_rewarmed_text"
proof -
  let ?env = "demo_clear_env no_fault (Inr [''News'']) (Inr [''Heat'']) (Inl (Rejected ''offline''))"
  let ?env' = "demo_clear_env no_fault (Inr [''News'']) (Inr [''Heat'']) (Inr [''Dark''])"
  have rm: "remove_fault (demo_clear_env no_fault a b c) (RemoveItem k) = None" for a b c k
    by (simp add: demo_clear_env_def no_fault_def)
  have s: "credentials demo_cached = Some demo_credentials \<and> authData demo_cached \<noteq> None"
    and r: "requests demo_cached = []"
    by (simp_all add: demo_cached_def demo_session_def demo_blank_def)
  have e: "reply (vod_env ?env) = Inr [''Heat'']" "save_time (vod_env ?env) = 5000"
      "reply (series_env ?env) = Inl (Rejected ''offline'')"
      "fault (vod_env ?env) (SetItem VOD_CACHE_KEY) = None"
    by (simp_all add: demo_clear_env_def demo_env_def no_fault_def)
  have t: "stringify (vod_json demo_JSON)
      (Some \<lparr>data = [''Heat''], timestamp = 5000, categoryId = None\<rparr>) = demo_vod_rewarmed_text"
    by (simp add: demo_JSON_def demo_vod_rewarmed_def demo_vod_object_def demo_vod_fresh_def)
  have n: "credentials (demo_cached\<lparr>credentials := None\<rparr>) = None
      \<or> authData (demo_cached\<lparr>credentials := None\<rparr>) = None"
      "requests (demo_cached\<lparr>credentials := None\<rparr>) = []"
    by (simp_all add: r)
  let ?env2 = "demo_clear_env no_fault (Inl (Rejected ''offline'')) (Inl (Rejected ''down''))
      (Inr [''Dark''])"
  have e2: "live_reply ?env2 = Inl (Rejected ''offline'')"
      "reply (vod_env ?env2) = Inl (Rejected ''down'')"
      "reply (series_env ?env2) = Inr [''Dark'']" "save_time (series_env ?env2) = 5000"
      "fault (series_env ?env2) (SetItem SERIES_CACHE_KEY) = None"
    by (simp_all add: demo_clear_env_def demo_env_def no_fault_def)
  have t2: "stringify (series_json demo_JSON)
      (Some \<lparr>data = [''Dark''], timestamp = 5000, categoryId = None\<rparr>) = demo_series_rewarmed_text"
      "demo_series_rewarmed = \<lparr>data = [''Dark''], timestamp = 5000, categoryId = None\<rparr>"
    by (simp_all add: demo_JSON_def demo_series_rewarmed_def demo_series_object_def
        demo_series_fresh_def)
  have k: "storage demo_cached VOD_CACHE_KEY = Some demo_vod_text"
    by (simp add: demo_cached_def keys_distinct')
  from clearCache_rewarms_streams_only [OF rm rm rm rm, where J = demo_JSON
      and this = demo_cached and cr = demo_credentials]
    clearCache_rewarms_streams_only [OF rm rm rm rm, where J = demo_JSON
      and this = "demo_cached\<lparr>credentials := None\<rparr>", THEN conjunct2, THEN conjunct2,
      THEN conjunct2, THEN conjunct2, THEN conjunct2, THEN conjunct1, rule_format, OF n(1)]
  show ?thesis
    using s r e n(2) t e2 t2 k by simp
qed

text \<open>
  C5 as stated fails twice: with a session and every request succeeding, the two category
  catalogs are not re-fetched (they stay absent, and the three requests issued are for live
  streams, VOD streams and series); and with a rejecting removal \<open>clearCache()\<close> rejects and
  the persisted keys stay.
\<close>

theorem clearCache_rewarm_counterexample:
  "fst (clearCache demo_JSON
         (demo_clear_env no_fault (Inr [''News'']) (Inr [''Heat'']) (Inr [''Dark'']))
         demo_cached) = Inr ()
   \<and> vodCategoriesCache (snd (clearCache demo_JSON
         (demo_clear_env no_fault (Inr [''News'']) (Inr [''Heat'']) (Inr [''Dark'']))
         demo_cached)) = None
   \<and> seriesCategoriesCache (snd (clearCache demo_JSON
         (demo_clear_env no_fault (Inr [''News'']) (Inr [''Heat'']) (Inr [''Dark'']))
         demo_cached)) = None
   \<and> actions (snd (clearCache demo_JSON
         (demo_clear_env no_fault (Inr [''News'']) (Inr [''Heat'']) (Inr [''Dark'']))
         demo_cached)) = [Some ''get_live_streams'', Some ''get_vod_streams'', Some ''get_series'']
   \<and> fst (clearCache demo_JSON
         (demo_clear_env (failing (RemoveItem VOD_CACHE_KEY)) (Inr [''News'']) (Inr [''Heat''])
            (Inr [''Dark'']))
         demo_cached) = Inl (Rejected ''storage failure'')
   \<and> storage (snd (clearCache demo_JSON
         (demo_clear_env (failing (RemoveItem VOD_CACHE_KEY)) (Inr [''News'']) (Inr [''Heat''])
            (Inr [''Dark'']))
         demo_cached)) SERIES_CATEGORIES_CACHE_KEY = Some demo_categories_text"
proof -
  let ?env = "demo_clear_env no_fault (Inr [''News'']) (Inr [''Heat'']) (Inr [''Dark''])"
  let ?bad = "demo_clear_env (failing (RemoveItem VOD_CACHE_KEY)) (Inr [''News''])
      (Inr [''Heat'']) (Inr [''Dark''])"
  have rm: "remove_fault ?env (RemoveItem k) = None" for k
    by (simp add: demo_clear_env_def no_fault_def)
  have s: "credentials demo_cached = Some demo_credentials" "authData demo_cached \<noteq> None"
    and r: "requests demo_cached = []"
    and st: "storage demo_cached SERIES_CATEGORIES_CACHE_KEY = Some demo_categories_text"
    by (simp_all add: demo_cached_def demo_session_def demo_blank_def)
  note p = clearCache_session [OF s rm rm rm rm, where J = demo_JSON]
  have bad: "remove_fault ?bad (RemoveItem VOD_CACHE_KEY) = Some (Rejected ''storage failure'')"
    by (simp add: demo_clear_env_def failing_def)
  have acts: "actions (snd (clearCache demo_JSON ?env demo_cached)) =
      [Some ''get_live_streams'', Some ''get_vod_streams'', Some ''get_series'']"
    by (simp add: actions_def p(2) r stream_params_def)
  show ?thesis
    using p(1,5,6) acts st by (simp add: clearCache_first_remove_rejects [OF bad])
qed

text \<open>Loading: one restore step, then the two loads as a whole.\<close>

lemma restore_step:
  "(case v of
      None \<Rightarrow> resolve ()
    | Some str \<Rightarrow>
        if str \<noteq> [] then
          (case parse p str of None \<Rightarrow> reject SyntaxError | Some obj \<Rightarrow> assign (upd obj))
        else resolve ()) =
   (\<lambda>this. if unparsable p v then (Inl SyntaxError, this)
           else (Inr (), case parsed p v of None \<Rightarrow> this | Some obj \<Rightarrow> upd obj this))"
  by (rule ext)
     (simp add: unparsable_def parsed_def resolve_def reject_def assign_def split: option.splits)

lemma loadCaches_resolves: "fst (loadCaches J flt this) = Inr ()"
  unfolding loadCaches_def restore_step
  by (simp add: andThen_def tryCatch_def getItem_def console_error_def assign_def
      split: option.splits)

lemma loadCaches_reads_ok:
  assumes "flt (GetItem VOD_CACHE_KEY) = None" and "flt (GetItem VOD_CATEGORIES_CACHE_KEY) = None"
    and "flt (GetItem SERIES_CACHE_KEY) = None"
    and "flt (GetItem SERIES_CATEGORIES_CACHE_KEY) = None"
  shows "loadCaches J flt this =
    (Inr (),
     (let failed = (\<lambda>s. s\<lparr>console := console s @ [Error ''Failed to load caches:'' SyntaxError]\<rparr>);
          v1 = storage this VOD_CACHE_KEY;
          v2 = storage this VOD_CATEGORIES_CACHE_KEY;
          v3 = storage this SERIES_CACHE_KEY;
          v4 = storage this SERIES_CATEGORIES_CACHE_KEY;
          s1 = (case parsed (vod_json J) v1 of
                  None \<Rightarrow> this | Some obj \<Rightarrow> this\<lparr>vodCache := obj\<rparr>);
          s2 = (case parsed (categories_json J) v2 of
                  None \<Rightarrow> s1 | Some obj \<Rightarrow> s1\<lparr>vodCategoriesCache := obj\<rparr>);
          s3 = (case parsed (series_json J) v3 of
                  None \<Rightarrow> s2 | Some obj \<Rightarrow> s2\<lparr>seriesCache := obj\<rparr>);
          s4 = (case parsed (categories_json J) v4 of
                  None \<Rightarrow> s3 | Some obj \<Rightarrow> s3\<lparr>seriesCategoriesCache := obj\<rparr>)
      in if unparsable (vod_json J) v1 then failed this
         else if unparsable (categories_json J) v2 then failed s1
         else if unparsable (series_json J) v3 then failed s2
         else if unparsable (categories_json J) v4 then failed s3
         else s4))"
  unfolding loadCaches_def restore_step
  using assms
  by (simp add: andThen_def tryCatch_def getItem_def console_error_def assign_def Let_def
      split: option.splits)

lemma loadCaches_read_rejects:
  assumes "flt (GetItem VOD_CACHE_KEY) \<noteq> None \<or> flt (GetItem VOD_CATEGORIES_CACHE_KEY) \<noteq> None
         \<or> flt (GetItem SERIES_CACHE_KEY) \<noteq> None
         \<or> flt (GetItem SERIES_CATEGORIES_CACHE_KEY) \<noteq> None"
  shows "\<exists>e k. flt (GetItem k) = Some e
           \<and> loadCaches J flt this =
               (Inr (), this\<lparr>console := console this @ [Error ''Failed to load caches:'' e]\<rparr>)"
proof (cases "flt (GetItem VOD_CACHE_KEY)")
  case (Some e)
  then show ?thesis
    unfolding loadCaches_def restore_step
    by (intro exI [of _ e] exI [of _ VOD_CACHE_KEY])
       (simp add: andThen_def tryCatch_def getItem_def console_error_def assign_def)
next
  case a: None
  show ?thesis
  proof (cases "flt (GetItem VOD_CATEGORIES_CACHE_KEY)")
    case (Some e)
    with a show ?thesis
      unfolding loadCaches_def restore_step
      by (intro exI [of _ e] exI [of _ VOD_CATEGORIES_CACHE_KEY])
         (simp add: andThen_def tryCatch_def getItem_def console_error_def assign_def)
  next
    case b: None
    show ?thesis
    proof (cases "flt (GetItem SERIES_CACHE_KEY)")
      case (Some e)
      with a b show ?thesis
        unfolding loadCaches_def restore_step
        by (intro exI [of _ e] exI [of _ SERIES_CACHE_KEY])
           (simp add: andThen_def tryCatch_def getItem_def console_error_def assign_def)
    next
      case c: None
      with a b assms obtain e where "flt (GetItem SERIES_CATEGORIES_CACHE_KEY) = Some e"
        by auto
      with a b c show ?thesis
        unfolding loadCaches_def restore_step
        by (intro exI [of _ e] exI [of _ SERIES_CATEGORIES_CACHE_KEY])
           (simp add: andThen_def tryCatch_def getItem_def console_error_def assign_def)
    qed
  qed
qed

lemma loadCaches_read_fails:
  assumes "flt (GetItem VOD_CACHE_KEY) \<noteq> None \<or> flt (GetItem VOD_CATEGORIES_CACHE_KEY) \<noteq> None
         \<or> flt (GetItem SERIES_CACHE_KEY) \<noteq> None
         \<or> flt (GetItem SERIES_CATEGORIES_CACHE_KEY) \<noteq> None"
  shows "\<exists>e. loadCaches J flt this =
           (Inr (), this\<lparr>console := console this @ [Error ''Failed to load caches:'' e]\<rparr>)"
  using loadCaches_read_rejects [OF assms, of J this] by blast

lemma loadCredentials_eq:
  "loadCredentials J flt this =
    (Inr (),
     (case flt (GetItem AUTH_STORAGE_KEY) of
        Some e \<Rightarrow> this\<lparr>console := console this @ [Error ''Failed to load auth data:'' e]\<rparr>
      | None \<Rightarrow>
          if unparsable (auth_json J) (storage this AUTH_STORAGE_KEY)
          then this\<lparr>console := console this @ [Error ''Failed to load auth data:'' SyntaxError]\<rparr>
          else (case parsed (auth_json J) (storage this AUTH_STORAGE_KEY) of
                  None \<Rightarrow> this
                | Some None \<Rightarrow>
                    this\<lparr>console := console this @ [Error ''Failed to load auth data:'' TypeError]\<rparr>
                | Some (Some p) \<Rightarrow> this\<lparr>credentials := fst p, authData := snd p\<rparr>)))"
  unfolding loadCredentials_def
  by (simp add: andThen_def tryCatch_def getItem_def console_error_def assign_def resolve_def
      reject_def unparsable_def parsed_def split: option.splits)

lemma unparsable_parsed: "unparsable p v \<Longrightarrow> parsed p v = None"
  by (auto simp add: unparsable_def parsed_def split: option.splits)

text \<open>
  C6 (amended). \<open>loadCaches()\<close> never rejects. It reads the four persisted keys together: if
  any of the four reads rejects, no entry is restored. If all four reads succeed, the texts
  that are present and non-empty are parsed in the fixed order VOD streams, VOD categories,
  series, series categories; the value that each text denotes becomes the in-memory entry
  of its type (no entry, when the text is \<open>null\<close>), and the first text that fails to parse
  ends the restore, so that the types after it in this order keep what they held (nothing,
  at construction), parsable text or not.
\<close>

theorem loadCaches_restores_in_order:
  "fst (loadCaches J flt this) = Inr ()
   \<and> (flt (GetItem VOD_CACHE_KEY) \<noteq> None \<or> flt (GetItem VOD_CATEGORIES_CACHE_KEY) \<noteq> None
      \<or> flt (GetItem SERIES_CACHE_KEY) \<noteq> None
      \<or> flt (GetItem SERIES_CATEGORIES_CACHE_KEY) \<noteq> None \<longrightarrow>
        vodCache (snd (loadCaches J flt this)) = vodCache this
      \<and> vodCategoriesCache (snd (loadCaches J flt this)) = vodCategoriesCache this
      \<and> seriesCache (snd (loadCaches J flt this)) = seriesCache this
      \<and> seriesCategoriesCache (snd (loadCaches J flt this)) = seriesCategoriesCache this)
   \<and> (flt (GetItem VOD_CACHE_KEY) = None \<and> flt (GetItem VOD_CATEGORIES_CACHE_KEY) = None
      \<and> flt (GetItem SERIES_CACHE_KEY) = None
      \<and> flt (GetItem SERIES_CATEGORIES_CACHE_KEY) = None \<longrightarrow>
        vodCache (snd (loadCaches J flt this)) =
          (case parsed (vod_json J) (storage this VOD_CACHE_KEY) of
             None \<Rightarrow> vodCache this | Some obj \<Rightarrow> obj)
      \<and> vodCategoriesCache (snd (loadCaches J flt this)) =
          (if unparsable (vod_json J) (storage this VOD_CACHE_KEY) then vodCategoriesCache this
           else case parsed (categories_json J) (storage this VOD_CATEGORIES_CACHE_KEY) of
                  None \<Rightarrow> vodCategoriesCache this | Some obj \<Rightarrow> obj)
      \<and> seriesCache (snd (loadCaches J flt this)) =
          (if unparsable (vod_json J) (storage this VOD_CACHE_KEY)
              \<or> unparsable (categories_json J) (storage this VOD_CATEGORIES_CACHE_KEY)
           then seriesCache this
           else case parsed (series_json J) (storage this SERIES_CACHE_KEY) of
                  None \<Rightarrow> seriesCache this | Some obj \<Rightarrow> obj)
      \<and> seriesCategoriesCache (snd (loadCaches J flt this)) =
          (if unparsable (vod_json J) (storage this VOD_CACHE_KEY)
              \<or> unparsable (categories_json J) (storage this VOD_CATEGORIES_CACHE_KEY)
              \<or> unparsable (series_json J) (storage this SERIES_CACHE_KEY)
           then seriesCategoriesCache this
           else case parsed (categories_json J) (storage this SERIES_CATEGORIES_CACHE_KEY) of
                  None \<Rightarrow> seriesCategoriesCache this | Some obj \<Rightarrow> obj))"
proof (intro conjI impI)
  show "fst (loadCaches J flt this) = Inr ()" by (rule loadCaches_resolves)
next
  assume "flt (GetItem VOD_CACHE_KEY) \<noteq> None \<or> flt (GetItem VOD_CATEGORIES_CACHE_KEY) \<noteq> None
      \<or> flt (GetItem SERIES_CACHE_KEY) \<noteq> None \<or> flt (GetItem SERIES_CATEGORIES_CACHE_KEY) \<noteq> None"
  from loadCaches_read_fails [OF this, of J this] obtain e where
    e: "loadCaches J flt this =
      (Inr (), this\<lparr>console := console this @ [Error ''Failed to load caches:'' e]\<rparr>)" ..
  show "vodCache (snd (loadCaches J flt this)) = vodCache this"
    "vodCategoriesCache (snd (loadCaches J flt this)) = vodCategoriesCache this"
    "seriesCache (snd (loadCaches J flt this)) = seriesCache this"
    "seriesCategoriesCache (snd (loadCaches J flt this)) = seriesCategoriesCache this"
    by (simp_all add: e)
next
  assume "flt (GetItem VOD_CACHE_KEY) = None \<and> flt (GetItem VOD_CATEGORIES_CACHE_KEY) = None
      \<and> flt (GetItem SERIES_CACHE_KEY) = None \<and> flt (GetItem SERIES_CATEGORIES_CACHE_KEY) = None"
  then have ok: "flt (GetItem VOD_CACHE_KEY) = None" "flt (GetItem VOD_CATEGORIES_CACHE_KEY) = None"
      "flt (GetItem SERIES_CACHE_KEY) = None" "flt (GetItem SERIES_CATEGORIES_CACHE_KEY) = None"
    by simp_all
  note eq = loadCaches_reads_ok [OF ok, of J this]
  show "vodCache (snd (loadCaches J flt this)) =
          (case parsed (vod_json J) (storage this VOD_CACHE_KEY) of
             None \<Rightarrow> vodCache this | Some obj \<Rightarrow> obj)"
    by (simp add: eq Let_def unparsable_parsed split: option.splits)
  show "vodCategoriesCache (snd (loadCaches J flt this)) =
          (if unparsable (vod_json J) (storage this VOD_CACHE_KEY) then vodCategoriesCache this
           else case parsed (categories_json J) (storage this VOD_CATEGORIES_CACHE_KEY) of
                  None \<Rightarrow> vodCategoriesCache this | Some obj \<Rightarrow> obj)"
    by (simp add: eq Let_def unparsable_parsed split: option.splits)
  show "seriesCache (snd (loadCaches J flt this)) =
          (if unparsable (vod_json J) (storage this VOD_CACHE_KEY)
              \<or> unparsable (categories_json J) (storage this VOD_CATEGORIES_CACHE_KEY)
           then seriesCache this
           else case parsed (series_json J) (storage this SERIES_CACHE_KEY) of
                  None \<Rightarrow> seriesCache this | Some obj \<Rightarrow> obj)"
    by (simp add: eq Let_def unparsable_parsed split: option.splits)
  show "seriesCategoriesCache (snd (loadCaches J flt this)) =
          (if unparsable (vod_json J) (storage this VOD_CACHE_KEY)
              \<or> unparsable (categories_json J) (storage this VOD_CATEGORIES_CACHE_KEY)
              \<or> unparsable (series_json J) (storage this SERIES_CACHE_KEY)
           then seriesCategoriesCache this
           else case parsed (categories_json J) (storage this SERIES_CATEGORIES_CACHE_KEY) of
                  None \<Rightarrow> seriesCategoriesCache this | Some obj \<Rightarrow> obj)"
    by (simp add: eq Let_def unparsable_parsed split: option.splits)
qed

theorem loadCaches_restores_in_order_witness:
  "no_fault (GetItem VOD_CACHE_KEY) = None
   \<and> vodCache (snd (loadCaches demo_JSON no_fault demo_stored)) = Some demo_vod_object
   \<and> vodCategoriesCache (snd (loadCaches demo_JSON no_fault demo_stored))
       = Some demo_categories_object
   \<and> seriesCache (snd (loadCaches demo_JSON no_fault demo_stored)) = Some demo_series_object
   \<and> seriesCategoriesCache (snd (loadCaches demo_JSON no_fault demo_stored))
       = Some demo_categories_object
   \<and> vodCache demo_null = Some demo_vod_object
   \<and> vodCache (snd (loadCaches demo_JSON no_fault demo_null)) = None
   \<and> seriesCache (snd (loadCaches demo_JSON no_fault demo_null)) = Some demo_series_fresh
   \<and> vodCategoriesCache (snd (loadCaches demo_JSON no_fault demo_null))
       = Some demo_categories_object
   \<and> failing (GetItem SERIES_CACHE_KEY) (GetItem SERIES_CACHE_KEY) \<noteq> None
   \<and> vodCache (snd (loadCaches demo_JSON (failing (GetItem SERIES_CACHE_KEY)) demo_stored)) = None"
proof -
  have st: "storage demo_stored VOD_CACHE_KEY = Some demo_vod_text"
      "storage demo_stored VOD_CATEGORIES_CACHE_KEY = Some demo_categories_text"
      "storage demo_stored SERIES_CACHE_KEY = Some demo_series_text"
      "storage demo_stored SERIES_CATEGORIES_CACHE_KEY = Some demo_categories_text"
      "vodCache demo_stored = None"
    by (simp_all add: demo_stored_def demo_cached_def demo_blank_def keys_distinct')
  have nl: "storage demo_null VOD_CACHE_KEY = Some ''null''"
      "storage demo_null VOD_CATEGORIES_CACHE_KEY = None"
      "storage demo_null SERIES_CACHE_KEY = Some demo_series_fresh_text"
      "vodCache demo_null = Some demo_vod_object"
      "vodCategoriesCache demo_null = Some demo_categories_object"
    by (simp_all add: demo_null_def demo_cached_def keys_distinct')
  have p: "parsed (vod_json demo_JSON) (Some demo_vod_text) = Some (Some demo_vod_object)"
      "parsed (categories_json demo_JSON) (Some demo_categories_text)
         = Some (Some demo_categories_object)"
      "parsed (series_json demo_JSON) (Some demo_series_text) = Some (Some demo_series_object)"
      "\<not> unparsable (vod_json demo_JSON) (Some demo_vod_text)"
      "\<not> unparsable (categories_json demo_JSON) (Some demo_categories_text)"
      "\<not> unparsable (series_json demo_JSON) (Some demo_series_text)"
      "parsed (vod_json demo_JSON) (Some ''null'') = Some None"
      "\<not> unparsable (vod_json demo_JSON) (Some ''null'')"
      "parsed (series_json demo_JSON) (Some demo_series_fresh_text) = Some (Some demo_series_fresh)"
      "parsed (categories_json demo_JSON) None = None"
      "\<not> unparsable (categories_json demo_JSON) None"
    by (simp_all add: parsed_def unparsable_def demo_JSON_def demo_vod_text_def
        demo_categories_text_def demo_series_text_def demo_series_fresh_text_def
        demo_vod_fresh_text_def demo_vod_rewarmed_text_def)
  from loadCaches_restores_in_order [of demo_JSON no_fault demo_stored]
    loadCaches_restores_in_order [of demo_JSON no_fault demo_null]
    loadCaches_restores_in_order [of demo_JSON "failing (GetItem SERIES_CACHE_KEY)" demo_stored]
  show ?thesis
    by (simp add: st nl p no_fault_def failing_def)
qed

text \<open>
  C6 as stated fails: a VOD text that does not parse keeps the series entry from being
  restored although the series text parses, and one rejecting read (here of the series
  categories key) keeps the VOD entry from being restored although its read succeeds and
  its text parses.
\<close>

theorem loadCaches_not_independent_counterexample:
  "parse (series_json demo_JSON) demo_series_text = Some (Some demo_series_object)
   \<and> storage demo_corrupt SERIES_CACHE_KEY = Some demo_series_text
   \<and> seriesCache (snd (loadCaches demo_JSON no_fault demo_corrupt)) = None
   \<and> parse (vod_json demo_JSON) demo_vod_text = Some (Some demo_vod_object)
   \<and> storage demo_stored VOD_CACHE_KEY = Some demo_vod_text
   \<and> failing (GetItem SERIES_CATEGORIES_CACHE_KEY) (GetItem VOD_CACHE_KEY) = None
   \<and> vodCache (snd (loadCaches demo_JSON (failing (GetItem SERIES_CATEGORIES_CACHE_KEY))
                      demo_stored)) = None"
proof -
  have st: "storage demo_corrupt VOD_CACHE_KEY = Some ''<html>''"
      "storage demo_corrupt SERIES_CACHE_KEY = Some demo_series_text"
      "seriesCache demo_corrupt = None"
      "storage demo_stored VOD_CACHE_KEY = Some demo_vod_text"
      "vodCache demo_stored = None"
    by (simp_all add: demo_corrupt_def demo_stored_def demo_cached_def demo_blank_def
        keys_distinct')
  have bad: "unparsable (vod_json demo_JSON) (Some ''<html>'')"
    by (simp add: unparsable_def demo_JSON_def demo_vod_text_def demo_vod_fresh_text_def
        demo_vod_rewarmed_text_def)
  have p: "parse (series_json demo_JSON) demo_series_text = Some (Some demo_series_object)"
      "parse (vod_json demo_JSON) demo_vod_text = Some (Some demo_vod_object)"
    by (simp_all add: demo_JSON_def)
  have ok: "no_fault (GetItem k) = None" for k by (simp add: no_fault_def)
  have 1: "seriesCache (snd (loadCaches demo_JSON no_fault demo_corrupt)) = None"
    by (simp add: loadCaches_reads_ok [where flt = no_fault, OF ok ok ok ok] Let_def st bad)
  have "failing (GetItem SERIES_CATEGORIES_CACHE_KEY) (GetItem VOD_CACHE_KEY) \<noteq> None
      \<or> failing (GetItem SERIES_CATEGORIES_CACHE_KEY) (GetItem VOD_CATEGORIES_CACHE_KEY) \<noteq> None
      \<or> failing (GetItem SERIES_CATEGORIES_CACHE_KEY) (GetItem SERIES_CACHE_KEY) \<noteq> None
      \<or> failing (GetItem SERIES_CATEGORIES_CACHE_KEY) (GetItem SERIES_CATEGORIES_CACHE_KEY) \<noteq> None"
    by (simp add: failing_def)
  from loadCaches_read_fails [OF this, of demo_JSON demo_stored]
  have 2: "vodCache (snd (loadCaches demo_JSON (failing (GetItem SERIES_CATEGORIES_CACHE_KEY))
      demo_stored)) = None"
    by (auto simp add: st)
  have 3: "failing (GetItem SERIES_CATEGORIES_CACHE_KEY) (GetItem VOD_CACHE_KEY) = None"
    by (simp add: failing_def keys_distinct')
  show ?thesis using 1 2 3 p st by simp
qed

text \<open>
  Sequencing after a primitive whose outcome is known, and properties of the state that every
  step of a computation keeps.
\<close>

lemma andThen_read: "andThen read g s = g s s"
  by (simp add: andThen_def read_def)

lemma andThen_assign: "andThen (assign f) g s = g () (f s)"
  by (simp add: andThen_def assign_def)

lemma andThen_removeItem_ok:
  "flt (RemoveItem k) = None \<Longrightarrow>
   andThen (removeItem flt k) g s = g () (s\<lparr>storage := (storage s)(k := None)\<rparr>)"
  by (simp add: andThen_def removeItem_def)

lemma andThen_removeItem_fails:
  "flt (RemoveItem k) = Some e \<Longrightarrow> andThen (removeItem flt k) g s = (Inl e, s)"
  by (simp add: andThen_def removeItem_def)

lemma kept_andThen:
  assumes "P s" and "\<And>s. P s \<Longrightarrow> P (snd (m s))" and "\<And>x s. P s \<Longrightarrow> P (snd (g x s))"
  shows "P (snd (andThen m g s))"
proof (cases "m s")
  case (Pair r b)
  with assms(1,2) have b: "P b" by (metis snd_conv)
  show ?thesis
  proof (cases r)
    case (Inl e)
    with Pair b show ?thesis by (simp add: andThen_def)
  next
    case (Inr x)
    with Pair assms(3) [OF b, of x] show ?thesis by (simp add: andThen_def)
  qed
qed

lemma kept_tryCatch:
  assumes "P s" and "\<And>s. P s \<Longrightarrow> P (snd (m s))" and "\<And>e s. P s \<Longrightarrow> P (snd (h e s))"
  shows "P (snd (tryCatch m h s))"
proof (cases "m s")
  case (Pair r b)
  with assms(1,2) have b: "P b" by (metis snd_conv)
  show ?thesis
  proof (cases r)
    case (Inl e)
    with Pair assms(3) [OF b, of e] show ?thesis by (simp add: tryCatch_def)
  next
    case (Inr x)
    with Pair b show ?thesis by (simp add: tryCatch_def)
  qed
qed

lemma kept_removeItem:
  assumes "P s" and "\<And>s. P s \<Longrightarrow> P (s\<lparr>storage := (storage s)(k := None)\<rparr>)"
  shows "P (snd (removeItem flt k s))"
  using assms by (simp add: removeItem_def split: option.splits)

lemma kept_console:
  assumes "P s" and "\<And>s l. P s \<Longrightarrow> P (s\<lparr>console := console s @ [l]\<rparr>)"
  shows "P (snd (console_log msg s))" and "P (snd (console_error msg e s))"
  using assms by (simp_all add: console_log_def console_error_def assign_def)

lemma kept_resolve: "P s \<Longrightarrow> P (snd (resolve x s))"
  by (simp add: resolve_def)

text \<open>The block of \<open>logout\<close> that clears the data stored under the user name never throws.\<close>

lemma tryCatch_logged: "fst (tryCatch m (\<lambda>e. console_error msg e) s) = Inr ()"
  by (cases "m s") (auto simp add: tryCatch_def console_error_def assign_def split: sum.splits)

text \<open>\<open>logout\<close>: what holds whatever the store does, and what holds when the removals succeed.\<close>

lemma logout_kept:
  assumes rm: "\<And>s k. P s \<Longrightarrow> P (s\<lparr>storage := (storage s)(k := None)\<rparr>)"
    and lg: "\<And>s l. P s \<Longrightarrow> P (s\<lparr>console := console s @ [l]\<rparr>)"
    and init: "P (this\<lparr>credentials := None, authData := None, vodCache := None,
                vodCategoriesCache := None, seriesCache := None,
                seriesCategoriesCache := None\<rparr>)"
  shows "P (snd (logout flt this))"
proof (cases "map_option UserInfo.username (getUserInfo this)")
  case None
  show ?thesis
    unfolding logout_def Let_def andThen_read andThen_assign None option.case
    apply (intro kept_andThen [where P = P] kept_removeItem [where P = P] kept_resolve [where P = P])
    apply (assumption | rule init | erule rm)+
    done
next
  case (Some u)
  show ?thesis
  proof (cases "u = []")
    case True
    show ?thesis
      unfolding logout_def Let_def andThen_read andThen_assign Some option.case
      apply (simp only: True not_True_eq_False if_False refl)
      apply (intro kept_andThen [where P = P] kept_removeItem [where P = P] kept_resolve [where P = P])
      apply (assumption | rule init | erule rm)+
      done
  next
    case False
    show ?thesis
      unfolding logout_def Let_def andThen_read andThen_assign Some option.case
      apply (simp only: False not_False_eq_True if_True)
      apply (intro kept_andThen [where P = P] kept_removeItem [where P = P] kept_resolve [where P = P]
          kept_tryCatch [where P = P] kept_console [where P = P])
      apply (assumption | rule init | erule rm | erule lg)+
      done
  qed
qed

lemma logout_memory:
  "credentials (snd (logout flt this)) = None \<and> authData (snd (logout flt this)) = None
   \<and> vodCache (snd (logout flt this)) = None \<and> vodCategoriesCache (snd (logout flt this)) = None
   \<and> seriesCache (snd (logout flt this)) = None
   \<and> seriesCategoriesCache (snd (logout flt this)) = None
   \<and> requests (snd (logout flt this)) = requests this"
  by (rule logout_kept) simp_all

lemma logout_first_remove_rejects:
  assumes "flt (RemoveItem AUTH_STORAGE_KEY) = Some e"
  shows "logout flt this =
    (Inl e,
     this\<lparr>credentials := None, authData := None, vodCache := None, vodCategoriesCache := None,
          seriesCache := None, seriesCategoriesCache := None\<rparr>)"
  unfolding logout_def Let_def andThen_read andThen_assign
  by (simp only: andThen_removeItem_fails [where flt = flt, OF assms])

lemma logout_removals_ok:
  assumes ok: "flt (RemoveItem AUTH_STORAGE_KEY) = None" "flt (RemoveItem VOD_CACHE_KEY) = None"
      "flt (RemoveItem VOD_CATEGORIES_CACHE_KEY) = None" "flt (RemoveItem SERIES_CACHE_KEY) = None"
      "flt (RemoveItem SERIES_CATEGORIES_CACHE_KEY) = None"
  shows "fst (logout flt this) = Inr ()
       \<and> storage (snd (logout flt this)) AUTH_STORAGE_KEY = None
       \<and> storage (snd (logout flt this)) VOD_CACHE_KEY = None
       \<and> storage (snd (logout flt this)) VOD_CATEGORIES_CACHE_KEY = None
       \<and> storage (snd (logout flt this)) SERIES_CACHE_KEY = None
       \<and> storage (snd (logout flt this)) SERIES_CATEGORIES_CACHE_KEY = None"
proof -
  let ?P = "\<lambda>s :: ('a, 'b) system. storage s AUTH_STORAGE_KEY = None \<and> storage s VOD_CACHE_KEY = None
      \<and> storage s VOD_CATEGORIES_CACHE_KEY = None \<and> storage s SERIES_CACHE_KEY = None
      \<and> storage s SERIES_CATEGORIES_CACHE_KEY = None"
  let ?Q = "\<lambda>r :: (error + unit) \<times> ('a, 'b) system. fst r = Inr () \<and> ?P (snd r)"
  show ?thesis
  proof (cases "map_option UserInfo.username (getUserInfo this)")
    case None
    show ?thesis
      unfolding logout_def Let_def andThen_read andThen_assign None option.case
      by (simp add: andThen_removeItem_ok ok resolve_def)
  next
    case (Some u)
    show ?thesis
    proof (cases "u = []")
      case True
      show ?thesis
        unfolding logout_def Let_def andThen_read andThen_assign Some option.case
        by (simp add: andThen_removeItem_ok ok resolve_def True)
    next
      case False
      have kept: "?P (snd (tryCatch m (\<lambda>e. console_error msg e) s))"
        if "?P s" and "\<And>s. ?P s \<Longrightarrow> ?P (snd (m s))" for m msg and s :: "('a, 'b) system"
        using that by (intro kept_tryCatch [where P = ?P] kept_console [where P = ?P]) simp_all
      show ?thesis
        unfolding logout_def Let_def andThen_read andThen_assign Some option.case
        apply (simp only: andThen_removeItem_ok ok False if_True tryCatch_logged simp_thms)
        apply (rule kept)
         apply simp
        apply (intro kept_andThen [where P = ?P] kept_removeItem [where P = ?P]
            kept_console [where P = ?P])
                        apply simp_all
        done
    qed
  qed
qed

text \<open>\<open>login\<close> with an accepting reply opens a session and leaves the four cache slots alone.\<close>

lemma login_ok:
  assumes "login_reply env = Inr resp" and "auth (user_info resp) \<noteq> 0"
  shows "fst (login J env creds this) = Inr resp"
    and "credentials (snd (login J env creds this)) =
           Some (creds\<lparr>serverUrl := strip_trailing_slashes (serverUrl creds)\<rparr>)"
    and "authData (snd (login J env creds this)) = Some resp"
    and "vodCache (snd (login J env creds this)) = vodCache this"
    and "vodCategoriesCache (snd (login J env creds this)) = vodCategoriesCache this"
    and "seriesCache (snd (login J env creds this)) = seriesCache this"
    and "seriesCategoriesCache (snd (login J env creds this)) = seriesCategoriesCache this"
  using assms
  by (simp_all add: login_def saveCredentials_def action_defs Let_def split: option.splits)

lemma getVodCategories_miss_requests:
  assumes "credentials this = Some cr" and "authData this \<noteq> None"
    and "\<forall>c. vodCategoriesCache this = Some c \<longrightarrow> \<not> isCacheValid (check_time e) (timestamp c)"
  shows "requests (snd (getVodCategories J e this)) =
           requests this @ [\<lparr>url = serverUrl cr @ ''/player_api.php'',
                              params = [(''username'', XtreamCredentials.username cr),
                                        (''password'', XtreamCredentials.password cr),
                                        (''action'', ''get_vod_categories'')]\<rparr>]"
  by (simp add: getVodCategories_miss [OF assms] Let_def saveVodCategoriesCache_eq
      split: sum.splits option.splits)

lemma getSeriesCategories_miss_requests:
  assumes "credentials this = Some cr" and "authData this \<noteq> None"
    and "\<forall>c. seriesCategoriesCache this = Some c \<longrightarrow> \<not> isCacheValid (check_time e) (timestamp c)"
  shows "requests (snd (getSeriesCategories J e this)) =
           requests this @ [\<lparr>url = serverUrl cr @ ''/player_api.php'',
                              params = [(''username'', XtreamCredentials.username cr),
                                        (''password'', XtreamCredentials.password cr),
                                        (''action'', ''get_series_categories'')]\<rparr>]"
  by (simp add: getSeriesCategories_miss [OF assms] Let_def saveSeriesCategoriesCache_eq
      split: sum.splits option.splits)

text \<open>
  C9 (amended). After \<open>logout()\<close>, from any state and whatever the store does, the
  credentials, the auth data and all four in-memory entries are absent. When the removals
  of the auth key and of the four cache keys succeed, \<open>logout()\<close> resolves and none of the
  five keys is left in the store. A catalog fetch made after it without a new login rejects
  with the not-authenticated error and issues no request; once a login has succeeded, each
  of the four catalog fetches finds no entry and issues one request.
\<close>

theorem logout_clears_caches_and_session:
  "credentials (snd (logout flt this)) = None \<and> authData (snd (logout flt this)) = None
   \<and> vodCache (snd (logout flt this)) = None
   \<and> vodCategoriesCache (snd (logout flt this)) = None
   \<and> seriesCache (snd (logout flt this)) = None
   \<and> seriesCategoriesCache (snd (logout flt this)) = None
   \<and> (flt (RemoveItem AUTH_STORAGE_KEY) = None \<and> flt (RemoveItem VOD_CACHE_KEY) = None
      \<and> flt (RemoveItem VOD_CATEGORIES_CACHE_KEY) = None
      \<and> flt (RemoveItem SERIES_CACHE_KEY) = None
      \<and> flt (RemoveItem SERIES_CATEGORIES_CACHE_KEY) = None \<longrightarrow>
        fst (logout flt this) = Inr ()
      \<and> storage (snd (logout flt this)) AUTH_STORAGE_KEY = None
      \<and> storage (snd (logout flt this)) VOD_CACHE_KEY = None
      \<and> storage (snd (logout flt this)) VOD_CATEGORIES_CACHE_KEY = None
      \<and> storage (snd (logout flt this)) SERIES_CACHE_KEY = None
      \<and> storage (snd (logout flt this)) SERIES_CATEGORIES_CACHE_KEY = None)
   \<and> getVodCategories J ea (snd (logout flt this)) = (Inl NotAuthenticated, snd (logout flt this))
   \<and> getSeriesCategories J eb (snd (logout flt this))
       = (Inl NotAuthenticated, snd (logout flt this))
   \<and> getVodStreams J ec cid (snd (logout flt this)) = (Inl NotAuthenticated, snd (logout flt this))
   \<and> getSeries J ed cid' (snd (logout flt this)) = (Inl NotAuthenticated, snd (logout flt this))
   \<and> (login_reply le = Inr resp \<and> auth (user_info resp) \<noteq> 0 \<longrightarrow>
        fst (login J le creds (snd (logout flt this))) = Inr resp
      \<and> length (requests (snd (getVodCategories J ea
            (snd (login J le creds (snd (logout flt this)))))))
          = Suc (length (requests (snd (login J le creds (snd (logout flt this))))))
      \<and> length (requests (snd (getSeriesCategories J eb
            (snd (login J le creds (snd (logout flt this)))))))
          = Suc (length (requests (snd (login J le creds (snd (logout flt this))))))
      \<and> length (requests (snd (getVodStreams J ec cid
            (snd (login J le creds (snd (logout flt this)))))))
          = Suc (length (requests (snd (login J le creds (snd (logout flt this))))))
      \<and> length (requests (snd (getSeries J ed cid'
            (snd (login J le creds (snd (logout flt this)))))))
          = Suc (length (requests (snd (login J le creds (snd (logout flt this)))))))"
proof -
  let ?out = "snd (logout flt this)"
  note m = logout_memory [of flt this]
  have gate: "credentials ?out = None \<or> authData ?out = None" using m by simp
  have relogin: "fst (login J le creds ?out) = Inr resp
      \<and> length (requests (snd (getVodCategories J ea (snd (login J le creds ?out)))))
          = Suc (length (requests (snd (login J le creds ?out))))
      \<and> length (requests (snd (getSeriesCategories J eb (snd (login J le creds ?out)))))
          = Suc (length (requests (snd (login J le creds ?out))))
      \<and> length (requests (snd (getVodStreams J ec cid (snd (login J le creds ?out)))))
          = Suc (length (requests (snd (login J le creds ?out))))
      \<and> length (requests (snd (getSeries J ed cid' (snd (login J le creds ?out)))))
          = Suc (length (requests (snd (login J le creds ?out))))"
    if "login_reply le = Inr resp" and "auth (user_info resp) \<noteq> 0"
  proof -
    let ?in = "snd (login J le creds ?out)"
    note l = login_ok [OF that, of J creds ?out]
    have s: "credentials ?in = Some (creds\<lparr>serverUrl := strip_trailing_slashes (serverUrl creds)\<rparr>)"
        "authData ?in \<noteq> None"
      using l(2,3) by simp_all
    have none: "vodCache ?in = None" "vodCategoriesCache ?in = None" "seriesCache ?in = None"
        "seriesCategoriesCache ?in = None"
      using l(4-7) m by simp_all
    show ?thesis
      using l(1)
      by (simp add: getVodCategories_miss_requests [OF s] getSeriesCategories_miss_requests [OF s]
          getVodStreams_miss_requests [OF s] getSeries_miss_requests [OF s] none)
  qed
  show ?thesis
    using m logout_removals_ok [of flt this] relogin
    by (simp add: getVodCategories_unauth [OF gate] getSeriesCategories_unauth [OF gate]
        getVodStreams_unauth [OF gate] getSeries_unauth [OF gate])
qed

theorem logout_clears_caches_and_session_witness:
  "vodCache demo_cached = Some demo_vod_object
   \<and> storage demo_cached VOD_CACHE_KEY = Some demo_vod_text
   \<and> no_fault (RemoveItem AUTH_STORAGE_KEY) = None
   \<and> fst (logout no_fault demo_cached) = Inr ()
   \<and> vodCache (snd (logout no_fault demo_cached)) = None
   \<and> storage (snd (logout no_fault demo_cached)) VOD_CACHE_KEY = None
   \<and> login_reply \<lparr>login_reply = Inr demo_auth, login_fault = no_fault\<rparr> = Inr demo_auth
   \<and> auth (user_info demo_auth) \<noteq> 0
   \<and> length (requests (snd (getVodStreams demo_JSON (demo_env 5000 (Inr [''Heat''])) (Some ''5'')
        (snd (login demo_JSON \<lparr>login_reply = Inr demo_auth, login_fault = no_fault\<rparr>
               demo_credentials (snd (logout no_fault demo_cached)))))))
      = Suc (length (requests (snd (login demo_JSON
               \<lparr>login_reply = Inr demo_auth, login_fault = no_fault\<rparr>
               demo_credentials (snd (logout no_fault demo_cached))))))"
proof -
  have d: "vodCache demo_cached = Some demo_vod_object"
      "storage demo_cached VOD_CACHE_KEY = Some demo_vod_text"
    by (simp_all add: demo_cached_def keys_distinct')
  have a: "auth (user_info demo_auth) \<noteq> 0" by (simp add: demo_auth_def)
  from logout_clears_caches_and_session [of no_fault demo_cached demo_JSON
      "demo_env 5000 (Inr [])" "demo_env 5000 (Inr [])" "demo_env 5000 (Inr [''Heat''])"
      "Some ''5''" "demo_env 5000 (Inr [])" None
      "\<lparr>login_reply = Inr demo_auth, login_fault = no_fault\<rparr>" demo_auth demo_credentials]
  show ?thesis
    using d a by (simp add: no_fault_def)
qed

text \<open>
  C9 as stated fails twice: a catalog fetch made right after \<open>logout()\<close> performs no network
  fetch (it rejects with the not-authenticated error), and when the removal of the auth key
  rejects, \<open>logout()\<close> rejects and the four cache keys stay in the store.
\<close>

theorem logout_then_fetch_counterexample:
  "fst (getVodStreams demo_JSON (demo_env 5000 (Inr [''Heat''])) (Some ''5'')
          (snd (logout no_fault demo_cached))) = Inl NotAuthenticated
   \<and> requests (snd (getVodStreams demo_JSON (demo_env 5000 (Inr [''Heat''])) (Some ''5'')
          (snd (logout no_fault demo_cached)))) = []
   \<and> fst (logout (failing (RemoveItem AUTH_STORAGE_KEY)) demo_cached)
       = Inl (Rejected ''storage failure'')
   \<and> storage (snd (logout (failing (RemoveItem AUTH_STORAGE_KEY)) demo_cached)) VOD_CACHE_KEY
       = Some demo_vod_text"
proof -
  note m = logout_memory [of no_fault demo_cached]
  have gate: "credentials (snd (logout no_fault demo_cached)) = None
      \<or> authData (snd (logout no_fault demo_cached)) = None"
    using m by simp
  have r: "requests demo_cached = []"
      "storage demo_cached VOD_CACHE_KEY = Some demo_vod_text"
    by (simp_all add: demo_cached_def demo_session_def demo_blank_def keys_distinct')
  have bad: "failing (RemoveItem AUTH_STORAGE_KEY) (RemoveItem AUTH_STORAGE_KEY)
      = Some (Rejected ''storage failure'')"
    by (simp add: failing_def)
  show ?thesis
    using m r
    by (simp add: getVodStreams_unauth [OF gate]
        logout_first_remove_rejects [where flt = "failing (RemoveItem AUTH_STORAGE_KEY)", OF bad])
qed

text \<open>A load touches nothing but the four cache slots and the console.\<close>

lemma loadCaches_frame:
  "credentials (snd (loadCaches J flt this)) = credentials this
   \<and> authData (snd (loadCaches J flt this)) = authData this
   \<and> requests (snd (loadCaches J flt this)) = requests this
   \<and> storage (snd (loadCaches J flt this)) = storage this"
proof (cases "flt (GetItem VOD_CACHE_KEY) \<noteq> None \<or> flt (GetItem VOD_CATEGORIES_CACHE_KEY) \<noteq> None
         \<or> flt (GetItem SERIES_CACHE_KEY) \<noteq> None
         \<or> flt (GetItem SERIES_CATEGORIES_CACHE_KEY) \<noteq> None")
  case True
  from loadCaches_read_fails [OF True, of J this] show ?thesis by auto
next
  case False
  then have ok: "flt (GetItem VOD_CACHE_KEY) = None" "flt (GetItem VOD_CATEGORIES_CACHE_KEY) = None"
      "flt (GetItem SERIES_CACHE_KEY) = None" "flt (GetItem SERIES_CATEGORIES_CACHE_KEY) = None"
    by simp_all
  show ?thesis
    by (simp add: loadCaches_reads_ok [OF ok] Let_def split: option.splits)
qed

text \<open>The fields of a new instance, when the five reads of the constructor succeed.\<close>

lemma new_XtreamCodesApi_fields:
  assumes "flt (GetItem AUTH_STORAGE_KEY) = None"
    and ok: "flt (GetItem VOD_CACHE_KEY) = None" "flt (GetItem VOD_CATEGORIES_CACHE_KEY) = None"
      "flt (GetItem SERIES_CACHE_KEY) = None" "flt (GetItem SERIES_CATEGORIES_CACHE_KEY) = None"
  shows "storage (new_XtreamCodesApi J flt w) = storage w"
    and "requests (new_XtreamCodesApi J flt w) = requests w"
    and "credentials (new_XtreamCodesApi J flt w) =
           (case parsed (auth_json J) (storage w AUTH_STORAGE_KEY) of
              None \<Rightarrow> None | Some None \<Rightarrow> None | Some (Some p) \<Rightarrow> fst p)"
    and "authData (new_XtreamCodesApi J flt w) =
           (case parsed (auth_json J) (storage w AUTH_STORAGE_KEY) of
              None \<Rightarrow> None | Some None \<Rightarrow> None | Some (Some p) \<Rightarrow> snd p)"
    and "vodCache (new_XtreamCodesApi J flt w) =
           (case parsed (vod_json J) (storage w VOD_CACHE_KEY) of
              None \<Rightarrow> None | Some obj \<Rightarrow> obj)"
    and "vodCategoriesCache (new_XtreamCodesApi J flt w) =
           (if unparsable (vod_json J) (storage w VOD_CACHE_KEY) then None
            else case parsed (categories_json J) (storage w VOD_CATEGORIES_CACHE_KEY) of
                   None \<Rightarrow> None | Some obj \<Rightarrow> obj)"
    and "seriesCache (new_XtreamCodesApi J flt w) =
           (if unparsable (vod_json J) (storage w VOD_CACHE_KEY)
               \<or> unparsable (categories_json J) (storage w VOD_CATEGORIES_CACHE_KEY)
            then None
            else case parsed (series_json J) (storage w SERIES_CACHE_KEY) of
                   None \<Rightarrow> None | Some obj \<Rightarrow> obj)"
    and "seriesCategoriesCache (new_XtreamCodesApi J flt w) =
           (if unparsable (vod_json J) (storage w VOD_CACHE_KEY)
               \<or> unparsable (categories_json J) (storage w VOD_CATEGORIES_CACHE_KEY)
               \<or> unparsable (series_json J) (storage w SERIES_CACHE_KEY)
            then None
            else case parsed (categories_json J) (storage w SERIES_CATEGORIES_CACHE_KEY) of
                   None \<Rightarrow> None | Some obj \<Rightarrow> obj)"
proof -
  let ?this0 = "w\<lparr>credentials := None, authData := None, vodCache := None,
                  vodCategoriesCache := None, seriesCache := None,
                  seriesCategoriesCache := None\<rparr>"
  let ?this1 = "snd (loadCredentials J flt ?this0)"
  have new: "new_XtreamCodesApi J flt w = snd (loadCaches J flt ?this1)"
    by (simp add: new_XtreamCodesApi_def Let_def)
  have one: "storage ?this1 = storage w" "requests ?this1 = requests w"
      "vodCache ?this1 = None" "vodCategoriesCache ?this1 = None" "seriesCache ?this1 = None"
      "seriesCategoriesCache ?this1 = None"
      "credentials ?this1 =
         (case parsed (auth_json J) (storage w AUTH_STORAGE_KEY) of
            None \<Rightarrow> None | Some None \<Rightarrow> None | Some (Some p) \<Rightarrow> fst p)"
      "authData ?this1 =
         (case parsed (auth_json J) (storage w AUTH_STORAGE_KEY) of
            None \<Rightarrow> None | Some None \<Rightarrow> None | Some (Some p) \<Rightarrow> snd p)"
    using assms(1)
    by (simp_all add: loadCredentials_eq unparsable_parsed split: option.splits)
  note f = loadCaches_frame [of J flt ?this1]
  show "storage (new_XtreamCodesApi J flt w) = storage w"
    "requests (new_XtreamCodesApi J flt w) = requests w"
    "credentials (new_XtreamCodesApi J flt w) =
       (case parsed (auth_json J) (storage w AUTH_STORAGE_KEY) of
          None \<Rightarrow> None | Some None \<Rightarrow> None | Some (Some p) \<Rightarrow> fst p)"
    "authData (new_XtreamCodesApi J flt w) =
       (case parsed (auth_json J) (storage w AUTH_STORAGE_KEY) of
          None \<Rightarrow> None | Some None \<Rightarrow> None | Some (Some p) \<Rightarrow> snd p)"
    using f one by (simp_all add: new)
  show "vodCache (new_XtreamCodesApi J flt w) =
           (case parsed (vod_json J) (storage w VOD_CACHE_KEY) of
              None \<Rightarrow> None | Some obj \<Rightarrow> obj)"
    "vodCategoriesCache (new_XtreamCodesApi J flt w) =
           (if unparsable (vod_json J) (storage w VOD_CACHE_KEY) then None
            else case parsed (categories_json J) (storage w VOD_CATEGORIES_CACHE_KEY) of
                   None \<Rightarrow> None | Some obj \<Rightarrow> obj)"
    "seriesCache (new_XtreamCodesApi J flt w) =
           (if unparsable (vod_json J) (storage w VOD_CACHE_KEY)
               \<or> unparsable (categories_json J) (storage w VOD_CATEGORIES_CACHE_KEY)
            then None
            else case parsed (series_json J) (storage w SERIES_CACHE_KEY) of
                   None \<Rightarrow> None | Some obj \<Rightarrow> obj)"
    "seriesCategoriesCache (new_XtreamCodesApi J flt w) =
           (if unparsable (vod_json J) (storage w VOD_CACHE_KEY)
               \<or> unparsable (categories_json J) (storage w VOD_CATEGORIES_CACHE_KEY)
               \<or> unparsable (series_json J) (storage w SERIES_CACHE_KEY)
            then None
            else case parsed (categories_json J) (storage w SERIES_CATEGORIES_CACHE_KEY) of
                   None \<Rightarrow> None | Some obj \<Rightarrow> obj)"
    using one
    by (simp_all add: new loadCaches_reads_ok [OF ok] Let_def unparsable_parsed
        split: option.splits)
qed

text \<open>
  C8 (amended). Round trip through persistence. Let the five reads of the constructor
  succeed. For each catalog type: write an entry with the type's save operation, the write
  succeeding; discard the instance, so that only the store is kept; and construct a new
  instance over that store, whatever the fields held before. Provided the platform's
  \<open>JSON.parse\<close> gives back the object \<open>JSON.stringify\<close> was applied to (and that text is not
  empty), and no key that \<open>loadCaches()\<close> parses before this one holds a text that fails to
  parse, the new instance holds for that type an entry with the same data and the same
  timestamp (and the same filter), and constructing it issued no request. If moreover the
  store holds a session (credentials and auth data, as \<open>login\<close> saves them), a fetch of that
  type with the same filter within the TTL returns the data and issues no request. A type
  whose key holds nothing has no entry in the new instance, and without a stored session
  the new instance has none, whatever the discarded instance held.
\<close>

theorem restore_round_trip:
  assumes "flt (GetItem AUTH_STORAGE_KEY) = None"
    and "flt (GetItem VOD_CACHE_KEY) = None" and "flt (GetItem VOD_CATEGORIES_CACHE_KEY) = None"
    and "flt (GetItem SERIES_CACHE_KEY) = None"
    and "flt (GetItem SERIES_CATEGORIES_CACHE_KEY) = None"
  shows
    "(fa (SetItem VOD_CACHE_KEY) = None
      \<and> storage wa = storage (snd (saveVodCache J ta fa movies cid this))
      \<and> parse (vod_json J) (stringify (vod_json J) (Some \<lparr>data = movies, timestamp = ta, categoryId = cid\<rparr>))
          = Some (Some \<lparr>data = movies, timestamp = ta, categoryId = cid\<rparr>)
      \<and> stringify (vod_json J) (Some \<lparr>data = movies, timestamp = ta, categoryId = cid\<rparr>) \<noteq> [] \<longrightarrow>
        vodCache (new_XtreamCodesApi J flt wa) = Some \<lparr>data = movies, timestamp = ta, categoryId = cid\<rparr>
      \<and> requests (new_XtreamCodesApi J flt wa) = requests wa
      \<and> (parsed (auth_json J) (storage this AUTH_STORAGE_KEY) = Some (Some (Some c, Some a))
         \<and> check_time ea - ta < CACHE_EXPIRY_TIME \<longrightarrow>
           fst (getVodStreams J ea cid (new_XtreamCodesApi J flt wa)) = Inr movies
         \<and> requests (snd (getVodStreams J ea cid (new_XtreamCodesApi J flt wa))) = requests wa))
   \<and> (fb (SetItem VOD_CATEGORIES_CACHE_KEY) = None
      \<and> storage wb = storage (snd (saveVodCategoriesCache J tb fb cats this))
      \<and> parse (categories_json J) (stringify (categories_json J) (Some \<lparr>data = cats, timestamp = tb\<rparr>))
          = Some (Some \<lparr>data = cats, timestamp = tb\<rparr>)
      \<and> stringify (categories_json J) (Some \<lparr>data = cats, timestamp = tb\<rparr>) \<noteq> []
      \<and> \<not> unparsable (vod_json J) (storage this VOD_CACHE_KEY) \<longrightarrow>
        vodCategoriesCache (new_XtreamCodesApi J flt wb) = Some \<lparr>data = cats, timestamp = tb\<rparr>
      \<and> requests (new_XtreamCodesApi J flt wb) = requests wb
      \<and> (parsed (auth_json J) (storage this AUTH_STORAGE_KEY) = Some (Some (Some c, Some a))
         \<and> check_time eb - tb < CACHE_EXPIRY_TIME \<longrightarrow>
           fst (getVodCategories J eb (new_XtreamCodesApi J flt wb)) = Inr cats
         \<and> requests (snd (getVodCategories J eb (new_XtreamCodesApi J flt wb))) = requests wb))
   \<and> (fc (SetItem SERIES_CACHE_KEY) = None
      \<and> storage wc = storage (snd (saveSeriesCache J tc fc episodes cid' this))
      \<and> parse (series_json J) (stringify (series_json J) (Some \<lparr>data = episodes, timestamp = tc, categoryId = cid'\<rparr>))
          = Some (Some \<lparr>data = episodes, timestamp = tc, categoryId = cid'\<rparr>)
      \<and> stringify (series_json J) (Some \<lparr>data = episodes, timestamp = tc, categoryId = cid'\<rparr>) \<noteq> []
      \<and> \<not> unparsable (vod_json J) (storage this VOD_CACHE_KEY)
      \<and> \<not> unparsable (categories_json J) (storage this VOD_CATEGORIES_CACHE_KEY) \<longrightarrow>
        seriesCache (new_XtreamCodesApi J flt wc) = Some \<lparr>data = episodes, timestamp = tc, categoryId = cid'\<rparr>
      \<and> requests (new_XtreamCodesApi J flt wc) = requests wc
      \<and> (parsed (auth_json J) (storage this AUTH_STORAGE_KEY) = Some (Some (Some c, Some a))
         \<and> check_time ec - tc < CACHE_EXPIRY_TIME \<longrightarrow>
           fst (getSeries J ec cid' (new_XtreamCodesApi J flt wc)) = Inr episodes
         \<and> requests (snd (getSeries J ec cid' (new_XtreamCodesApi J flt wc))) = requests wc))
   \<and> (fd (SetItem SERIES_CATEGORIES_CACHE_KEY) = None
      \<and> storage wd = storage (snd (saveSeriesCategoriesCache J td fd cats' this))
      \<and> parse (categories_json J) (stringify (categories_json J) (Some \<lparr>data = cats', timestamp = td\<rparr>))
          = Some (Some \<lparr>data = cats', timestamp = td\<rparr>)
      \<and> stringify (categories_json J) (Some \<lparr>data = cats', timestamp = td\<rparr>) \<noteq> []
      \<and> \<not> unparsable (vod_json J) (storage this VOD_CACHE_KEY)
      \<and> \<not> unparsable (categories_json J) (storage this VOD_CATEGORIES_CACHE_KEY)
      \<and> \<not> unparsable (series_json J) (storage this SERIES_CACHE_KEY) \<longrightarrow>
        seriesCategoriesCache (new_XtreamCodesApi J flt wd) = Some \<lparr>data = cats', timestamp = td\<rparr>
      \<and> requests (new_XtreamCodesApi J flt wd) = requests wd
      \<and> (parsed (auth_json J) (storage this AUTH_STORAGE_KEY) = Some (Some (Some c, Some a))
         \<and> check_time ed - td < CACHE_EXPIRY_TIME \<longrightarrow>
           fst (getSeriesCategories J ed (new_XtreamCodesApi J flt wd)) = Inr cats'
         \<and> requests (snd (getSeriesCategories J ed (new_XtreamCodesApi J flt wd))) = requests wd))
   \<and> ((storage w VOD_CACHE_KEY = None \<longrightarrow> vodCache (new_XtreamCodesApi J flt w) = None)
      \<and> (storage w VOD_CATEGORIES_CACHE_KEY = None \<longrightarrow>
           vodCategoriesCache (new_XtreamCodesApi J flt w) = None)
      \<and> (storage w SERIES_CACHE_KEY = None \<longrightarrow> seriesCache (new_XtreamCodesApi J flt w) = None)
      \<and> (storage w SERIES_CATEGORIES_CACHE_KEY = None \<longrightarrow>
           seriesCategoriesCache (new_XtreamCodesApi J flt w) = None)
      \<and> (storage w AUTH_STORAGE_KEY = None \<longrightarrow>
           credentials (new_XtreamCodesApi J flt w) = None
         \<and> authData (new_XtreamCodesApi J flt w) = None))"
proof -
  note n = new_XtreamCodesApi_fields [OF assms, where J = J]
  have vod:
    "(fa (SetItem VOD_CACHE_KEY) = None
       \<and> storage wa = storage (snd (saveVodCache J ta fa movies cid this))
       \<and> parse (vod_json J) (stringify (vod_json J) (Some \<lparr>data = movies, timestamp = ta, categoryId = cid\<rparr>))
           = Some (Some \<lparr>data = movies, timestamp = ta, categoryId = cid\<rparr>)
       \<and> stringify (vod_json J) (Some \<lparr>data = movies, timestamp = ta, categoryId = cid\<rparr>) \<noteq> [] \<longrightarrow>
         vodCache (new_XtreamCodesApi J flt wa) = Some \<lparr>data = movies, timestamp = ta, categoryId = cid\<rparr>
       \<and> requests (new_XtreamCodesApi J flt wa) = requests wa
       \<and> (parsed (auth_json J) (storage this AUTH_STORAGE_KEY) = Some (Some (Some c, Some a))
          \<and> check_time ea - ta < CACHE_EXPIRY_TIME \<longrightarrow>
            fst (getVodStreams J ea cid (new_XtreamCodesApi J flt wa)) = Inr movies
          \<and> requests (snd (getVodStreams J ea cid (new_XtreamCodesApi J flt wa))) = requests wa))"
  proof (intro impI, elim conjE)
    let ?n = "new_XtreamCodesApi J flt wa"
    let ?obj = "\<lparr>data = movies, timestamp = ta, categoryId = cid\<rparr>"
    assume w: "fa (SetItem VOD_CACHE_KEY) = None"
      and sw: "storage wa = storage (snd (saveVodCache J ta fa movies cid this))"
      and rt: "parse (vod_json J) (stringify (vod_json J) (Some ?obj)) = Some (Some ?obj)"
      and ne: "stringify (vod_json J) (Some ?obj) \<noteq> []"
    have st: "storage wa = (storage this)(VOD_CACHE_KEY \<mapsto> stringify (vod_json J) (Some ?obj))"
      using w sw by (simp add: saveVodCache_eq)
    have p: "parsed (vod_json J) (Some (stringify (vod_json J) (Some ?obj))) = Some (Some ?obj)"
      using rt ne by (simp add: parsed_def)
    have slot: "vodCache ?n = Some ?obj"
      using p  by (simp add: n st keys_distinct')
    have rq: "requests ?n = requests wa"
      by (simp add: n)
    have hit: "fst (getVodStreams J ea cid ?n) = Inr movies
        \<and> requests (snd (getVodStreams J ea cid ?n)) = requests wa"
      if "parsed (auth_json J) (storage this AUTH_STORAGE_KEY) = Some (Some (Some c, Some a))
         \<and> check_time ea - ta < CACHE_EXPIRY_TIME"
    proof -
      from that have s: "credentials ?n \<noteq> None" "authData ?n \<noteq> None"
        by (simp_all add: n st keys_distinct')
      from that have v: "isCacheValid (check_time ea) (timestamp ?obj)"
        by (simp add: isCacheValid_def)
      show ?thesis
        using getVodStreams_hit [OF s slot v, where J = J] rq by simp
    qed
    show "vodCache ?n = Some ?obj
      \<and> requests ?n = requests wa
      \<and> (parsed (auth_json J) (storage this AUTH_STORAGE_KEY) = Some (Some (Some c, Some a))
         \<and> check_time ea - ta < CACHE_EXPIRY_TIME \<longrightarrow>
           fst (getVodStreams J ea cid ?n) = Inr movies
         \<and> requests (snd (getVodStreams J ea cid ?n)) = requests wa)"
      using slot rq hit by blast
  qed
  have vodcat:
    "(fb (SetItem VOD_CATEGORIES_CACHE_KEY) = None
       \<and> storage wb = storage (snd (saveVodCategoriesCache J tb fb cats this))
       \<and> parse (categories_json J) (stringify (categories_json J) (Some \<lparr>data = cats, timestamp = tb\<rparr>))
           = Some (Some \<lparr>data = cats, timestamp = tb\<rparr>)
       \<and> stringify (categories_json J) (Some \<lparr>data = cats, timestamp = tb\<rparr>) \<noteq> []
       \<and> \<not> unparsable (vod_json J) (storage this VOD_CACHE_KEY) \<longrightarrow>
         vodCategoriesCache (new_XtreamCodesApi J flt wb) = Some \<lparr>data = cats, timestamp = tb\<rparr>
       \<and> requests (new_XtreamCodesApi J flt wb) = requests wb
       \<and> (parsed (auth_json J) (storage this AUTH_STORAGE_KEY) = Some (Some (Some c, Some a))
          \<and> check_time eb - tb < CACHE_EXPIRY_TIME \<longrightarrow>
            fst (getVodCategories J eb (new_XtreamCodesApi J flt wb)) = Inr cats
          \<and> requests (snd (getVodCategories J eb (new_XtreamCodesApi J flt wb))) = requests wb))"
  proof (intro impI, elim conjE)
    let ?n = "new_XtreamCodesApi J flt wb"
    let ?obj = "\<lparr>data = cats, timestamp = tb\<rparr>"
    assume w: "fb (SetItem VOD_CATEGORIES_CACHE_KEY) = None"
      and sw: "storage wb = storage (snd (saveVodCategoriesCache J tb fb cats this))"
      and rt: "parse (categories_json J) (stringify (categories_json J) (Some ?obj)) = Some (Some ?obj)"
      and ne: "stringify (categories_json J) (Some ?obj) \<noteq> []"
    assume e0: "\<not> unparsable (vod_json J) (storage this VOD_CACHE_KEY)"
    have st: "storage wb = (storage this)(VOD_CATEGORIES_CACHE_KEY \<mapsto> stringify (categories_json J) (Some ?obj))"
      using w sw by (simp add: saveVodCategoriesCache_eq)
    have p: "parsed (categories_json J) (Some (stringify (categories_json J) (Some ?obj))) = Some (Some ?obj)"
      using rt ne by (simp add: parsed_def)
    have slot: "vodCategoriesCache ?n = Some ?obj"
      using p e0 by (simp add: n st keys_distinct')
    have rq: "requests ?n = requests wb"
      by (simp add: n)
    have hit: "fst (getVodCategories J eb ?n) = Inr cats
        \<and> requests (snd (getVodCategories J eb ?n)) = requests wb"
      if "parsed (auth_json J) (storage this AUTH_STORAGE_KEY) = Some (Some (Some c, Some a))
         \<and> check_time eb - tb < CACHE_EXPIRY_TIME"
    proof -
      from that have s: "credentials ?n \<noteq> None" "authData ?n \<noteq> None"
        by (simp_all add: n st keys_distinct')
      from that have v: "isCacheValid (check_time eb) (timestamp ?obj)"
        by (simp add: isCacheValid_def)
      show ?thesis
        using getVodCategories_hit [OF s slot v, where J = J] rq by simp
    qed
    show "vodCategoriesCache ?n = Some ?obj
      \<and> requests ?n = requests wb
      \<and> (parsed (auth_json J) (storage this AUTH_STORAGE_KEY) = Some (Some (Some c, Some a))
         \<and> check_time eb - tb < CACHE_EXPIRY_TIME \<longrightarrow>
           fst (getVodCategories J eb ?n) = Inr cats
         \<and> requests (snd (getVodCategories J eb ?n)) = requests wb)"
      using slot rq hit by blast
  qed
  have series:
    "(fc (SetItem SERIES_CACHE_KEY) = None
       \<and> storage wc = storage (snd (saveSeriesCache J tc fc episodes cid' this))
       \<and> parse (series_json J) (stringify (series_json J) (Some \<lparr>data = episodes, timestamp = tc, categoryId = cid'\<rparr>))
           = Some (Some \<lparr>data = episodes, timestamp = tc, categoryId = cid'\<rparr>)
       \<and> stringify (series_json J) (Some \<lparr>data = episodes, timestamp = tc, categoryId = cid'\<rparr>) \<noteq> []
       \<and> \<not> unparsable (vod_json J) (storage this VOD_CACHE_KEY)
       \<and> \<not> unparsable (categories_json J) (storage this VOD_CATEGORIES_CACHE_KEY) \<longrightarrow>
         seriesCache (new_XtreamCodesApi J flt wc) = Some \<lparr>data = episodes, timestamp = tc, categoryId = cid'\<rparr>
       \<and> requests (new_XtreamCodesApi J flt wc) = requests wc
       \<and> (parsed (auth_json J) (storage this AUTH_STORAGE_KEY) = Some (Some (Some c, Some a))
          \<and> check_time ec - tc < CACHE_EXPIRY_TIME \<longrightarrow>
            fst (getSeries J ec cid' (new_XtreamCodesApi J flt wc)) = Inr episodes
          \<and> requests (snd (getSeries J ec cid' (new_XtreamCodesApi J flt wc))) = requests wc))"
  proof (intro impI, elim conjE)
    let ?n = "new_XtreamCodesApi J flt wc"
    let ?obj = "\<lparr>data = episodes, timestamp = tc, categoryId = cid'\<rparr>"
    assume w: "fc (SetItem SERIES_CACHE_KEY) = None"
      and sw: "storage wc = storage (snd (saveSeriesCache J tc fc episodes cid' this))"
      and rt: "parse (series_json J) (stringify (series_json J) (Some ?obj)) = Some (Some ?obj)"
      and ne: "stringify (series_json J) (Some ?obj) \<noteq> []"
    assume e0: "\<not> unparsable (vod_json J) (storage this VOD_CACHE_KEY)"
    assume e1: "\<not> unparsable (categories_json J) (storage this VOD_CATEGORIES_CACHE_KEY)"
    have st: "storage wc = (storage this)(SERIES_CACHE_KEY \<mapsto> stringify (series_json J) (Some ?obj))"
      using w sw by (simp add: saveSeriesCache_eq)
    have p: "parsed (series_json J) (Some (stringify (series_json J) (Some ?obj))) = Some (Some ?obj)"
      using rt ne by (simp add: parsed_def)
    have slot: "seriesCache ?n = Some ?obj"
      using p e0 e1 by (simp add: n st keys_distinct')
    have rq: "requests ?n = requests wc"
      by (simp add: n)
    have hit: "fst (getSeries J ec cid' ?n) = Inr episodes
        \<and> requests (snd (getSeries J ec cid' ?n)) = requests wc"
      if "parsed (auth_json J) (storage this AUTH_STORAGE_KEY) = Some (Some (Some c, Some a))
         \<and> check_time ec - tc < CACHE_EXPIRY_TIME"
    proof -
      from that have s: "credentials ?n \<noteq> None" "authData ?n \<noteq> None"
        by (simp_all add: n st keys_distinct')
      from that have v: "isCacheValid (check_time ec) (timestamp ?obj)"
        by (simp add: isCacheValid_def)
      show ?thesis
        using getSeries_hit [OF s slot v, where J = J] rq by simp
    qed
    show "seriesCache ?n = Some ?obj
      \<and> requests ?n = requests wc
      \<and> (parsed (auth_json J) (storage this AUTH_STORAGE_KEY) = Some (Some (Some c, Some a))
         \<and> check_time ec - tc < CACHE_EXPIRY_TIME \<longrightarrow>
           fst (getSeries J ec cid' ?n) = Inr episodes
         \<and> requests (snd (getSeries J ec cid' ?n)) = requests wc)"
      using slot rq hit by blast
  qed
  have seriescat:
    "(fd (SetItem SERIES_CATEGORIES_CACHE_KEY) = None
       \<and> storage wd = storage (snd (saveSeriesCategoriesCache J td fd cats' this))
       \<and> parse (categories_json J) (stringify (categories_json J) (Some \<lparr>data = cats', timestamp = td\<rparr>))
           = Some (Some \<lparr>data = cats', timestamp = td\<rparr>)
       \<and> stringify (categories_json J) (Some \<lparr>data = cats', timestamp = td\<rparr>) \<noteq> []
       \<and> \<not> unparsable (vod_json J) (storage this VOD_CACHE_KEY)
       \<and> \<not> unparsable (categories_json J) (storage this VOD_CATEGORIES_CACHE_KEY)
       \<and> \<not> unparsable (series_json J) (storage this SERIES_CACHE_KEY) \<longrightarrow>
         seriesCategoriesCache (new_XtreamCodesApi J flt wd) = Some \<lparr>data = cats', timestamp = td\<rparr>
       \<and> requests (new_XtreamCodesApi J flt wd) = requests wd
       \<and> (parsed (auth_json J) (storage this AUTH_STORAGE_KEY) = Some (Some (Some c, Some a))
          \<and> check_time ed - td < CACHE_EXPIRY_TIME \<longrightarrow>
            fst (getSeriesCategories J ed (new_XtreamCodesApi J flt wd)) = Inr cats'
          \<and> requests (snd (getSeriesCategories J ed (new_XtreamCodesApi J flt wd))) = requests wd))"
  proof (intro impI, elim conjE)
    let ?n = "new_XtreamCodesApi J flt wd"
    let ?obj = "\<lparr>data = cats', timestamp = td\<rparr>"
    assume w: "fd (SetItem SERIES_CATEGORIES_CACHE_KEY) = None"
      and sw: "storage wd = storage (snd (saveSeriesCategoriesCache J td fd cats' this))"
      and rt: "parse (categories_json J) (stringify (categories_json J) (Some ?obj)) = Some (Some ?obj)"
      and ne: "stringify (categories_json J) (Some ?obj) \<noteq> []"
    assume e0: "\<not> unparsable (vod_json J) (storage this VOD_CACHE_KEY)"
    assume e1: "\<not> unparsable (categories_json J) (storage this VOD_CATEGORIES_CACHE_KEY)"
    assume e2: "\<not> unparsable (series_json J) (storage this SERIES_CACHE_KEY)"
    have st: "storage wd = (storage this)(SERIES_CATEGORIES_CACHE_KEY \<mapsto> stringify (categories_json J) (Some ?obj))"
      using w sw by (simp add: saveSeriesCategoriesCache_eq)
    have p: "parsed (categories_json J) (Some (stringify (categories_json J) (Some ?obj))) = Some (Some ?obj)"
      using rt ne by (simp add: parsed_def)
    have slot: "seriesCategoriesCache ?n = Some ?obj"
      using p e0 e1 e2 by (simp add: n st keys_distinct')
    have rq: "requests ?n = requests wd"
      by (simp add: n)
    have hit: "fst (getSeriesCategories J ed ?n) = Inr cats'
        \<and> requests (snd (getSeriesCategories J ed ?n)) = requests wd"
      if "parsed (auth_json J) (storage this AUTH_STORAGE_KEY) = Some (Some (Some c, Some a))
         \<and> check_time ed - td < CACHE_EXPIRY_TIME"
    proof -
      from that have s: "credentials ?n \<noteq> None" "authData ?n \<noteq> None"
        by (simp_all add: n st keys_distinct')
      from that have v: "isCacheValid (check_time ed) (timestamp ?obj)"
        by (simp add: isCacheValid_def)
      show ?thesis
        using getSeriesCategories_hit [OF s slot v, where J = J] rq by simp
    qed
    show "seriesCategoriesCache ?n = Some ?obj
      \<and> requests ?n = requests wd
      \<and> (parsed (auth_json J) (storage this AUTH_STORAGE_KEY) = Some (Some (Some c, Some a))
         \<and> check_time ed - td < CACHE_EXPIRY_TIME \<longrightarrow>
           fst (getSeriesCategories J ed ?n) = Inr cats'
         \<and> requests (snd (getSeriesCategories J ed ?n)) = requests wd)"
      using slot rq hit by blast
  qed
  have fresh:
    "((storage w VOD_CACHE_KEY = None \<longrightarrow> vodCache (new_XtreamCodesApi J flt w) = None)
       \<and> (storage w VOD_CATEGORIES_CACHE_KEY = None \<longrightarrow>
            vodCategoriesCache (new_XtreamCodesApi J flt w) = None)
       \<and> (storage w SERIES_CACHE_KEY = None \<longrightarrow> seriesCache (new_XtreamCodesApi J flt w) = None)
       \<and> (storage w SERIES_CATEGORIES_CACHE_KEY = None \<longrightarrow>
            seriesCategoriesCache (new_XtreamCodesApi J flt w) = None)
       \<and> (storage w AUTH_STORAGE_KEY = None \<longrightarrow>
            credentials (new_XtreamCodesApi J flt w) = None
          \<and> authData (new_XtreamCodesApi J flt w) = None))"
    by (simp add: n parsed_def unparsable_def)
  from vod vodcat series seriescat fresh show ?thesis by blast
qed

theorem restore_round_trip_witness:
  "vodCache demo_cached = Some demo_vod_object
   \<and> storage demo_cached VOD_CACHE_KEY = Some demo_vod_text
   \<and> storage (snd (saveVodCache demo_JSON 2000 no_fault [''Ran''] (Some ''6'') demo_cached))
        VOD_CACHE_KEY = Some demo_vod_fresh_text
   \<and> vodCache (demo_restart
        (snd (saveVodCache demo_JSON 2000 no_fault [''Ran''] (Some ''6'') demo_cached))) = None
   \<and> vodCache (new_XtreamCodesApi demo_JSON no_fault (demo_restart
        (snd (saveVodCache demo_JSON 2000 no_fault [''Ran''] (Some ''6'') demo_cached))))
     = Some demo_vod_fresh
   \<and> fst (getVodStreams demo_JSON (demo_env 5000 (Inl (Rejected ''offline''))) (Some ''6'')
        (new_XtreamCodesApi demo_JSON no_fault (demo_restart
          (snd (saveVodCache demo_JSON 2000 no_fault [''Ran''] (Some ''6'') demo_cached)))))
     = Inr [''Ran'']
   \<and> requests (snd (getVodStreams demo_JSON (demo_env 5000 (Inl (Rejected ''offline'')))
        (Some ''6'')
        (new_XtreamCodesApi demo_JSON no_fault (demo_restart
          (snd (saveVodCache demo_JSON 2000 no_fault [''Ran''] (Some ''6'') demo_cached))))))
     = []
   \<and> fst (getVodCategories demo_JSON (demo_env 5000 (Inl (Rejected ''offline'')))
        (new_XtreamCodesApi demo_JSON no_fault (demo_restart
          (snd (saveVodCategoriesCache demo_JSON 2000 no_fault demo_categories_fresh
                  demo_cached)))))
     = Inr demo_categories_fresh
   \<and> fst (getSeries demo_JSON (demo_env 5000 (Inl (Rejected ''offline''))) (Some ''9'')
        (new_XtreamCodesApi demo_JSON no_fault (demo_restart
          (snd (saveSeriesCache demo_JSON 2000 no_fault [''Lost''] (Some ''9'') demo_cached)))))
     = Inr [''Lost'']
   \<and> fst (getSeriesCategories demo_JSON (demo_env 5000 (Inl (Rejected ''offline'')))
        (new_XtreamCodesApi demo_JSON no_fault (demo_restart
          (snd (saveSeriesCategoriesCache demo_JSON 2000 no_fault demo_categories_fresh
                  demo_cached)))))
     = Inr demo_categories_fresh
   \<and> vodCache demo_wiped = Some demo_vod_object
   \<and> vodCache (new_XtreamCodesApi demo_JSON no_fault demo_wiped) = None
   \<and> vodCategoriesCache (new_XtreamCodesApi demo_JSON no_fault demo_wiped) = None
   \<and> seriesCache demo_wiped = Some demo_series_object
   \<and> seriesCache (new_XtreamCodesApi demo_JSON no_fault demo_wiped) = None
   \<and> seriesCategoriesCache (new_XtreamCodesApi demo_JSON no_fault demo_wiped) = None
   \<and> credentials demo_wiped = Some demo_credentials
   \<and> credentials (new_XtreamCodesApi demo_JSON no_fault demo_wiped) = None"
proof -
  let ?wa = "demo_restart
      (snd (saveVodCache demo_JSON 2000 no_fault [''Ran''] (Some ''6'') demo_cached))"
  let ?wb = "demo_restart
      (snd (saveVodCategoriesCache demo_JSON 2000 no_fault demo_categories_fresh demo_cached))"
  let ?wc = "demo_restart
      (snd (saveSeriesCache demo_JSON 2000 no_fault [''Lost''] (Some ''9'') demo_cached))"
  let ?wd = "demo_restart
      (snd (saveSeriesCategoriesCache demo_JSON 2000 no_fault demo_categories_fresh demo_cached))"
  have rd: "no_fault (GetItem k) = None" and wr: "no_fault (SetItem k) = None" for k
    by (simp_all add: no_fault_def)
  have codec:
    "parse (vod_json demo_JSON) (stringify (vod_json demo_JSON)
        (Some \<lparr>data = [''Ran''], timestamp = 2000, categoryId = Some ''6''\<rparr>))
      = Some (Some \<lparr>data = [''Ran''], timestamp = 2000, categoryId = Some ''6''\<rparr>)"
    "stringify (vod_json demo_JSON)
        (Some \<lparr>data = [''Ran''], timestamp = 2000, categoryId = Some ''6''\<rparr>) = demo_vod_fresh_text"
    "parse (categories_json demo_JSON) (stringify (categories_json demo_JSON)
        (Some \<lparr>data = demo_categories_fresh, timestamp = 2000\<rparr>))
      = Some (Some \<lparr>data = demo_categories_fresh, timestamp = 2000\<rparr>)"
    "stringify (categories_json demo_JSON)
        (Some \<lparr>data = demo_categories_fresh, timestamp = 2000\<rparr>) = demo_categories_fresh_text"
    "parse (series_json demo_JSON) (stringify (series_json demo_JSON)
        (Some \<lparr>data = [''Lost''], timestamp = 2000, categoryId = Some ''9''\<rparr>))
      = Some (Some \<lparr>data = [''Lost''], timestamp = 2000, categoryId = Some ''9''\<rparr>)"
    "stringify (series_json demo_JSON)
        (Some \<lparr>data = [''Lost''], timestamp = 2000, categoryId = Some ''9''\<rparr>)
      = demo_series_fresh_text"
    by (simp_all add: demo_JSON_def demo_vod_object_def demo_vod_fresh_def
        demo_categories_object_def demo_categories_fresh_object_def demo_categories_def
        demo_categories_fresh_def demo_series_object_def demo_series_fresh_def
        demo_vod_text_def demo_vod_fresh_text_def demo_categories_text_def
        demo_categories_fresh_text_def demo_series_text_def demo_series_fresh_text_def)
  have ne: "demo_vod_fresh_text \<noteq> []" "demo_categories_fresh_text \<noteq> []"
      "demo_series_fresh_text \<noteq> []"
    by (simp_all add: demo_vod_fresh_text_def demo_categories_fresh_text_def
        demo_series_fresh_text_def)
  have fresh: "demo_vod_fresh = \<lparr>data = [''Ran''], timestamp = 2000, categoryId = Some ''6''\<rparr>"
    by (simp add: demo_vod_fresh_def)
  have st: "storage demo_cached AUTH_STORAGE_KEY = Some demo_auth_text"
      "storage demo_cached VOD_CACHE_KEY = Some demo_vod_text"
      "storage demo_cached VOD_CATEGORIES_CACHE_KEY = Some demo_categories_text"
      "storage demo_cached SERIES_CACHE_KEY = Some demo_series_text"
      "requests demo_cached = []" "vodCache demo_cached = Some demo_vod_object"
    by (simp_all add: demo_cached_def demo_session_def demo_blank_def keys_distinct')
  have sv: "storage ?wa
        = storage (snd (saveVodCache demo_JSON 2000 no_fault [''Ran''] (Some ''6'') demo_cached))"
      "storage ?wb = storage (snd (saveVodCategoriesCache demo_JSON 2000 no_fault
          demo_categories_fresh demo_cached))"
      "storage ?wc
        = storage (snd (saveSeriesCache demo_JSON 2000 no_fault [''Lost''] (Some ''9'') demo_cached))"
      "storage ?wd = storage (snd (saveSeriesCategoriesCache demo_JSON 2000 no_fault
          demo_categories_fresh demo_cached))"
      "requests ?wa = []" "requests ?wb = []" "requests ?wc = []" "requests ?wd = []"
      "vodCache ?wa = None"
    by (simp_all add: demo_restart_def demo_blank_def saveVodCache_eq saveVodCategoriesCache_eq
        saveSeriesCache_eq saveSeriesCategoriesCache_eq wr st)
  have key: "storage (snd (saveVodCache demo_JSON 2000 no_fault [''Ran''] (Some ''6'') demo_cached))
      VOD_CACHE_KEY = Some demo_vod_fresh_text"
    by (simp add: saveVodCache_eq wr codec)
  have wiped: "storage demo_wiped k = None" "vodCache demo_wiped = Some demo_vod_object"
      "credentials demo_wiped = Some demo_credentials"
      "seriesCache demo_wiped = Some demo_series_object" for k
    by (simp_all add: demo_wiped_def demo_cached_def demo_session_def)
  have earlier: "\<not> unparsable (vod_json demo_JSON) (Some demo_vod_text)"
      "\<not> unparsable (categories_json demo_JSON) (Some demo_categories_text)"
      "\<not> unparsable (series_json demo_JSON) (Some demo_series_text)"
    by (simp_all add: unparsable_def demo_JSON_def)
  have session: "parsed (auth_json demo_JSON) (Some demo_auth_text)
      = Some (Some (Some demo_credentials, Some demo_auth))"
    by (simp add: parsed_def demo_JSON_def demo_auth_text_def)
  have ttl: "check_time (demo_env 5000 rep) - 2000 < CACHE_EXPIRY_TIME" for rep :: "error + 'r"
    by (simp add: demo_env_def CACHE_EXPIRY_TIME_def)
  from restore_round_trip [where flt = no_fault and J = demo_JSON and this = demo_cached
      and fa = no_fault and fb = no_fault and fc = no_fault and fd = no_fault
      and ta = 2000 and tb = 2000 and tc = 2000 and td = 2000
      and movies = "[''Ran'']" and cid = "Some ''6''" and cats = demo_categories_fresh
      and episodes = "[''Lost'']" and cid' = "Some ''9''" and cats' = demo_categories_fresh
      and wa = ?wa and wb = ?wb and wc = ?wc and wd = ?wd and w = demo_wiped
      and c = demo_credentials and a = demo_auth
      and ea = "demo_env 5000 (Inl (Rejected ''offline''))"
      and eb = "demo_env 5000 (Inl (Rejected ''offline''))"
      and ec = "demo_env 5000 (Inl (Rejected ''offline''))"
      and ed = "demo_env 5000 (Inl (Rejected ''offline''))", OF rd rd rd rd rd]
  show ?thesis
    using codec(1,3,5) sv key
    by (simp add: wr st earlier session ttl wiped fresh codec(2,4,6) ne)
qed

text \<open>
  C8 as stated fails for the series entry: it is written to the store (the write succeeds,
  and its text parses), the instance is discarded and a new one constructed with all reads
  succeeding, and yet the new instance has no series entry, because the VOD key, which is
  parsed first, holds a text that is not JSON. The session is restored, and the fetch that
  follows goes to the network.
\<close>

theorem restore_blocked_counterexample:
  "fst (saveSeriesCache demo_JSON 2000 no_fault [''Lost''] (Some ''9'') demo_cached_corrupt)
     = Inr ()
   \<and> storage (snd (saveSeriesCache demo_JSON 2000 no_fault [''Lost''] (Some ''9'')
        demo_cached_corrupt)) SERIES_CACHE_KEY = Some demo_series_fresh_text
   \<and> parse (series_json demo_JSON) demo_series_fresh_text = Some (Some demo_series_fresh)
   \<and> data demo_series_fresh = [''Lost'']
   \<and> seriesCache (new_XtreamCodesApi demo_JSON no_fault (demo_restart
        (snd (saveSeriesCache demo_JSON 2000 no_fault [''Lost''] (Some ''9'')
           demo_cached_corrupt)))) = None
   \<and> credentials (new_XtreamCodesApi demo_JSON no_fault (demo_restart
        (snd (saveSeriesCache demo_JSON 2000 no_fault [''Lost''] (Some ''9'')
           demo_cached_corrupt)))) = Some demo_credentials
   \<and> actions (snd (getSeries demo_JSON (demo_env 5000 (Inr [''Lost''])) (Some ''9'')
        (new_XtreamCodesApi demo_JSON no_fault (demo_restart
          (snd (saveSeriesCache demo_JSON 2000 no_fault [''Lost''] (Some ''9'')
             demo_cached_corrupt)))))) = [Some ''get_series'']"
proof -
  let ?saved = "snd (saveSeriesCache demo_JSON 2000 no_fault [''Lost''] (Some ''9'')
      demo_cached_corrupt)"
  let ?n = "new_XtreamCodesApi demo_JSON no_fault (demo_restart ?saved)"
  have rd: "no_fault (GetItem k) = None" and wr: "no_fault (SetItem k) = None" for k
    by (simp_all add: no_fault_def)
  have str: "stringify (series_json demo_JSON)
      (Some \<lparr>data = [''Lost''], timestamp = 2000, categoryId = Some ''9''\<rparr>) = demo_series_fresh_text"
    by (simp add: demo_JSON_def demo_series_fresh_def demo_series_object_def)
  have p: "parse (series_json demo_JSON) demo_series_fresh_text = Some (Some demo_series_fresh)"
    by (simp add: demo_JSON_def demo_series_fresh_text_def demo_series_text_def)
  have st: "storage (demo_restart ?saved) VOD_CACHE_KEY = Some ''<html>''"
      "storage (demo_restart ?saved) AUTH_STORAGE_KEY = Some demo_auth_text"
      "storage ?saved SERIES_CACHE_KEY = Some demo_series_fresh_text"
      "requests (demo_restart ?saved) = []"
    by (simp_all add: demo_restart_def demo_blank_def saveSeriesCache_eq wr str
        demo_cached_corrupt_def demo_cached_def demo_session_def keys_distinct')
  have bad: "unparsable (vod_json demo_JSON) (Some ''<html>'')"
    by (simp add: unparsable_def demo_JSON_def demo_vod_text_def demo_vod_fresh_text_def
        demo_vod_rewarmed_text_def)
  have session: "parsed (auth_json demo_JSON) (Some demo_auth_text)
      = Some (Some (Some demo_credentials, Some demo_auth))"
    by (simp add: parsed_def demo_JSON_def demo_auth_text_def)
  note n = new_XtreamCodesApi_fields [where flt = no_fault, OF rd rd rd rd rd,
      where J = demo_JSON and w = "demo_restart ?saved"]
  have slot: "seriesCache ?n = None"
    by (simp add: n(7) st bad)
  have cr: "credentials ?n = Some demo_credentials" "authData ?n \<noteq> None"
    by (simp_all add: n(3,4) st session)
  have miss: "\<forall>c. seriesCache ?n = Some c \<longrightarrow>
      \<not> (isCacheValid (check_time (demo_env 5000 (Inr [''Lost'']))) (timestamp c)
         \<and> categoryId c = Some ''9'')"
    by (simp add: slot)
  have acts: "actions (snd (getSeries demo_JSON (demo_env 5000 (Inr [''Lost''])) (Some ''9'') ?n))
      = [Some ''get_series'']"
    by (simp add: actions_def getSeries_miss_requests [OF cr miss] n(2) st stream_params_def)
  show ?thesis
    using slot cr(1) acts p st(3)
    by (simp add: saveSeriesCache_eq demo_series_fresh_def)
qed

text \<open>
  \<open>logout\<close> with a session, when the five removals of the fixed keys succeed and a removal
  under the user name rejects: the handler logs the error and \<open>logout\<close> resolves.
\<close>

lemma logout_user_removal_rejects:
  assumes ok: "flt (RemoveItem AUTH_STORAGE_KEY) = None" "flt (RemoveItem VOD_CACHE_KEY) = None"
      "flt (RemoveItem VOD_CATEGORIES_CACHE_KEY) = None" "flt (RemoveItem SERIES_CACHE_KEY) = None"
      "flt (RemoveItem SERIES_CATEGORIES_CACHE_KEY) = None"
    and s: "credentials this = Some c" "authData this \<noteq> None" "XtreamCredentials.username c \<noteq> []"
    and bad: "flt (RemoveItem (''huluxtream_favorites_'' @ XtreamCredentials.username c)) \<noteq> None
         \<or> flt (RemoveItem (XtreamCredentials.username c
                @ ''_huluxtream_parental_control_enabled'')) \<noteq> None
         \<or> flt (RemoveItem (XtreamCredentials.username c
                @ ''_huluxtream_parental_control_pin'')) \<noteq> None
         \<or> flt (RemoveItem (XtreamCredentials.username c
                @ ''_huluxtream_restricted_categories'')) \<noteq> None"
  shows "\<exists>e k. k \<in> {''huluxtream_favorites_'' @ XtreamCredentials.username c,
                    XtreamCredentials.username c @ ''_huluxtream_parental_control_enabled'',
                    XtreamCredentials.username c @ ''_huluxtream_parental_control_pin'',
                    XtreamCredentials.username c @ ''_huluxtream_restricted_categories''}
             \<and> flt (RemoveItem k) = Some e
             \<and> fst (logout flt this) = Inr ()
             \<and> console (snd (logout flt this)) =
                 console this @ [Error ''Error clearing user-specific data:'' e]"
proof -
  let ?u = "XtreamCredentials.username c"
  have u: "map_option UserInfo.username (getUserInfo this) = Some ?u"
    using s by (auto simp add: getUserInfo_def)
  show ?thesis
  proof (cases "flt (RemoveItem (''huluxtream_favorites_'' @ ?u))")
    case (Some e)
    show ?thesis
      unfolding logout_def Let_def andThen_read andThen_assign u option.case
      by (intro exI [of _ e] exI [of _ "''huluxtream_favorites_'' @ ?u"])
         (use Some s(3) ok in \<open>simp add: andThen_def removeItem_def tryCatch_def
            console_error_def console_log_def assign_def\<close>)
  next
    case a: None
    show ?thesis
    proof (cases "flt (RemoveItem (?u @ ''_huluxtream_parental_control_enabled''))")
      case (Some e)
      show ?thesis
        unfolding logout_def Let_def andThen_read andThen_assign u option.case
        by (intro exI [of _ e] exI [of _ "?u @ ''_huluxtream_parental_control_enabled''"])
           (use Some a s(3) ok in \<open>simp add: andThen_def removeItem_def tryCatch_def
            console_error_def console_log_def assign_def\<close>)
    next
      case b: None
      show ?thesis
      proof (cases "flt (RemoveItem (?u @ ''_huluxtream_parental_control_pin''))")
        case (Some e)
        show ?thesis
          unfolding logout_def Let_def andThen_read andThen_assign u option.case
          by (intro exI [of _ e] exI [of _ "?u @ ''_huluxtream_parental_control_pin''"])
             (use Some a b s(3) ok in \<open>simp add: andThen_def removeItem_def tryCatch_def
            console_error_def console_log_def assign_def\<close>)
      next
        case d: None
        with a b bad obtain e where
          e: "flt (RemoveItem (?u @ ''_huluxtream_restricted_categories'')) = Some e"
          by auto
        show ?thesis
          unfolding logout_def Let_def andThen_read andThen_assign u option.case
          by (intro exI [of _ e] exI [of _ "?u @ ''_huluxtream_restricted_categories''"])
             (use e a b d s(3) ok in \<open>simp add: andThen_def removeItem_def tryCatch_def
            console_error_def console_log_def assign_def\<close>)
      qed
    qed
  qed
qed

text \<open>\<open>logout\<close> when one of its five unguarded removals rejects.\<close>

lemma logout_remove_rejects:
  assumes "flt (RemoveItem AUTH_STORAGE_KEY) \<noteq> None \<or> flt (RemoveItem VOD_CACHE_KEY) \<noteq> None
         \<or> flt (RemoveItem VOD_CATEGORIES_CACHE_KEY) \<noteq> None
         \<or> flt (RemoveItem SERIES_CACHE_KEY) \<noteq> None
         \<or> flt (RemoveItem SERIES_CATEGORIES_CACHE_KEY) \<noteq> None"
  shows "\<exists>e k. flt (RemoveItem k) = Some e \<and> fst (logout flt this) = Inl e"
proof (cases "flt (RemoveItem AUTH_STORAGE_KEY)")
  case (Some e)
  then show ?thesis
    unfolding logout_def Let_def andThen_read andThen_assign
    by (intro exI [of _ e] exI [of _ AUTH_STORAGE_KEY])
       (simp add: andThen_removeItem_fails [where flt = flt])
next
  case a: None
  show ?thesis
  proof (cases "flt (RemoveItem VOD_CACHE_KEY)")
    case (Some e)
    with a show ?thesis
      unfolding logout_def Let_def andThen_read andThen_assign
      by (intro exI [of _ e] exI [of _ VOD_CACHE_KEY])
         (simp add: andThen_removeItem_fails [where flt = flt]
          andThen_removeItem_ok [where flt = flt])
  next
    case b: None
    show ?thesis
    proof (cases "flt (RemoveItem VOD_CATEGORIES_CACHE_KEY)")
      case (Some e)
      with a b show ?thesis
        unfolding logout_def Let_def andThen_read andThen_assign
        by (intro exI [of _ e] exI [of _ VOD_CATEGORIES_CACHE_KEY])
           (simp add: andThen_removeItem_fails [where flt = flt]
            andThen_removeItem_ok [where flt = flt])
    next
      case c: None
      show ?thesis
      proof (cases "flt (RemoveItem SERIES_CACHE_KEY)")
        case (Some e)
        with a b c show ?thesis
          unfolding logout_def Let_def andThen_read andThen_assign
          by (intro exI [of _ e] exI [of _ SERIES_CACHE_KEY])
             (simp add: andThen_removeItem_fails [where flt = flt]
              andThen_removeItem_ok [where flt = flt])
      next
        case d: None
        with a b c assms obtain e where
          "flt (RemoveItem SERIES_CATEGORIES_CACHE_KEY) = Some e"
          by auto
        with a b c d show ?thesis
          unfolding logout_def Let_def andThen_read andThen_assign
          by (intro exI [of _ e] exI [of _ SERIES_CATEGORIES_CACHE_KEY])
             (simp add: andThen_removeItem_fails [where flt = flt]
              andThen_removeItem_ok [where flt = flt])
      qed
    qed
  qed
qed

lemma saveCredentials_eq:
  "saveCredentials J flt this =
     (Inr (),
      (case flt (SetItem AUTH_STORAGE_KEY) of
         None \<Rightarrow>
           this\<lparr>storage := (storage this)(AUTH_STORAGE_KEY \<mapsto>
                   stringify (auth_json J) (Some (credentials this, authData this)))\<rparr>
       | Some e \<Rightarrow> this\<lparr>console := console this @ [Error ''Failed to save auth data:'' e]\<rparr>))"
  by (simp add: saveCredentials_def action_defs split: option.splits)

text \<open>
  C7 (amended). Where the class guards a store operation with a handler of its own, a
  failure of the store is logged and goes no further, and the in-memory update has already
  been made: each of the four cache saves assigns its slot and resolves whether or not the
  write rejects, logging the rejection; \<open>saveCredentials\<close> resolves likewise; \<open>loadCaches\<close>
  and \<open>loadCredentials\<close> resolve whatever the reads do, logging a rejected read. In
  \<open>clearCache\<close> a rejecting removal of a cache key is caught and logged too, but the handler
  then rejects with the same error, so the caller of \<open>clearCache()\<close> sees it; the four
  in-memory entries are cleared before. In \<open>logout\<close> the four in-memory entries and the
  session are cleared whatever the store does, and when the five removals of the fixed keys
  succeed it resolves; if then, with a session whose user name is not empty, one of the four
  removals under the user name rejects, \<open>logout\<close> still resolves and what it adds to the
  console is the line \<open>Error clearing user-specific data:\<close> with the error of that removal.
\<close>

theorem store_failures_where_caught:
  "(fst (saveVodCache J now flt movies cid this) = Inr ()
    \<and> vodCache (snd (saveVodCache J now flt movies cid this))
        = Some \<lparr>data = movies, timestamp = now, categoryId = cid\<rparr>
    \<and> (\<forall>e. flt (SetItem VOD_CACHE_KEY) = Some e \<longrightarrow>
          Error ''Failed to save VOD cache:'' e
            \<in> set (console (snd (saveVodCache J now flt movies cid this)))))
   \<and> (fst (saveVodCategoriesCache J now flt cats this) = Inr ()
    \<and> vodCategoriesCache (snd (saveVodCategoriesCache J now flt cats this))
        = Some \<lparr>data = cats, timestamp = now\<rparr>
    \<and> (\<forall>e. flt (SetItem VOD_CATEGORIES_CACHE_KEY) = Some e \<longrightarrow>
          Error ''Failed to save VOD categories cache:'' e
            \<in> set (console (snd (saveVodCategoriesCache J now flt cats this)))))
   \<and> (fst (saveSeriesCache J now flt episodes cid this) = Inr ()
    \<and> seriesCache (snd (saveSeriesCache J now flt episodes cid this))
        = Some \<lparr>data = episodes, timestamp = now, categoryId = cid\<rparr>
    \<and> (\<forall>e. flt (SetItem SERIES_CACHE_KEY) = Some e \<longrightarrow>
          Error ''Failed to save series cache:'' e
            \<in> set (console (snd (saveSeriesCache J now flt episodes cid this)))))
   \<and> (fst (saveSeriesCategoriesCache J now flt cats this) = Inr ()
    \<and> seriesCategoriesCache (snd (saveSeriesCategoriesCache J now flt cats this))
        = Some \<lparr>data = cats, timestamp = now\<rparr>
    \<and> (\<forall>e. flt (SetItem SERIES_CATEGORIES_CACHE_KEY) = Some e \<longrightarrow>
          Error ''Failed to save series categories cache:'' e
            \<in> set (console (snd (saveSeriesCategoriesCache J now flt cats this)))))
   \<and> (fst (saveCredentials J flt this) = Inr ()
    \<and> (\<forall>e. flt (SetItem AUTH_STORAGE_KEY) = Some e \<longrightarrow>
          Error ''Failed to save auth data:'' e \<in> set (console (snd (saveCredentials J flt this)))))
   \<and> (fst (loadCredentials J flt this) = Inr ()
    \<and> (\<forall>e. flt (GetItem AUTH_STORAGE_KEY) = Some e \<longrightarrow>
          Error ''Failed to load auth data:'' e \<in> set (console (snd (loadCredentials J flt this)))))
   \<and> (fst (loadCaches J flt this) = Inr ()
    \<and> (flt (GetItem VOD_CACHE_KEY) \<noteq> None \<or> flt (GetItem VOD_CATEGORIES_CACHE_KEY) \<noteq> None
       \<or> flt (GetItem SERIES_CACHE_KEY) \<noteq> None
       \<or> flt (GetItem SERIES_CATEGORIES_CACHE_KEY) \<noteq> None \<longrightarrow>
         (\<exists>e k. flt (GetItem k) = Some e
              \<and> console (snd (loadCaches J flt this))
                  = console this @ [Error ''Failed to load caches:'' e])))
   \<and> (remove_fault env (RemoveItem VOD_CACHE_KEY) \<noteq> None
       \<or> remove_fault env (RemoveItem VOD_CATEGORIES_CACHE_KEY) \<noteq> None
       \<or> remove_fault env (RemoveItem SERIES_CACHE_KEY) \<noteq> None
       \<or> remove_fault env (RemoveItem SERIES_CATEGORIES_CACHE_KEY) \<noteq> None \<longrightarrow>
         (\<exists>e k. remove_fault env (RemoveItem k) = Some e
              \<and> fst (clearCache J env this) = Inl e
              \<and> console (snd (clearCache J env this))
                  = console this @ [Error ''Error clearing cache:'' e]
              \<and> vodCache (snd (clearCache J env this)) = None
              \<and> vodCategoriesCache (snd (clearCache J env this)) = None
              \<and> seriesCache (snd (clearCache J env this)) = None
              \<and> seriesCategoriesCache (snd (clearCache J env this)) = None))
   \<and> (vodCache (snd (logout flt this)) = None \<and> vodCategoriesCache (snd (logout flt this)) = None
    \<and> seriesCache (snd (logout flt this)) = None
    \<and> seriesCategoriesCache (snd (logout flt this)) = None
    \<and> credentials (snd (logout flt this)) = None \<and> authData (snd (logout flt this)) = None
    \<and> (flt (RemoveItem AUTH_STORAGE_KEY) = None \<and> flt (RemoveItem VOD_CACHE_KEY) = None
       \<and> flt (RemoveItem VOD_CATEGORIES_CACHE_KEY) = None
       \<and> flt (RemoveItem SERIES_CACHE_KEY) = None
       \<and> flt (RemoveItem SERIES_CATEGORIES_CACHE_KEY) = None \<longrightarrow>
         fst (logout flt this) = Inr ())
    \<and> (flt (RemoveItem AUTH_STORAGE_KEY) = None \<and> flt (RemoveItem VOD_CACHE_KEY) = None
       \<and> flt (RemoveItem VOD_CATEGORIES_CACHE_KEY) = None
       \<and> flt (RemoveItem SERIES_CACHE_KEY) = None
       \<and> flt (RemoveItem SERIES_CATEGORIES_CACHE_KEY) = None
       \<and> credentials this = Some c \<and> authData this \<noteq> None
       \<and> XtreamCredentials.username c \<noteq> []
       \<and> (flt (RemoveItem (''huluxtream_favorites_'' @ XtreamCredentials.username c)) \<noteq> None
          \<or> flt (RemoveItem (XtreamCredentials.username c
                 @ ''_huluxtream_parental_control_enabled'')) \<noteq> None
          \<or> flt (RemoveItem (XtreamCredentials.username c
                 @ ''_huluxtream_parental_control_pin'')) \<noteq> None
          \<or> flt (RemoveItem (XtreamCredentials.username c
                 @ ''_huluxtream_restricted_categories'')) \<noteq> None) \<longrightarrow>
         (\<exists>e k. k \<in> {''huluxtream_favorites_'' @ XtreamCredentials.username c,
                     XtreamCredentials.username c @ ''_huluxtream_parental_control_enabled'',
                     XtreamCredentials.username c @ ''_huluxtream_parental_control_pin'',
                     XtreamCredentials.username c @ ''_huluxtream_restricted_categories''}
              \<and> flt (RemoveItem k) = Some e
              \<and> fst (logout flt this) = Inr ()
              \<and> console (snd (logout flt this))
                  = console this @ [Error ''Error clearing user-specific data:'' e])))"
proof (intro conjI)
  show "fst (saveVodCache J now flt movies cid this) = Inr ()"
    "vodCache (snd (saveVodCache J now flt movies cid this))
        = Some \<lparr>data = movies, timestamp = now, categoryId = cid\<rparr>"
    "\<forall>e. flt (SetItem VOD_CACHE_KEY) = Some e \<longrightarrow>
          Error ''Failed to save VOD cache:'' e
            \<in> set (console (snd (saveVodCache J now flt movies cid this)))"
    by (simp_all add: saveVodCache_eq split: option.splits)
  show "fst (saveVodCategoriesCache J now flt cats this) = Inr ()"
    "vodCategoriesCache (snd (saveVodCategoriesCache J now flt cats this))
        = Some \<lparr>data = cats, timestamp = now\<rparr>"
    "\<forall>e. flt (SetItem VOD_CATEGORIES_CACHE_KEY) = Some e \<longrightarrow>
          Error ''Failed to save VOD categories cache:'' e
            \<in> set (console (snd (saveVodCategoriesCache J now flt cats this)))"
    by (simp_all add: saveVodCategoriesCache_eq split: option.splits)
  show "fst (saveSeriesCache J now flt episodes cid this) = Inr ()"
    "seriesCache (snd (saveSeriesCache J now flt episodes cid this))
        = Some \<lparr>data = episodes, timestamp = now, categoryId = cid\<rparr>"
    "\<forall>e. flt (SetItem SERIES_CACHE_KEY) = Some e \<longrightarrow>
          Error ''Failed to save series cache:'' e
            \<in> set (console (snd (saveSeriesCache J now flt episodes cid this)))"
    by (simp_all add: saveSeriesCache_eq split: option.splits)
  show "fst (saveSeriesCategoriesCache J now flt cats this) = Inr ()"
    "seriesCategoriesCache (snd (saveSeriesCategoriesCache J now flt cats this))
        = Some \<lparr>data = cats, timestamp = now\<rparr>"
    "\<forall>e. flt (SetItem SERIES_CATEGORIES_CACHE_KEY) = Some e \<longrightarrow>
          Error ''Failed to save series categories cache:'' e
            \<in> set (console (snd (saveSeriesCategoriesCache J now flt cats this)))"
    by (simp_all add: saveSeriesCategoriesCache_eq split: option.splits)
  show "fst (saveCredentials J flt this) = Inr ()"
    "\<forall>e. flt (SetItem AUTH_STORAGE_KEY) = Some e \<longrightarrow>
          Error ''Failed to save auth data:'' e \<in> set (console (snd (saveCredentials J flt this)))"
    by (simp_all add: saveCredentials_eq split: option.splits)
  show "fst (loadCredentials J flt this) = Inr ()"
    "\<forall>e. flt (GetItem AUTH_STORAGE_KEY) = Some e \<longrightarrow>
          Error ''Failed to load auth data:'' e \<in> set (console (snd (loadCredentials J flt this)))"
    by (simp_all add: loadCredentials_eq split: option.splits)
  show "fst (loadCaches J flt this) = Inr ()" by (rule loadCaches_resolves)
  show "flt (GetItem VOD_CACHE_KEY) \<noteq> None \<or> flt (GetItem VOD_CATEGORIES_CACHE_KEY) \<noteq> None
       \<or> flt (GetItem SERIES_CACHE_KEY) \<noteq> None
       \<or> flt (GetItem SERIES_CATEGORIES_CACHE_KEY) \<noteq> None \<longrightarrow>
         (\<exists>e k. flt (GetItem k) = Some e
              \<and> console (snd (loadCaches J flt this))
                  = console this @ [Error ''Failed to load caches:'' e])"
  proof
    assume "flt (GetItem VOD_CACHE_KEY) \<noteq> None \<or> flt (GetItem VOD_CATEGORIES_CACHE_KEY) \<noteq> None
       \<or> flt (GetItem SERIES_CACHE_KEY) \<noteq> None \<or> flt (GetItem SERIES_CATEGORIES_CACHE_KEY) \<noteq> None"
    from loadCaches_read_rejects [OF this, of J this]
    show "\<exists>e k. flt (GetItem k) = Some e
              \<and> console (snd (loadCaches J flt this))
                  = console this @ [Error ''Failed to load caches:'' e]"
      by auto
  qed
  show "remove_fault env (RemoveItem VOD_CACHE_KEY) \<noteq> None
       \<or> remove_fault env (RemoveItem VOD_CATEGORIES_CACHE_KEY) \<noteq> None
       \<or> remove_fault env (RemoveItem SERIES_CACHE_KEY) \<noteq> None
       \<or> remove_fault env (RemoveItem SERIES_CATEGORIES_CACHE_KEY) \<noteq> None \<longrightarrow>
         (\<exists>e k. remove_fault env (RemoveItem k) = Some e
              \<and> fst (clearCache J env this) = Inl e
              \<and> console (snd (clearCache J env this))
                  = console this @ [Error ''Error clearing cache:'' e]
              \<and> vodCache (snd (clearCache J env this)) = None
              \<and> vodCategoriesCache (snd (clearCache J env this)) = None
              \<and> seriesCache (snd (clearCache J env this)) = None
              \<and> seriesCategoriesCache (snd (clearCache J env this)) = None)"
  proof
    assume "remove_fault env (RemoveItem VOD_CACHE_KEY) \<noteq> None
       \<or> remove_fault env (RemoveItem VOD_CATEGORIES_CACHE_KEY) \<noteq> None
       \<or> remove_fault env (RemoveItem SERIES_CACHE_KEY) \<noteq> None
       \<or> remove_fault env (RemoveItem SERIES_CATEGORIES_CACHE_KEY) \<noteq> None"
    from clearCache_remove_rejects [OF this, of J this]
    show "\<exists>e k. remove_fault env (RemoveItem k) = Some e
              \<and> fst (clearCache J env this) = Inl e
              \<and> console (snd (clearCache J env this))
                  = console this @ [Error ''Error clearing cache:'' e]
              \<and> vodCache (snd (clearCache J env this)) = None
              \<and> vodCategoriesCache (snd (clearCache J env this)) = None
              \<and> seriesCache (snd (clearCache J env this)) = None
              \<and> seriesCategoriesCache (snd (clearCache J env this)) = None"
      by blast
  qed
  show "vodCache (snd (logout flt this)) = None" "vodCategoriesCache (snd (logout flt this)) = None"
    "seriesCache (snd (logout flt this)) = None"
    "seriesCategoriesCache (snd (logout flt this)) = None"
    "credentials (snd (logout flt this)) = None" "authData (snd (logout flt this)) = None"
    using logout_memory [of flt this] by simp_all
  show "flt (RemoveItem AUTH_STORAGE_KEY) = None \<and> flt (RemoveItem VOD_CACHE_KEY) = None
       \<and> flt (RemoveItem VOD_CATEGORIES_CACHE_KEY) = None
       \<and> flt (RemoveItem SERIES_CACHE_KEY) = None
       \<and> flt (RemoveItem SERIES_CATEGORIES_CACHE_KEY) = None \<longrightarrow>
         fst (logout flt this) = Inr ()"
    using logout_removals_ok [of flt this] by simp
  show "flt (RemoveItem AUTH_STORAGE_KEY) = None \<and> flt (RemoveItem VOD_CACHE_KEY) = None
    \<and> flt (RemoveItem VOD_CATEGORIES_CACHE_KEY) = None
    \<and> flt (RemoveItem SERIES_CACHE_KEY) = None
    \<and> flt (RemoveItem SERIES_CATEGORIES_CACHE_KEY) = None
    \<and> credentials this = Some c \<and> authData this \<noteq> None
    \<and> XtreamCredentials.username c \<noteq> []
    \<and> (flt (RemoveItem (''huluxtream_favorites_'' @ XtreamCredentials.username c)) \<noteq> None
       \<or> flt (RemoveItem (XtreamCredentials.username c
              @ ''_huluxtream_parental_control_enabled'')) \<noteq> None
       \<or> flt (RemoveItem (XtreamCredentials.username c
              @ ''_huluxtream_parental_control_pin'')) \<noteq> None
       \<or> flt (RemoveItem (XtreamCredentials.username c
              @ ''_huluxtream_restricted_categories'')) \<noteq> None) \<longrightarrow>
      (\<exists>e k. k \<in> {''huluxtream_favorites_'' @ XtreamCredentials.username c,
                  XtreamCredentials.username c @ ''_huluxtream_parental_control_enabled'',
                  XtreamCredentials.username c @ ''_huluxtream_parental_control_pin'',
                  XtreamCredentials.username c @ ''_huluxtream_restricted_categories''}
           \<and> flt (RemoveItem k) = Some e
           \<and> fst (logout flt this) = Inr ()
           \<and> console (snd (logout flt this))
               = console this @ [Error ''Error clearing user-specific data:'' e])"
  proof (intro impI, elim conjE)
    assume ok: "flt (RemoveItem AUTH_STORAGE_KEY) = None" "flt (RemoveItem VOD_CACHE_KEY) = None"
      "flt (RemoveItem VOD_CATEGORIES_CACHE_KEY) = None" "flt (RemoveItem SERIES_CACHE_KEY) = None"
      "flt (RemoveItem SERIES_CATEGORIES_CACHE_KEY) = None"
    assume s: "credentials this = Some c" "authData this \<noteq> None"
      "XtreamCredentials.username c \<noteq> []"
    assume "flt (RemoveItem (''huluxtream_favorites_'' @ XtreamCredentials.username c)) \<noteq> None
          \<or> flt (RemoveItem (XtreamCredentials.username c
                 @ ''_huluxtream_parental_control_enabled'')) \<noteq> None
          \<or> flt (RemoveItem (XtreamCredentials.username c
                 @ ''_huluxtream_parental_control_pin'')) \<noteq> None
          \<or> flt (RemoveItem (XtreamCredentials.username c
                 @ ''_huluxtream_restricted_categories'')) \<noteq> None"
    from logout_user_removal_rejects [OF ok s this]
    show "\<exists>e k. k \<in> {''huluxtream_favorites_'' @ XtreamCredentials.username c,
                     XtreamCredentials.username c @ ''_huluxtream_parental_control_enabled'',
                     XtreamCredentials.username c @ ''_huluxtream_parental_control_pin'',
                     XtreamCredentials.username c @ ''_huluxtream_restricted_categories''}
              \<and> flt (RemoveItem k) = Some e
              \<and> fst (logout flt this) = Inr ()
              \<and> console (snd (logout flt this))
                  = console this @ [Error ''Error clearing user-specific data:'' e]" .
  qed
qed

theorem store_failures_where_caught_witness:
  "failing (SetItem VOD_CACHE_KEY) (SetItem VOD_CACHE_KEY) = Some (Rejected ''storage failure'')
   \<and> fst (saveVodCache demo_JSON 1000 (failing (SetItem VOD_CACHE_KEY)) [''Heat''] None
          demo_session) = Inr ()
   \<and> vodCache (snd (saveVodCache demo_JSON 1000 (failing (SetItem VOD_CACHE_KEY)) [''Heat'']
          None demo_session))
       = Some \<lparr>data = [''Heat''], timestamp = 1000, categoryId = None\<rparr>
   \<and> Error ''Failed to save VOD cache:'' (Rejected ''storage failure'')
       \<in> set (console (snd (saveVodCache demo_JSON 1000 (failing (SetItem VOD_CACHE_KEY))
            [''Heat''] None demo_session)))
   \<and> vodCategoriesCache (snd (saveVodCategoriesCache demo_JSON 1000
          (failing (SetItem VOD_CATEGORIES_CACHE_KEY)) demo_categories demo_session))
       = Some \<lparr>data = demo_categories, timestamp = 1000\<rparr>
   \<and> Error ''Failed to save VOD categories cache:'' (Rejected ''storage failure'')
       \<in> set (console (snd (saveVodCategoriesCache demo_JSON 1000
            (failing (SetItem VOD_CATEGORIES_CACHE_KEY)) demo_categories demo_session)))
   \<and> seriesCache (snd (saveSeriesCache demo_JSON 1000 (failing (SetItem SERIES_CACHE_KEY))
          [''Dark''] (Some ''9'') demo_session))
       = Some \<lparr>data = [''Dark''], timestamp = 1000, categoryId = Some ''9''\<rparr>
   \<and> Error ''Failed to save series cache:'' (Rejected ''storage failure'')
       \<in> set (console (snd (saveSeriesCache demo_JSON 1000 (failing (SetItem SERIES_CACHE_KEY))
            [''Dark''] (Some ''9'') demo_session)))
   \<and> seriesCategoriesCache (snd (saveSeriesCategoriesCache demo_JSON 1000
          (failing (SetItem SERIES_CATEGORIES_CACHE_KEY)) demo_categories demo_session))
       = Some \<lparr>data = demo_categories, timestamp = 1000\<rparr>
   \<and> Error ''Failed to save series categories cache:'' (Rejected ''storage failure'')
       \<in> set (console (snd (saveSeriesCategoriesCache demo_JSON 1000
            (failing (SetItem SERIES_CATEGORIES_CACHE_KEY)) demo_categories demo_session)))
   \<and> fst (saveCredentials demo_JSON (failing (SetItem AUTH_STORAGE_KEY)) demo_session) = Inr ()
   \<and> Error ''Failed to save auth data:'' (Rejected ''storage failure'')
       \<in> set (console (snd (saveCredentials demo_JSON (failing (SetItem AUTH_STORAGE_KEY))
            demo_session)))
   \<and> fst (loadCredentials demo_JSON (failing (GetItem AUTH_STORAGE_KEY)) demo_stored) = Inr ()
   \<and> Error ''Failed to load auth data:'' (Rejected ''storage failure'')
       \<in> set (console (snd (loadCredentials demo_JSON (failing (GetItem AUTH_STORAGE_KEY))
            demo_stored)))
   \<and> fst (loadCaches demo_JSON (failing (GetItem VOD_CACHE_KEY)) demo_stored) = Inr ()
   \<and> console (snd (loadCaches demo_JSON (failing (GetItem VOD_CACHE_KEY)) demo_stored))
       = [Error ''Failed to load caches:'' (Rejected ''storage failure'')]
   \<and> fst (clearCache demo_JSON
          (demo_clear_env (failing (RemoveItem VOD_CATEGORIES_CACHE_KEY)) (Inr [''News''])
             (Inr [''Heat'']) (Inr [''Dark''])) demo_cached)
       = Inl (Rejected ''storage failure'')
   \<and> vodCache (snd (clearCache demo_JSON
          (demo_clear_env (failing (RemoveItem VOD_CATEGORIES_CACHE_KEY)) (Inr [''News''])
             (Inr [''Heat'']) (Inr [''Dark''])) demo_cached)) = None
   \<and> fst (logout no_fault demo_cached) = Inr ()
   \<and> failing (RemoveItem ''ana_huluxtream_parental_control_pin'')
         (RemoveItem ''ana_huluxtream_parental_control_pin'') = Some (Rejected ''storage failure'')
   \<and> fst (logout (failing (RemoveItem ''ana_huluxtream_parental_control_pin'')) demo_cached)
       = Inr ()
   \<and> console (snd (logout (failing (RemoveItem ''ana_huluxtream_parental_control_pin''))
          demo_cached))
       = [Error ''Error clearing user-specific data:'' (Rejected ''storage failure'')]"
proof -
  let ?env = "demo_clear_env (failing (RemoveItem VOD_CATEGORIES_CACHE_KEY)) (Inr [''News''])
             (Inr [''Heat'']) (Inr [''Dark''])"
  have f: "failing bad op = Some e \<Longrightarrow> e = Rejected ''storage failure''" for bad op e
    by (simp add: failing_def split: if_splits)
  have w: "failing (SetItem VOD_CACHE_KEY) (SetItem VOD_CACHE_KEY)
      = Some (Rejected ''storage failure'')"
    by (simp add: failing_def)
  have g: "failing (GetItem VOD_CACHE_KEY) (GetItem VOD_CACHE_KEY) \<noteq> None"
    by (simp add: failing_def)
  have same: "failing op op = Some (Rejected ''storage failure'')" for op
    by (simp add: failing_def)
  note a2 = store_failures_where_caught [where J = demo_JSON and now = 1000
      and flt = "failing (SetItem VOD_CATEGORIES_CACHE_KEY)" and cats = demo_categories
      and this = demo_session, THEN conjunct2, THEN conjunct1]
  note a3 = store_failures_where_caught [where J = demo_JSON and now = 1000
      and flt = "failing (SetItem SERIES_CACHE_KEY)" and episodes = "[''Dark'']"
      and cid = "Some ''9''" and this = demo_session, THEN conjunct2, THEN conjunct2, THEN conjunct1]
  note a4 = store_failures_where_caught [where J = demo_JSON and now = 1000
      and flt = "failing (SetItem SERIES_CATEGORIES_CACHE_KEY)" and cats = demo_categories
      and this = demo_session, THEN conjunct2, THEN conjunct2, THEN conjunct2, THEN conjunct1]
  note a5 = store_failures_where_caught [where J = demo_JSON
      and flt = "failing (SetItem AUTH_STORAGE_KEY)" and this = demo_session,
      THEN conjunct2, THEN conjunct2, THEN conjunct2, THEN conjunct2, THEN conjunct1]
  note a6 = store_failures_where_caught [where J = demo_JSON
      and flt = "failing (GetItem AUTH_STORAGE_KEY)" and this = demo_stored,
      THEN conjunct2, THEN conjunct2, THEN conjunct2, THEN conjunct2, THEN conjunct2, THEN conjunct1]
  from a2 a3 a4 a5 a6 have 0:
    "vodCategoriesCache (snd (saveVodCategoriesCache demo_JSON 1000
          (failing (SetItem VOD_CATEGORIES_CACHE_KEY)) demo_categories demo_session))
       = Some \<lparr>data = demo_categories, timestamp = 1000\<rparr>"
    "Error ''Failed to save VOD categories cache:'' (Rejected ''storage failure'')
       \<in> set (console (snd (saveVodCategoriesCache demo_JSON 1000
            (failing (SetItem VOD_CATEGORIES_CACHE_KEY)) demo_categories demo_session)))"
    "seriesCache (snd (saveSeriesCache demo_JSON 1000 (failing (SetItem SERIES_CACHE_KEY))
          [''Dark''] (Some ''9'') demo_session))
       = Some \<lparr>data = [''Dark''], timestamp = 1000, categoryId = Some ''9''\<rparr>"
    "Error ''Failed to save series cache:'' (Rejected ''storage failure'')
       \<in> set (console (snd (saveSeriesCache demo_JSON 1000 (failing (SetItem SERIES_CACHE_KEY))
            [''Dark''] (Some ''9'') demo_session)))"
    "seriesCategoriesCache (snd (saveSeriesCategoriesCache demo_JSON 1000
          (failing (SetItem SERIES_CATEGORIES_CACHE_KEY)) demo_categories demo_session))
       = Some \<lparr>data = demo_categories, timestamp = 1000\<rparr>"
    "Error ''Failed to save series categories cache:'' (Rejected ''storage failure'')
       \<in> set (console (snd (saveSeriesCategoriesCache demo_JSON 1000
            (failing (SetItem SERIES_CATEGORIES_CACHE_KEY)) demo_categories demo_session)))"
    "fst (saveCredentials demo_JSON (failing (SetItem AUTH_STORAGE_KEY)) demo_session) = Inr ()"
    "Error ''Failed to save auth data:'' (Rejected ''storage failure'')
       \<in> set (console (snd (saveCredentials demo_JSON (failing (SetItem AUTH_STORAGE_KEY))
            demo_session)))"
    "fst (loadCredentials demo_JSON (failing (GetItem AUTH_STORAGE_KEY)) demo_stored) = Inr ()"
    "Error ''Failed to load auth data:'' (Rejected ''storage failure'')
       \<in> set (console (snd (loadCredentials demo_JSON (failing (GetItem AUTH_STORAGE_KEY))
            demo_stored)))"
    by (simp_all add: same)
  have r: "remove_fault ?env (RemoveItem VOD_CATEGORIES_CACHE_KEY) \<noteq> None"
      "remove_fault ?env = failing (RemoveItem VOD_CATEGORIES_CACHE_KEY)"
    by (simp_all add: demo_clear_env_def failing_def)
  have c: "console demo_stored = []"
    by (simp add: demo_stored_def demo_blank_def)
  note a = store_failures_where_caught [where J = demo_JSON and now = 1000
      and flt = "failing (SetItem VOD_CACHE_KEY)" and movies = "[''Heat'']" and cid = None
      and this = demo_session, THEN conjunct1]
  note b = store_failures_where_caught [where J = demo_JSON
      and flt = "failing (GetItem VOD_CACHE_KEY)" and this = demo_stored,
      THEN conjunct2, THEN conjunct2, THEN conjunct2, THEN conjunct2, THEN conjunct2, THEN conjunct2, THEN conjunct1]
  note d = store_failures_where_caught [where J = demo_JSON and env = ?env and this = demo_cached
      and flt = no_fault, THEN conjunct2, THEN conjunct2, THEN conjunct2, THEN conjunct2, THEN conjunct2, THEN conjunct2, THEN conjunct2,
      THEN conjunct1]
  note l = store_failures_where_caught [where J = demo_JSON and this = demo_cached
      and flt = no_fault, THEN conjunct2, THEN conjunct2, THEN conjunct2, THEN conjunct2, THEN conjunct2, THEN conjunct2, THEN conjunct2, THEN conjunct2,
      THEN conjunct2, THEN conjunct2, THEN conjunct2, THEN conjunct2, THEN conjunct2, THEN conjunct2, THEN conjunct1]
  from b g have 1: "fst (loadCaches demo_JSON (failing (GetItem VOD_CACHE_KEY)) demo_stored) = Inr ()"
    and "\<exists>e k. failing (GetItem VOD_CACHE_KEY) (GetItem k) = Some e
       \<and> console (snd (loadCaches demo_JSON (failing (GetItem VOD_CACHE_KEY)) demo_stored))
           = console demo_stored @ [Error ''Failed to load caches:'' e]"
    by blast+
  then obtain e k0 where e: "failing (GetItem VOD_CACHE_KEY) (GetItem k0) = Some e"
      "console (snd (loadCaches demo_JSON (failing (GetItem VOD_CACHE_KEY))
         demo_stored)) = console demo_stored @ [Error ''Failed to load caches:'' e]"
    by blast
  from e(1) have "e = Rejected ''storage failure''" by (rule f)
  with e(2) c
  have 2: "console (snd (loadCaches demo_JSON (failing (GetItem VOD_CACHE_KEY)) demo_stored))
       = [Error ''Failed to load caches:'' (Rejected ''storage failure'')]"
    by simp
  from d r(1) obtain e' k where k: "remove_fault ?env (RemoveItem k) = Some e'"
      "fst (clearCache demo_JSON ?env demo_cached) = Inl e'"
      "vodCache (snd (clearCache demo_JSON ?env demo_cached)) = None"
    by blast
  from k(1) have "e' = Rejected ''storage failure''"
    unfolding r(2) by (rule f)
  with k have 3: "fst (clearCache demo_JSON ?env demo_cached) = Inl (Rejected ''storage failure'')"
      "vodCache (snd (clearCache demo_JSON ?env demo_cached)) = None"
    by simp_all
  from l have 4: "fst (logout no_fault demo_cached) = Inr ()"
    by (simp add: no_fault_def)
  let ?pin = "failing (RemoveItem ''ana_huluxtream_parental_control_pin'')"
  have fixed: "?pin (RemoveItem AUTH_STORAGE_KEY) = None" "?pin (RemoveItem VOD_CACHE_KEY) = None"
      "?pin (RemoveItem VOD_CATEGORIES_CACHE_KEY) = None" "?pin (RemoveItem SERIES_CACHE_KEY) = None"
      "?pin (RemoveItem SERIES_CATEGORIES_CACHE_KEY) = None"
    by (simp_all add: failing_def AUTH_STORAGE_KEY_def VOD_CACHE_KEY_def
        VOD_CATEGORIES_CACHE_KEY_def SERIES_CACHE_KEY_def SERIES_CATEGORIES_CACHE_KEY_def)
  have user: "credentials demo_cached = Some demo_credentials" "authData demo_cached \<noteq> None"
      "XtreamCredentials.username demo_credentials = ''ana''" "console demo_cached = []"
    by (simp_all add: demo_cached_def demo_session_def demo_blank_def demo_credentials_def)
  have pin: "?pin (RemoveItem ''ana_huluxtream_parental_control_pin'')
      = Some (Rejected ''storage failure'')"
    by (simp add: failing_def)
  note m = store_failures_where_caught [where J = demo_JSON and flt = ?pin and this = demo_cached
      and c = demo_credentials, THEN conjunct2, THEN conjunct2, THEN conjunct2, THEN conjunct2, THEN conjunct2, THEN conjunct2, THEN conjunct2, THEN conjunct2,
      THEN conjunct2, THEN conjunct2, THEN conjunct2, THEN conjunct2, THEN conjunct2, THEN conjunct2, THEN conjunct2]
  have "\<exists>e k. k \<in> {''huluxtream_favorites_'' @ XtreamCredentials.username demo_credentials,
              XtreamCredentials.username demo_credentials @ ''_huluxtream_parental_control_enabled'',
              XtreamCredentials.username demo_credentials @ ''_huluxtream_parental_control_pin'',
              XtreamCredentials.username demo_credentials @ ''_huluxtream_restricted_categories''}
      \<and> ?pin (RemoveItem k) = Some e
      \<and> fst (logout ?pin demo_cached) = Inr ()
      \<and> console (snd (logout ?pin demo_cached))
          = console demo_cached @ [Error ''Error clearing user-specific data:'' e]"
    by (rule m [THEN mp]) (simp add: fixed user pin)
  then obtain e'' k'' where u: "?pin (RemoveItem k'') = Some e''"
      "fst (logout ?pin demo_cached) = Inr ()"
      "console (snd (logout ?pin demo_cached))
         = console demo_cached @ [Error ''Error clearing user-specific data:'' e'']"
    by blast
  from u(1) have "e'' = Rejected ''storage failure''" by (rule f)
  with u user(4) have 5: "fst (logout ?pin demo_cached) = Inr ()"
      "console (snd (logout ?pin demo_cached))
         = [Error ''Error clearing user-specific data:'' (Rejected ''storage failure'')]"
    by simp_all
  from a w 0 1 2 3 4 5 pin show ?thesis by simp
qed

text \<open>
  C7 as stated fails: a rejecting removal reaches the caller of \<open>clearCache()\<close> (caught,
  logged, and rejected again) and the caller of \<open>logout()\<close> (no handler around it).
\<close>

theorem store_failure_propagates_counterexample:
  "fst (clearCache demo_JSON
          (demo_clear_env (failing (RemoveItem SERIES_CACHE_KEY)) (Inr [''News''])
             (Inr [''Heat'']) (Inr [''Dark''])) demo_cached)
     = Inl (Rejected ''storage failure'')
   \<and> fst (logout (failing (RemoveItem VOD_CACHE_KEY)) demo_cached)
     = Inl (Rejected ''storage failure'')"
proof -
  let ?env = "demo_clear_env (failing (RemoveItem SERIES_CACHE_KEY)) (Inr [''News''])
             (Inr [''Heat'']) (Inr [''Dark''])"
  have f: "failing bad op = Some e \<Longrightarrow> e = Rejected ''storage failure''" for bad op e
    by (simp add: failing_def split: if_splits)
  have r: "remove_fault ?env (RemoveItem VOD_CACHE_KEY) \<noteq> None
      \<or> remove_fault ?env (RemoveItem VOD_CATEGORIES_CACHE_KEY) \<noteq> None
      \<or> remove_fault ?env (RemoveItem SERIES_CACHE_KEY) \<noteq> None
      \<or> remove_fault ?env (RemoveItem SERIES_CATEGORIES_CACHE_KEY) \<noteq> None"
    and r': "remove_fault ?env = failing (RemoveItem SERIES_CACHE_KEY)"
    by (simp_all add: demo_clear_env_def failing_def)
  from clearCache_remove_rejects [OF r, of demo_JSON demo_cached]
  obtain e k where k: "remove_fault ?env (RemoveItem k) = Some e"
      "fst (clearCache demo_JSON ?env demo_cached) = Inl e"
    by blast
  from k(1) have "e = Rejected ''storage failure''" unfolding r' by (rule f)
  with k have 1: "fst (clearCache demo_JSON ?env demo_cached) = Inl (Rejected ''storage failure'')"
    by simp
  have "failing (RemoveItem VOD_CACHE_KEY) (RemoveItem AUTH_STORAGE_KEY) \<noteq> None
      \<or> failing (RemoveItem VOD_CACHE_KEY) (RemoveItem VOD_CACHE_KEY) \<noteq> None
      \<or> failing (RemoveItem VOD_CACHE_KEY) (RemoveItem VOD_CATEGORIES_CACHE_KEY) \<noteq> None
      \<or> failing (RemoveItem VOD_CACHE_KEY) (RemoveItem SERIES_CACHE_KEY) \<noteq> None
      \<or> failing (RemoveItem VOD_CACHE_KEY) (RemoveItem SERIES_CATEGORIES_CACHE_KEY) \<noteq> None"
    by (simp add: failing_def)
  from logout_remove_rejects [OF this, of demo_cached]
  obtain e' k' where k': "failing (RemoveItem VOD_CACHE_KEY) (RemoveItem k') = Some e'"
      "fst (logout (failing (RemoveItem VOD_CACHE_KEY)) demo_cached) = Inl e'"
    by blast
  from k'(1) have "e' = Rejected ''storage failure''" by (rule f)
  with k' 1 show ?thesis by simp
qed

end
